theory Spec2Isabelle
  imports Complex_Main
begin

section \<open>Host values\<close>

text \<open>
  JavaScript numbers. Lowering only copies numbers and tests them for truthiness, so a
  finite number is a real; the three non-finite values are kept apart.
\<close>

datatype jsnum = Num real | PosInf | NegInf | NaN

text \<open>What \<open>block.getFieldValue\<close> returns for a field that exists: a number field gives a
  number, every other field (text input, dropdown, checkbox) gives a string.\<close>

datatype fieldval = FNum jsnum | FStr string

text \<open>Values stored in the parameter record of a command node.\<close>

datatype jsval = JNum jsnum | JStr string | JBool bool
  | JArr "jsval list" | JObj "(string \<times> jsval) list"

text \<open>
  The two services of the host that lowering calls and that are not part of the repository:
  ECMAScript's string-to-number conversion behind \<open>Number(...)\<close>, and Blockly's
  \<open>idGenerator.genUid()\<close>, which returns a fresh random string on each call (here: the
  \<open>k\<close>-th call returns \<open>genUid H k\<close>).
\<close>

record host =
  StringToNumber :: "string \<Rightarrow> jsnum"
  genUid :: "nat \<Rightarrow> string"

datatype error = UnsupportedExpression string | TypeError string

definition bindE :: "error + 'a \<Rightarrow> ('a \<Rightarrow> error + 'b) \<Rightarrow> error + 'b" where
  "bindE m f = (case m of Inl e \<Rightarrow> Inl e | Inr x \<Rightarrow> f x)"

fun truthy_num :: "jsnum \<Rightarrow> bool" where
  "truthy_num (Num r) = (r \<noteq> 0)"
| "truthy_num PosInf = True"
| "truthy_num NegInf = True"
| "truthy_num NaN = False"

fun truthy :: "fieldval \<Rightarrow> bool" where
  "truthy (FNum n) = truthy_num n"
| "truthy (FStr s) = (s \<noteq> [])"

text \<open>\<open>v || d\<close> where \<open>v\<close> is a field value or \<open>null\<close>.\<close>

definition js_or :: "fieldval option \<Rightarrow> fieldval \<Rightarrow> fieldval" where
  "js_or v d = (case v of None \<Rightarrow> d | Some x \<Rightarrow> if truthy x then x else d)"

text \<open>\<open>Number(v)\<close>.\<close>

fun Number_js :: "host \<Rightarrow> fieldval \<Rightarrow> jsnum" where
  "Number_js H (FNum n) = n"
| "Number_js H (FStr s) = StringToNumber H s"

fun of_field :: "fieldval \<Rightarrow> jsval" where
  "of_field (FNum n) = JNum n"
| "of_field (FStr s) = JStr s"

text \<open>\<open>s.toLowerCase()\<close> on the ASCII letters (field values are ASCII identifiers).\<close>

definition lower_char :: "char \<Rightarrow> char" where
  "lower_char c =
     (case map_of (zip ''ABCDEFGHIJKLMNOPQRSTUVWXYZ'' ''abcdefghijklmnopqrstuvwxyz'') c of
        Some l \<Rightarrow> l
      | None \<Rightarrow> c)"

definition toLowerCase :: "string \<Rightarrow> string" where
  "toLowerCase s = map lower_char s"

text \<open>\<open>(v || d).toLowerCase()\<close>: a truthy number has no such method, which is a TypeError.\<close>

definition lowerOr :: "fieldval option \<Rightarrow> string \<Rightarrow> error + string" where
  "lowerOr v d = (case js_or v (FStr d) of
       FStr s \<Rightarrow> Inr (toLowerCase s)
     | FNum n \<Rightarrow> Inl (TypeError ''toLowerCase is not a function''))"

section \<open>The visual program graph\<close>

text \<open>
  A Blockly block as far as the generator reads it: its \<open>type\<close>, \<open>data\<close> (\<open>null\<close> or a
  string), \<open>id\<close>, its fields, its named inputs with the block connected to each (if any),
  and the block connected below it (if any).
\<close>

datatype block = Block
  (btype: string)
  (bdata: "string option")
  (bid: string)
  (bfields: "(string \<times> fieldval) list")
  (binputs: "(string \<times> block option) list")
  (bnext: "block option")

definition getFieldValue :: "block \<Rightarrow> string \<Rightarrow> fieldval option" where
  "getFieldValue b name = map_of (bfields b) name"

definition getInput :: "block \<Rightarrow> string \<Rightarrow> bool" where
  "getInput b name = (map_of (binputs b) name \<noteq> None)"

definition getInputTargetBlock :: "block \<Rightarrow> string \<Rightarrow> block option" where
  "getInputTargetBlock b name = (case map_of (binputs b) name of None \<Rightarrow> None | Some t \<Rightarrow> t)"

definition getNextBlock :: "block \<Rightarrow> block option" where
  "getNextBlock b = bnext b"

section \<open>The intermediate representation\<close>

datatype expr =
    LiteralNumber jsnum
  | LiteralBoolean bool
  | LiteralNull
  | Comparison string expr expr
  | LogicBinary string expr expr
  | LogicNot expr
  | Ternary expr expr expr
  | Arithmetic string expr expr
  | MathSingle string expr
  | MathTrig string expr
  | MathConstant string
  | MathRound string expr
  | MathModulo expr expr
  | MathConstrain expr expr expr
  | MathRandomInt expr expr
  | MathRandomFloat

section \<open>Lowering expressions\<close>

lemma bindE_cong [fundef_cong]:
  "m = m' \<Longrightarrow> (\<And>x. m' = Inr x \<Longrightarrow> f x = f' x) \<Longrightarrow> bindE m f = bindE m' f'"
  by (cases m') (simp_all add: bindE_def)

lemma size_map_of_target:
  "map_of ins name = Some (Some c) \<Longrightarrow>
     size c < size_list (size_prod (\<lambda>_. 0) (size_option size)) ins"
  by (induction ins) (auto split: if_splits)

lemma size_getInputTargetBlock:
  "getInputTargetBlock b name = Some c \<Longrightarrow> size c < size b"
  by (cases b) (auto simp: getInputTargetBlock_def split: option.splits
      dest: size_map_of_target)

lemma size_option_getInputTargetBlock [termination_simp]:
  "size_option size (getInputTargetBlock b name) < Suc (size b)"
  by (cases "getInputTargetBlock b name"; cases b) (auto dest: size_getInputTargetBlock)

function expressionFrom :: "host \<Rightarrow> block option \<Rightarrow> error + expr" where
  "expressionFrom H None = Inr (LiteralNumber (Num 0))"
| "expressionFrom H (Some block) =
    (if btype block = ''math_number'' then
       Inr (LiteralNumber (Number_js H (js_or (getFieldValue block ''NUM'') (FNum (Num 0)))))
     else if btype block = ''logic_boolean'' then
       Inr (LiteralBoolean (getFieldValue block ''BOOL'' = Some (FStr ''TRUE'')))
     else if btype block = ''logic_compare'' then
       bindE (lowerOr (getFieldValue block ''OP'') ''EQ'') (\<lambda>op.
       bindE (expressionFrom H (getInputTargetBlock block ''A'')) (\<lambda>l.
       bindE (expressionFrom H (getInputTargetBlock block ''B'')) (\<lambda>r.
       Inr (Comparison op l r))))
     else if btype block = ''logic_operation'' then
       bindE (lowerOr (getFieldValue block ''OP'') ''AND'') (\<lambda>op.
       bindE (expressionFrom H (getInputTargetBlock block ''A'')) (\<lambda>l.
       bindE (expressionFrom H (getInputTargetBlock block ''B'')) (\<lambda>r.
       Inr (LogicBinary op l r))))
     else if btype block = ''logic_negate'' then
       bindE (expressionFrom H (getInputTargetBlock block ''BOOL'')) (\<lambda>a.
       Inr (LogicNot a))
     else if btype block = ''logic_null'' then
       Inr LiteralNull
     else if btype block = ''logic_ternary'' then
       bindE (expressionFrom H (getInputTargetBlock block ''IF'')) (\<lambda>c.
       bindE (expressionFrom H (getInputTargetBlock block ''THEN'')) (\<lambda>t.
       bindE (expressionFrom H (getInputTargetBlock block ''ELSE'')) (\<lambda>f.
       Inr (Ternary c t f))))
     else if btype block = ''math_arithmetic'' then
       bindE (lowerOr (getFieldValue block ''OP'') ''ADD'') (\<lambda>op.
       bindE (expressionFrom H (getInputTargetBlock block ''A'')) (\<lambda>l.
       bindE (expressionFrom H (getInputTargetBlock block ''B'')) (\<lambda>r.
       Inr (Arithmetic op l r))))
     else if btype block = ''math_single'' then
       bindE (lowerOr (getFieldValue block ''OP'') ''ROOT'') (\<lambda>op.
       bindE (expressionFrom H (getInputTargetBlock block ''NUM'')) (\<lambda>a.
       Inr (MathSingle op a)))
     else if btype block = ''math_trig'' then
       bindE (lowerOr (getFieldValue block ''OP'') ''SIN'') (\<lambda>op.
       bindE (expressionFrom H (getInputTargetBlock block ''NUM'')) (\<lambda>a.
       Inr (MathTrig op a)))
     else if btype block = ''math_constant'' then
       bindE (lowerOr (getFieldValue block ''CONSTANT'') ''PI'') (\<lambda>c.
       Inr (MathConstant c))
     else if btype block = ''math_round'' then
       bindE (lowerOr (getFieldValue block ''OP'') ''ROUND'') (\<lambda>op.
       bindE (expressionFrom H (getInputTargetBlock block ''NUM'')) (\<lambda>a.
       Inr (MathRound op a)))
     else if btype block = ''math_modulo'' then
       bindE (expressionFrom H (getInputTargetBlock block ''DIVIDEND'')) (\<lambda>l.
       bindE (expressionFrom H (getInputTargetBlock block ''DIVISOR'')) (\<lambda>r.
       Inr (MathModulo l r)))
     else if btype block = ''math_constrain'' then
       bindE (expressionFrom H (getInputTargetBlock block ''VALUE'')) (\<lambda>v.
       bindE (expressionFrom H (getInputTargetBlock block ''LOW'')) (\<lambda>l.
       bindE (expressionFrom H (getInputTargetBlock block ''HIGH'')) (\<lambda>h.
       Inr (MathConstrain v l h))))
     else if btype block = ''math_random_int'' then
       bindE (expressionFrom H (getInputTargetBlock block ''FROM'')) (\<lambda>l.
       bindE (expressionFrom H (getInputTargetBlock block ''TO'')) (\<lambda>h.
       Inr (MathRandomInt l h)))
     else if btype block = ''math_random_float'' then
       Inr MathRandomFloat
     else
       Inl (UnsupportedExpression (''Unsupported expression block: '' @ btype block)))"
  by pat_completeness auto
termination
  by (relation "measure (\<lambda>(H, ob). size_option size ob)") (auto simp: size_option_getInputTargetBlock)

section \<open>Lowering statements\<close>

datatype node =
    Command (node_id: string) (command: string) (parameters: "(string \<times> jsval) list option")
  | If (node_id: string) (branches: "(expr \<times> node list) list") (else_branch: "node list option")
  | Repeat (node_id: string) (count_expr: expr) (body: "node list")
  | While (node_id: string) (mode: string) (condition: expr) (body: "node list")
  | ForRange (node_id: string) (variable: jsval) (from_expr: expr) (to_expr: expr)
      (by_expr: expr) (body: "node list")
  | ForEach (node_id: string) (variable: jsval) (collection: expr) (body: "node list")
  | Flow (node_id: string) (flow: string)

text \<open>A statement together with the statements nested in it, in document order.\<close>

fun all_nodes :: "node \<Rightarrow> node list" where
  "all_nodes (Command i c p) = [Command i c p]"
| "all_nodes (If i brs el) =
     If i brs el # concat (map (\<lambda>br. concat (map all_nodes (snd br))) brs)
       @ (case el of None \<Rightarrow> [] | Some b \<Rightarrow> concat (map all_nodes b))"
| "all_nodes (Repeat i c b) = Repeat i c b # concat (map all_nodes b)"
| "all_nodes (While i m c b) = While i m c b # concat (map all_nodes b)"
| "all_nodes (ForRange i v f t s b) = ForRange i v f t s b # concat (map all_nodes b)"
| "all_nodes (ForEach i v c b) = ForEach i v c b # concat (map all_nodes b)"
| "all_nodes (Flow i f) = [Flow i f]"

text \<open>The metadata object starts as \<open>{}\<close>: every key absent.\<close>

record metadata =
  robot_brand :: "jsval option"
  namespace :: "jsval option"
  class_name :: "jsval option"
  method_name :: "jsval option"
  attach_console_logger :: "bool option"

definition empty_metadata :: metadata where
  "empty_metadata = \<lparr>robot_brand = None, namespace = None, class_name = None,
     method_name = None, attach_console_logger = None\<rparr>"

text \<open>What lowering touches outside its arguments: how many ids \<open>genUid\<close> has handed out,
  and the lines written with \<open>console.warn\<close>.\<close>

record world =
  uid_calls :: nat
  console :: "string list"

record document =
  version :: string
  doc_metadata :: metadata
  sequence :: "node list"

definition commandsWithoutParameters :: "string list" where
  "commandsWithoutParameters = [''disconnect_robot'', ''power_on_servo'', ''power_off_servo'',
     ''grab'', ''release'', ''print_numbers'']"

text \<open>\<open>Number(block.getFieldValue(name) || d)\<close>.\<close>

definition numberField :: "host \<Rightarrow> block \<Rightarrow> string \<Rightarrow> real \<Rightarrow> jsnum" where
  "numberField H block name d = Number_js H (js_or (getFieldValue block name) (FNum (Num d)))"

text \<open>The \<open>store ? { store_as: store } : {}\<close> readers of the three position and status
  queries.\<close>

definition storeReader :: "host \<Rightarrow> block \<Rightarrow> (string \<times> jsval) list" where
  "storeReader H block =
     (let store = js_or (getFieldValue block ''STORE'') (FStr [])
      in if truthy store then [(''store_as'', of_field store)] else [])"

definition cartesianPoint :: "host \<Rightarrow> block \<Rightarrow> string list \<Rightarrow> jsval" where
  "cartesianPoint H block ks =
     JObj (zip [''x'', ''y'', ''z'', ''rx'', ''ry'', ''rz'']
            (map (\<lambda>k. JNum (numberField H block k 0)) ks))"

text \<open>
  The table \<open>parameterReaders\<close>, key by key. A block type is looked up among the table's
  own keys (block types are never names of \<open>Object.prototype\<close> members).
\<close>

definition parameterReaders :: "(string \<times> (host \<Rightarrow> block \<Rightarrow> (string \<times> jsval) list)) list" where
  "parameterReaders = [
     (''connect_robot'', \<lambda>H block. [
        (''ip_address'', of_field (js_or (getFieldValue block ''IP'') (FStr ''192.168.0.10''))),
        (''port'', JNum (numberField H block ''PORT'' 60008)),
        (''timeout_ms'', JNum (numberField H block ''TIMEOUT'' 0))]),
     (''set_speed'', \<lambda>H block. [(''percentage'', JNum (numberField H block ''PERCENTAGE'' 0))]),
     (''set_acceleration'', \<lambda>H block.
        [(''percentage'', JNum (numberField H block ''PERCENTAGE'' 0))]),
     (''move_to'', \<lambda>H block. [
        (''x'', JNum (numberField H block ''X'' 0)),
        (''y'', JNum (numberField H block ''Y'' 0)),
        (''z'', JNum (numberField H block ''Z'' 0)),
        (''speed_percentage'', JNum (numberField H block ''SPEED'' 0))]),
     (''move_joint'', \<lambda>H block. [
        (''j1'', JNum (numberField H block ''J1'' 0)),
        (''j2'', JNum (numberField H block ''J2'' 0)),
        (''j3'', JNum (numberField H block ''J3'' 0)),
        (''j4'', JNum (numberField H block ''J4'' 0)),
        (''j5'', JNum (numberField H block ''J5'' 0)),
        (''j6'', JNum (numberField H block ''J6'' 0)),
        (''speed_percentage'', JNum (numberField H block ''SPEED'' 0))]),
     (''move_linear'', \<lambda>H block. [
        (''x'', JNum (numberField H block ''X'' 0)),
        (''y'', JNum (numberField H block ''Y'' 0)),
        (''z'', JNum (numberField H block ''Z'' 0)),
        (''rx'', JNum (numberField H block ''RX'' 0)),
        (''ry'', JNum (numberField H block ''RY'' 0)),
        (''rz'', JNum (numberField H block ''RZ'' 0)),
        (''speed_percentage'', JNum (numberField H block ''SPEED'' 0))]),
     (''move_circular'', \<lambda>H block. [
        (''via_point'', cartesianPoint H block [''VX'', ''VY'', ''VZ'', ''VRX'', ''VRY'', ''VRZ'']),
        (''end_point'', cartesianPoint H block [''EX'', ''EY'', ''EZ'', ''ERX'', ''ERY'', ''ERZ''])]),
     (''stop_motion'', \<lambda>H block.
        (let stop = js_or (getFieldValue block ''STOP_TYPE'') (FStr [])
         in if truthy stop then [(''stop_type'', of_field stop)] else [])),
     (''wait_for_move_finish'', \<lambda>H block.
        (let timeout = numberField H block ''TIMEOUT'' 0
         in if truthy_num timeout then [(''timeout_ms'', JNum timeout)] else [])),
     (''set_tool_coordinate'', \<lambda>H block. [
        (''tool_data'', JArr (map (\<lambda>k. JNum (numberField H block k 0))
           [''TX'', ''TY'', ''TZ'', ''TRX'', ''TRY'', ''TRZ'']))]),
     (''set_user_coordinate'', \<lambda>H block. [
        (''user_data'', JArr (map (\<lambda>k. JNum (numberField H block k 0))
           [''UX'', ''UY'', ''UZ'', ''URX'', ''URY'', ''URZ'']))]),
     (''get_current_joint_position'', storeReader),
     (''get_current_cartesian_position'', storeReader),
     (''get_robot_status'', storeReader),
     (''set_digital_output'', \<lambda>H block. [
        (''port'', JNum (numberField H block ''PORT'' 0)),
        (''value'', JBool (js_or (getFieldValue block ''VALUE'') (FStr ''FALSE'') = FStr ''TRUE''))]),
     (''get_digital_input'', \<lambda>H block.
        (let store = js_or (getFieldValue block ''STORE'') (FStr []);
             params = [(''port'', JNum (numberField H block ''PORT'' 0))]
         in if truthy store then params @ [(''store_as'', of_field store)] else params))]"

text \<open>\<open>block.data || block.id || Blockly.utils.idGenerator.genUid()\<close>.\<close>

definition blockId :: "host \<Rightarrow> block \<Rightarrow> world \<Rightarrow> string \<times> world" where
  "blockId H block w =
     (if bdata block \<noteq> None \<and> bdata block \<noteq> Some [] then (the (bdata block), w)
      else if bid block \<noteq> [] then (bid block, w)
      else (genUid H (uid_calls w), w\<lparr>uid_calls := Suc (uid_calls w)\<rparr>))"

definition applyMetadata :: "block \<Rightarrow> metadata \<Rightarrow> metadata" where
  "applyMetadata block md = md\<lparr>
     robot_brand := Some (of_field (js_or (getFieldValue block ''ROBOT_BRAND'') (FStr ''default''))),
     namespace := Some (of_field (js_or (getFieldValue block ''NAMESPACE'') (FStr ''GeneratedWorkflows''))),
     class_name := Some (of_field (js_or (getFieldValue block ''CLASS_NAME'') (FStr ''RobotProgram''))),
     method_name := Some (of_field (js_or (getFieldValue block ''METHOD_NAME'') (FStr ''Run''))),
     attach_console_logger := Some (getFieldValue block ''ATTACH_LOGGER'' = Some (FStr ''TRUE''))\<rparr>"

definition convertCommandBlock :: "host \<Rightarrow> block \<Rightarrow> world \<Rightarrow> node \<times> world" where
  "convertCommandBlock H block w =
     (let commandName = btype block;
          params = (case map_of parameterReaders commandName of
                      Some paramsReader \<Rightarrow> paramsReader H block
                    | None \<Rightarrow> [])
      in if commandName \<in> set commandsWithoutParameters then
           (let (i, w1) = blockId H block w in (Command i commandName None, w1))
         else
           (let (i, w1) = blockId H block w in (Command i commandName (Some params), w1)))"

definition convertFlowStatement :: "host \<Rightarrow> block \<Rightarrow> world \<Rightarrow> error + (node \<times> world)" where
  "convertFlowStatement H block w =
     (case lowerOr (getFieldValue block ''FLOW'') ''BREAK'' of
        Inl e \<Rightarrow> Inl e
      | Inr fl \<Rightarrow> (let (i, w1) = blockId H block w in Inr (Flow i fl, w1)))"

text \<open>The decimal digits of \<open>index\<close> in \<open>'IF' + index\<close>.\<close>

definition digit_char :: "nat \<Rightarrow> char" where
  "digit_char d = ''0123456789'' ! d"

fun show_nat :: "nat \<Rightarrow> string" where
  "show_nat n = (if n < 10 then [digit_char n]
                 else show_nat (n div 10) @ [digit_char (n mod 10)])"

declare show_nat.simps [simp del]

lemma show_nat_bound: "n < 10 ^ length (show_nat n)"
proof (induction n rule: show_nat.induct)
  case (1 n)
  show ?case
  proof (cases "n < 10")
    case True
    then show ?thesis by (simp add: show_nat.simps [of n])
  next
    case False
    with 1 have "n div 10 < 10 ^ length (show_nat (n div 10))" by simp
    then have "n < 10 * 10 ^ length (show_nat (n div 10))" by simp
    with False show ?thesis by (simp add: show_nat.simps [of n])
  qed
qed

text \<open>Measures for the recursion through the block tree and for the branch loop.\<close>

definition osize :: "block option \<Rightarrow> nat" where
  "osize ob = (case ob of None \<Rightarrow> 0 | Some b \<Rightarrow> Suc (size b))"

definition branch_bound :: "block \<Rightarrow> nat" where
  "branch_bound b = 10 ^ sum_list (map (\<lambda>p. length (fst p)) (binputs b))"

lemma osize_getInputTargetBlock: "osize (getInputTargetBlock b name) \<le> size b"
  by (cases "getInputTargetBlock b name")
     (auto simp: osize_def dest: size_getInputTargetBlock)

lemma osize_getNextBlock: "osize (getNextBlock b) \<le> size b"
  by (cases b) (auto simp: osize_def getNextBlock_def split: option.splits)

lemma map_of_name_length:
  "map_of ins name \<noteq> None \<Longrightarrow> length name \<le> sum_list (map (\<lambda>p. length (fst p)) ins)"
  by (induction ins) (auto split: if_splits)

lemma getInput_index_bound:
  assumes "getInput b (''IF'' @ show_nat i)"
  shows "i < branch_bound b"
proof -
  have "length (show_nat i) \<le> sum_list (map (\<lambda>p. length (fst p)) (binputs b))"
    using map_of_name_length [of "binputs b" "''IF'' @ show_nat i"] assms
    by (simp add: getInput_def)
  then have "(10::nat) ^ length (show_nat i) \<le> branch_bound b"
    unfolding branch_bound_def by (intro power_increasing) simp_all
  with show_nat_bound [of i] show ?thesis by simp
qed

text \<open>
  The statement converters. Each threads the metadata object (which \<open>applyMetadata\<close>
  mutates) and the world; a thrown error ends the whole call. The properties of an object
  literal are evaluated in the order they are written.
\<close>

function sequenceFrom ::
    "host \<Rightarrow> block option \<Rightarrow> metadata \<Rightarrow> world \<Rightarrow> error + (node list \<times> metadata \<times> world)"
  and convertStatementBlock ::
    "host \<Rightarrow> block \<Rightarrow> metadata \<Rightarrow> world \<Rightarrow> error + (node list \<times> metadata \<times> world)"
  and convertIfBlock ::
    "host \<Rightarrow> block \<Rightarrow> metadata \<Rightarrow> world \<Rightarrow> error + (node \<times> metadata \<times> world)"
  and convertIfBlock_branches ::
    "host \<Rightarrow> block \<Rightarrow> nat \<Rightarrow> metadata \<Rightarrow> world
       \<Rightarrow> error + ((expr \<times> node list) list \<times> metadata \<times> world)"
  and convertRepeatBlock ::
    "host \<Rightarrow> block \<Rightarrow> metadata \<Rightarrow> world \<Rightarrow> error + (node \<times> metadata \<times> world)"
  and convertWhileBlock ::
    "host \<Rightarrow> block \<Rightarrow> metadata \<Rightarrow> world \<Rightarrow> error + (node \<times> metadata \<times> world)"
  and convertForBlock ::
    "host \<Rightarrow> block \<Rightarrow> metadata \<Rightarrow> world \<Rightarrow> error + (node \<times> metadata \<times> world)"
where
  "sequenceFrom H None md w = Inr ([], md, w)"
| "sequenceFrom H (Some current) md w =
    (if btype current = ''set_metadata'' then
       sequenceFrom H (getNextBlock current) (applyMetadata current md) w
     else
       (case convertStatementBlock H current md w of
          Inl e \<Rightarrow> Inl e
        | Inr (ns, md1, w1) \<Rightarrow>
            (case sequenceFrom H (getNextBlock current) md1 w1 of
               Inl e \<Rightarrow> Inl e
             | Inr (rest, md2, w2) \<Rightarrow> Inr (ns @ rest, md2, w2))))"
| "convertStatementBlock H block md w =
    (if btype block = ''controls_if'' then
       (case convertIfBlock H block md w of
          Inl e \<Rightarrow> Inl e | Inr (n, md1, w1) \<Rightarrow> Inr ([n], md1, w1))
     else if btype block = ''controls_repeat_ext'' then
       (case convertRepeatBlock H block md w of
          Inl e \<Rightarrow> Inl e | Inr (n, md1, w1) \<Rightarrow> Inr ([n], md1, w1))
     else if btype block = ''controls_whileUntil'' then
       (case convertWhileBlock H block md w of
          Inl e \<Rightarrow> Inl e | Inr (n, md1, w1) \<Rightarrow> Inr ([n], md1, w1))
     else if btype block = ''controls_for'' \<or> btype block = ''controls_forEach'' then
       (case convertForBlock H block md w of
          Inl e \<Rightarrow> Inl e | Inr (n, md1, w1) \<Rightarrow> Inr ([n], md1, w1))
     else if btype block = ''controls_flow_statements'' then
       (case convertFlowStatement H block w of
          Inl e \<Rightarrow> Inl e | Inr (n, w1) \<Rightarrow> Inr ([n], md, w1))
     else if map_of parameterReaders (btype block) \<noteq> None
             \<or> btype block \<in> set commandsWithoutParameters then
       (let (n, w1) = convertCommandBlock H block w in Inr ([n], md, w1))
     else
       Inr ([], md,
            w\<lparr>console := console w @ [''Ignoring unsupported statement block: '' @ btype block]\<rparr>))"
| "convertIfBlock H block md w =
    (case convertIfBlock_branches H block 0 md w of
       Inl e \<Rightarrow> Inl e
     | Inr (brs, md1, w1) \<Rightarrow>
         (case sequenceFrom H (getInputTargetBlock block ''ELSE'') md1 w1 of
            Inl e \<Rightarrow> Inl e
          | Inr (elseBody, md2, w2) \<Rightarrow>
              (let (i, w3) = blockId H block w2
               in Inr (If i brs (if elseBody \<noteq> [] then Some elseBody else None), md2, w3))))"
| "convertIfBlock_branches H block index md w =
    (if getInput block (''IF'' @ show_nat index) then
       (case expressionFrom H (getInputTargetBlock block (''IF'' @ show_nat index)) of
          Inl e \<Rightarrow> Inl e
        | Inr c \<Rightarrow>
            (case sequenceFrom H (getInputTargetBlock block (''DO'' @ show_nat index)) md w of
               Inl e \<Rightarrow> Inl e
             | Inr (b, md1, w1) \<Rightarrow>
                 (case convertIfBlock_branches H block (index + 1) md1 w1 of
                    Inl e \<Rightarrow> Inl e
                  | Inr (brs, md2, w2) \<Rightarrow> Inr ((c, b) # brs, md2, w2))))
     else Inr ([], md, w))"
| "convertRepeatBlock H block md w =
    (let (i, w1) = blockId H block w in
     case expressionFrom H (getInputTargetBlock block ''TIMES'') of
       Inl e \<Rightarrow> Inl e
     | Inr c \<Rightarrow>
         (case sequenceFrom H (getInputTargetBlock block ''DO'') md w1 of
            Inl e \<Rightarrow> Inl e
          | Inr (b, md1, w2) \<Rightarrow> Inr (Repeat i c b, md1, w2)))"
| "convertWhileBlock H block md w =
    (let m = (if getFieldValue block ''MODE'' = Some (FStr ''UNTIL'') then ''until'' else ''while'');
         (i, w1) = blockId H block w in
     case expressionFrom H (getInputTargetBlock block ''BOOL'') of
       Inl e \<Rightarrow> Inl e
     | Inr c \<Rightarrow>
         (case sequenceFrom H (getInputTargetBlock block ''DO'') md w1 of
            Inl e \<Rightarrow> Inl e
          | Inr (b, md1, w2) \<Rightarrow> Inr (While i m c b, md1, w2)))"
| "convertForBlock H block md w =
    (if btype block = ''controls_for'' then
       (let (i, w1) = blockId H block w;
            v = of_field (js_or (getFieldValue block ''VAR'') (FStr ''i'')) in
        case expressionFrom H (getInputTargetBlock block ''FROM'') of
          Inl e \<Rightarrow> Inl e
        | Inr f \<Rightarrow>
        (case expressionFrom H (getInputTargetBlock block ''TO'') of
          Inl e \<Rightarrow> Inl e
        | Inr t \<Rightarrow>
        (case expressionFrom H (getInputTargetBlock block ''BY'') of
          Inl e \<Rightarrow> Inl e
        | Inr s \<Rightarrow>
        (case sequenceFrom H (getInputTargetBlock block ''DO'') md w1 of
          Inl e \<Rightarrow> Inl e
        | Inr (b, md1, w2) \<Rightarrow> Inr (ForRange i v f t s b, md1, w2)))))
     else
       (let (i, w1) = blockId H block w;
            v = of_field (js_or (getFieldValue block ''VAR'') (FStr ''item'')) in
        case expressionFrom H (getInputTargetBlock block ''LIST'') of
          Inl e \<Rightarrow> Inl e
        | Inr c \<Rightarrow>
        (case sequenceFrom H (getInputTargetBlock block ''DO'') md w1 of
          Inl e \<Rightarrow> Inl e
        | Inr (b, md1, w2) \<Rightarrow> Inr (ForEach i v c b, md1, w2))))"
  by pat_completeness auto
termination
proof (relation "measures [
     (\<lambda>x. case x of
        Inl (Inl (H, ob, md, w)) \<Rightarrow> 6 * osize ob
      | Inl (Inr (Inl (H, b, md, w))) \<Rightarrow> 6 * size b + 5
      | Inl (Inr (Inr (H, b, md, w))) \<Rightarrow> 6 * size b + 4
      | Inr (Inl (Inl (H, b, i, md, w))) \<Rightarrow> 6 * size b + 3
      | Inr (Inl (Inr (H, b, md, w))) \<Rightarrow> 6 * size b + 4
      | Inr (Inr (Inl (H, b, md, w))) \<Rightarrow> 6 * size b + 4
      | Inr (Inr (Inr (H, b, md, w))) \<Rightarrow> 6 * size b + 4),
     (\<lambda>x. case x of
        Inr (Inl (Inl (H, b, i, md, w))) \<Rightarrow> branch_bound b - i
      | _ \<Rightarrow> 0)]", goal_cases)
  case 1
  show ?case by simp
next
  case (2 H current md w)
  show ?case using osize_getNextBlock [of current] by (simp add: osize_def)
next
  case (3 H current md w)
  show ?case by (simp add: osize_def)
next
  case (4 H current md w b x y xa ya)
  show ?case using osize_getNextBlock [of current] by (simp add: osize_def)
next
  case 5 show ?case by simp
next
  case 6 show ?case by simp
next
  case 7 show ?case by simp
next
  case 8 show ?case by simp
next
  case 9 show ?case by simp
next
  case (10 H block md w b x y xa ya)
  show ?case using osize_getInputTargetBlock [of block "''ELSE''"] by simp
next
  case (11 H block index md w b)
  show ?case using osize_getInputTargetBlock [of block "''DO'' @ show_nat index"] by simp
next
  case (12 H block index md w b ba x y xa ya)
  show ?case using getInput_index_bound [OF 12(1)] by simp
next
  case (13 H block md w x y b)
  show ?case using osize_getInputTargetBlock [of block "''DO''"] by simp
next
  case (14 H block md w x xa y b)
  show ?case using osize_getInputTargetBlock [of block "''DO''"] by simp
next
  case (15 H block md w x xa y xb b ba bb)
  show ?case using osize_getInputTargetBlock [of block "''DO''"] by simp
next
  case (16 H block md w x xa y xb b)
  show ?case using osize_getInputTargetBlock [of block "''DO''"] by simp
qed

declare sequenceFrom.simps [simp del] convertStatementBlock.simps [simp del]
  convertIfBlock.simps [simp del] convertIfBlock_branches.simps [simp del]
  convertRepeatBlock.simps [simp del] convertWhileBlock.simps [simp del]
  convertForBlock.simps [simp del]

text \<open>
  A workspace is given by what \<open>workspace.getTopBlocks(true)\<close> returns: its top blocks,
  in order. \<open>topBlocks_forEach\<close> is the \<open>forEach\<close> loop of \<open>workspaceToDocument\<close>.
\<close>

fun topBlocks_forEach ::
    "host \<Rightarrow> block list \<Rightarrow> metadata \<Rightarrow> world \<Rightarrow> error + (node list \<times> metadata \<times> world)" where
  "topBlocks_forEach H [] md w = Inr ([], md, w)"
| "topBlocks_forEach H (block # bs) md w =
    (case sequenceFrom H (Some block) md w of
       Inl e \<Rightarrow> Inl e
     | Inr (ns, md1, w1) \<Rightarrow>
         (case topBlocks_forEach H bs md1 w1 of
            Inl e \<Rightarrow> Inl e
          | Inr (rest, md2, w2) \<Rightarrow> Inr (ns @ rest, md2, w2)))"

definition workspaceToDocument :: "host \<Rightarrow> block list \<Rightarrow> world \<Rightarrow> error + (document \<times> world)" where
  "workspaceToDocument H topBlocks w =
    (case topBlocks_forEach H topBlocks empty_metadata w of
       Inl e \<Rightarrow> Inl e
     | Inr (s, md, w1) \<Rightarrow> Inr (\<lparr>version = ''1.0'', doc_metadata = md, sequence = s\<rparr>, w1))"

section \<open>Example inputs\<close>

text \<open>
  A host and a world for the worked examples. The generator of the example host numbers
  its ids, so that every call returns a new one; its string-to-number conversion is never
  consulted, because the number fields of the examples hold numbers.
\<close>

definition example_host :: host where
  "example_host = \<lparr>StringToNumber = (\<lambda>s. NaN), genUid = (\<lambda>k. ''uid'' @ show_nat k)\<rparr>"

definition example_world :: world where
  "example_world = \<lparr>uid_calls = 0, console = []\<rparr>"

lemmas lowering_simps =
  sequenceFrom.simps convertStatementBlock.simps convertIfBlock.simps
  convertIfBlock_branches.simps convertRepeatBlock.simps convertWhileBlock.simps
  convertForBlock.simps convertCommandBlock_def convertFlowStatement_def blockId_def
  getInputTargetBlock_def getInput_def getFieldValue_def getNextBlock_def
  bindE_def lowerOr_def js_or_def toLowerCase_def lower_char_def digit_char_def
  show_nat.simps applyMetadata_def empty_metadata_def workspaceToDocument_def
  parameterReaders_def commandsWithoutParameters_def numberField_def storeReader_def
  cartesianPoint_def example_host_def example_world_def

section \<open>Unconnected expression inputs\<close>

lemma repeat_unconnected_count:
  assumes "getInputTargetBlock block ''TIMES'' = None"
    and "convertRepeatBlock H block md w = Inr (n, md', w')"
  shows "\<exists>i b. n = Repeat i (LiteralNumber (Num 0)) b"
  using assms
  by (auto simp: convertRepeatBlock.simps split: prod.splits sum.splits)

lemma while_unconnected_condition:
  assumes "getInputTargetBlock block ''BOOL'' = None"
    and "convertWhileBlock H block md w = Inr (n, md', w')"
  shows "\<exists>i m b. n = While i m (LiteralNumber (Num 0)) b"
  using assms
  by (auto simp: convertWhileBlock.simps Let_def split: prod.splits sum.splits)

lemma for_unconnected_bounds:
  assumes "btype block = ''controls_for''"
    and "getInputTargetBlock block ''FROM'' = None"
    and "getInputTargetBlock block ''TO'' = None"
    and "getInputTargetBlock block ''BY'' = None"
    and "convertForBlock H block md w = Inr (n, md', w')"
  shows "\<exists>i v b. n = ForRange i v (LiteralNumber (Num 0)) (LiteralNumber (Num 0))
            (LiteralNumber (Num 0)) b"
  using assms
  by (auto simp: convertForBlock.simps Let_def split: prod.splits sum.splits)

lemma if_unconnected_condition:
  assumes "getInput block (''IF'' @ show_nat index)"
    and "getInputTargetBlock block (''IF'' @ show_nat index) = None"
    and "convertIfBlock_branches H block index md w = Inr (brs, md', w')"
  shows "\<exists>b rest. brs = (LiteralNumber (Num 0), b) # rest"
  using assms
  by (auto simp: convertIfBlock_branches.simps [of H block index] split: prod.splits sum.splits)

lemma negate_unconnected_operand:
  assumes "btype block = ''logic_negate''"
    and "getInputTargetBlock block ''BOOL'' = None"
  shows "expressionFrom H (Some block) = Inr (LogicNot (LiteralNumber (Num 0)))"
  using assms by (simp add: bindE_def)

text \<open>
  C9. Lowering an absent expression block gives the literal number 0. Hence a repeat block
  with no count (\<open>rb\<close>), a while block with no condition (\<open>wb\<close>), a counted for block with
  no bounds (\<open>fb\<close>), an if branch with no condition (\<open>ib\<close>) and a negation with no operand
  (\<open>eb\<close>) all carry that literal in the lowered node, whenever the node is produced.
\<close>

theorem expressionFrom_unconnected_input:
  "expressionFrom H None = Inr (LiteralNumber (Num 0))
   \<and> (getInputTargetBlock block name = None \<longrightarrow>
        expressionFrom H (getInputTargetBlock block name) = Inr (LiteralNumber (Num 0)))
   \<and> (getInputTargetBlock rb ''TIMES'' = None
        \<and> convertRepeatBlock H rb md w = Inr (rn, rmd, rw) \<longrightarrow>
        (\<exists>i b. rn = Repeat i (LiteralNumber (Num 0)) b))
   \<and> (getInputTargetBlock wb ''BOOL'' = None
        \<and> convertWhileBlock H wb md w = Inr (wn, wmd, ww) \<longrightarrow>
        (\<exists>i m b. wn = While i m (LiteralNumber (Num 0)) b))
   \<and> (btype fb = ''controls_for'' \<and> getInputTargetBlock fb ''FROM'' = None
        \<and> getInputTargetBlock fb ''TO'' = None \<and> getInputTargetBlock fb ''BY'' = None
        \<and> convertForBlock H fb md w = Inr (fn, fmd, fw) \<longrightarrow>
        (\<exists>i v b. fn = ForRange i v (LiteralNumber (Num 0)) (LiteralNumber (Num 0))
            (LiteralNumber (Num 0)) b))
   \<and> (getInput ib (''IF'' @ show_nat index)
        \<and> getInputTargetBlock ib (''IF'' @ show_nat index) = None
        \<and> convertIfBlock_branches H ib index md w = Inr (brs, imd, iw) \<longrightarrow>
        (\<exists>b rest. brs = (LiteralNumber (Num 0), b) # rest))
   \<and> (btype eb = ''logic_negate'' \<and> getInputTargetBlock eb ''BOOL'' = None \<longrightarrow>
        expressionFrom H (Some eb) = Inr (LogicNot (LiteralNumber (Num 0))))"
  using repeat_unconnected_count [of rb H md w rn rmd rw]
    while_unconnected_condition [of wb H md w wn wmd ww]
    for_unconnected_bounds [of fb H md w fn fmd fw]
    if_unconnected_condition [of ib index H md w brs imd iw]
    negate_unconnected_operand [of eb H]
  by simp

theorem expressionFrom_unconnected_input_witness:
  "getInputTargetBlock (Block ''controls_repeat_ext'' None ''r1'' [] [] None) ''TIMES'' = None
   \<and> convertRepeatBlock example_host (Block ''controls_repeat_ext'' None ''r1'' [] [] None)
        empty_metadata example_world
      = Inr (Repeat ''r1'' (LiteralNumber (Num 0)) [], empty_metadata, example_world)
   \<and> getInputTargetBlock (Block ''controls_whileUntil'' None ''w1'' [] [] None) ''BOOL'' = None
   \<and> convertWhileBlock example_host (Block ''controls_whileUntil'' None ''w1'' [] [] None)
        empty_metadata example_world
      = Inr (While ''w1'' ''while'' (LiteralNumber (Num 0)) [], empty_metadata, example_world)
   \<and> convertForBlock example_host (Block ''controls_for'' None ''f1'' [] [] None)
        empty_metadata example_world
      = Inr (ForRange ''f1'' (JStr ''i'') (LiteralNumber (Num 0)) (LiteralNumber (Num 0))
              (LiteralNumber (Num 0)) [], empty_metadata, example_world)
   \<and> getInput (Block ''controls_if'' None ''i1'' [] [(''IF0'', None), (''DO0'', None)] None)
        (''IF'' @ show_nat 0)
   \<and> convertIfBlock_branches example_host
        (Block ''controls_if'' None ''i1'' [] [(''IF0'', None), (''DO0'', None)] None) 0
        empty_metadata example_world
      = Inr ([(LiteralNumber (Num 0), [])], empty_metadata, example_world)
   \<and> expressionFrom example_host (Some (Block ''logic_negate'' None ''e1'' [] [] None))
      = Inr (LogicNot (LiteralNumber (Num 0)))"
  using expressionFrom_unconnected_input [of example_host
      "Block ''controls_repeat_ext'' None ''r1'' [] [] None" "''TIMES''"
      "Block ''controls_repeat_ext'' None ''r1'' [] [] None" empty_metadata example_world
      "Repeat ''r1'' (LiteralNumber (Num 0)) []" empty_metadata example_world
      "Block ''controls_whileUntil'' None ''w1'' [] [] None"
      "While ''w1'' ''while'' (LiteralNumber (Num 0)) []" empty_metadata example_world
      "Block ''controls_for'' None ''f1'' [] [] None"
      "ForRange ''f1'' (JStr ''i'') (LiteralNumber (Num 0)) (LiteralNumber (Num 0))
              (LiteralNumber (Num 0)) []" empty_metadata example_world
      "Block ''controls_if'' None ''i1'' [] [(''IF0'', None), (''DO0'', None)] None" 0
      "[(LiteralNumber (Num 0), [])]" empty_metadata example_world
      "Block ''logic_negate'' None ''e1'' [] [] None"]
  by (simp add: lowering_simps)

section \<open>While and until loops\<close>

lemma convertWhileBlock_result:
  assumes "convertWhileBlock H block md w = Inr (n, md', w')"
  shows "\<exists>i c b. n = While i (if getFieldValue block ''MODE'' = Some (FStr ''UNTIL'')
                               then ''until'' else ''while'') c b
           \<and> expressionFrom H (getInputTargetBlock block ''BOOL'') = Inr c"
  using assms
  by (auto simp: convertWhileBlock.simps Let_def split: prod.splits sum.splits)

lemma convertWhileBlock_produces:
  assumes "expressionFrom H (getInputTargetBlock block ''BOOL'') = Inr c"
    and "sequenceFrom H (getInputTargetBlock block ''DO'') md (snd (blockId H block w))
           = Inr (b, md', w')"
  shows "convertWhileBlock H block md w
           = Inr (While (fst (blockId H block w))
                    (if getFieldValue block ''MODE'' = Some (FStr ''UNTIL'')
                     then ''until'' else ''while'') c b, md', w')"
  using assms
  by (auto simp: convertWhileBlock.simps Let_def split: prod.splits sum.splits)

text \<open>
  C6. A while/until block lowers to a \<open>While\<close> node whose mode is \<open>until\<close> exactly when
  the MODE field is the string \<open>UNTIL\<close> and \<open>while\<close> otherwise, and whose condition
  is the lowering of the block connected to BOOL, as \<open>expressionFrom\<close> returns it, with
  no negation added. The node is produced whenever the condition and the body lower.
\<close>

theorem convertWhileBlock_mode_condition:
  "(convertWhileBlock H block md w = Inr (n, md', w') \<longrightarrow>
      (\<exists>i c b. n = While i (if getFieldValue block ''MODE'' = Some (FStr ''UNTIL'')
                             then ''until'' else ''while'') c b
         \<and> expressionFrom H (getInputTargetBlock block ''BOOL'') = Inr c)
      \<and> (mode n = ''until'') = (getFieldValue block ''MODE'' = Some (FStr ''UNTIL''))
      \<and> (mode n = ''while'') = (getFieldValue block ''MODE'' \<noteq> Some (FStr ''UNTIL''))
      \<and> expressionFrom H (getInputTargetBlock block ''BOOL'') = Inr (condition n))
   \<and> (expressionFrom H (getInputTargetBlock block ''BOOL'') = Inr c0
      \<and> sequenceFrom H (getInputTargetBlock block ''DO'') md (snd (blockId H block w))
           = Inr (b0, md0, w0) \<longrightarrow>
      convertWhileBlock H block md w
        = Inr (While (fst (blockId H block w))
                 (if getFieldValue block ''MODE'' = Some (FStr ''UNTIL'')
                  then ''until'' else ''while'') c0 b0, md0, w0))"
proof -
  have "mode n = (if getFieldValue block ''MODE'' = Some (FStr ''UNTIL'')
                  then ''until'' else ''while'')
        \<and> expressionFrom H (getInputTargetBlock block ''BOOL'') = Inr (condition n)"
    if "convertWhileBlock H block md w = Inr (n, md', w')"
    using convertWhileBlock_result [OF that] by auto
  then show ?thesis
    using convertWhileBlock_result [of H block md w n md' w']
      convertWhileBlock_produces [of H block c0 md w b0 md0 w0]
    by auto
qed

theorem convertWhileBlock_mode_condition_witness:
  "convertWhileBlock example_host
     (Block ''controls_whileUntil'' None ''w1'' [(''MODE'', FStr ''UNTIL'')]
        [(''BOOL'', Some (Block ''logic_boolean'' None ''c1'' [(''BOOL'', FStr ''TRUE'')] [] None)),
         (''DO'', Some (Block ''grab'' None ''g1'' [] [] None))] None)
     empty_metadata example_world
     = Inr (While ''w1'' ''until'' (LiteralBoolean True) [Command ''g1'' ''grab'' None],
            empty_metadata, example_world)
   \<and> expressionFrom example_host
        (getInputTargetBlock
          (Block ''controls_whileUntil'' None ''w1'' [(''MODE'', FStr ''UNTIL'')]
            [(''BOOL'', Some (Block ''logic_boolean'' None ''c1'' [(''BOOL'', FStr ''TRUE'')] [] None)),
             (''DO'', Some (Block ''grab'' None ''g1'' [] [] None))] None) ''BOOL'')
       = Inr (LiteralBoolean True)
   \<and> convertWhileBlock example_host
     (Block ''controls_whileUntil'' None ''w2'' [(''MODE'', FStr ''WHILE'')]
        [(''BOOL'', Some (Block ''logic_boolean'' None ''c1'' [(''BOOL'', FStr ''TRUE'')] [] None)),
         (''DO'', None)] None)
     empty_metadata example_world
     = Inr (While ''w2'' ''while'' (LiteralBoolean True) [], empty_metadata, example_world)"
  using convertWhileBlock_mode_condition [of example_host
     "Block ''controls_whileUntil'' None ''w1'' [(''MODE'', FStr ''UNTIL'')]
        [(''BOOL'', Some (Block ''logic_boolean'' None ''c1'' [(''BOOL'', FStr ''TRUE'')] [] None)),
         (''DO'', Some (Block ''grab'' None ''g1'' [] [] None))] None"
     empty_metadata example_world
     "While ''w1'' ''until'' (LiteralBoolean True) [Command ''g1'' ''grab'' None]"
     empty_metadata example_world "LiteralBoolean True" "[Command ''g1'' ''grab'' None]"
     empty_metadata example_world]
  by (simp add: lowering_simps)

section \<open>Parameters of command nodes\<close>

lemma reader_stop_motion:
  "map_of parameterReaders ''stop_motion'' = Some (\<lambda>H block.
     (let stop = js_or (getFieldValue block ''STOP_TYPE'') (FStr [])
      in if truthy stop then [(''stop_type'', of_field stop)] else []))"
  by (simp add: parameterReaders_def)

lemma reader_wait_for_move_finish:
  "map_of parameterReaders ''wait_for_move_finish'' = Some (\<lambda>H block.
     (let timeout = numberField H block ''TIMEOUT'' 0
      in if truthy_num timeout then [(''timeout_ms'', JNum timeout)] else []))"
  by (simp add: parameterReaders_def)

lemma reader_queries:
  "map_of parameterReaders ''get_current_joint_position'' = Some storeReader"
  "map_of parameterReaders ''get_current_cartesian_position'' = Some storeReader"
  "map_of parameterReaders ''get_robot_status'' = Some storeReader"
  by (simp_all add: parameterReaders_def)

lemma reader_get_digital_input:
  "map_of parameterReaders ''get_digital_input'' = Some (\<lambda>H block.
     (let store = js_or (getFieldValue block ''STORE'') (FStr []);
          params = [(''port'', JNum (numberField H block ''PORT'' 0))]
      in if truthy store then params @ [(''store_as'', of_field store)] else params))"
  by (simp add: parameterReaders_def)

lemma js_or_empty:
  "v = None \<or> v = Some (FStr []) \<Longrightarrow> js_or v (FStr []) = FStr []"
  by (auto simp: js_or_def)

lemma stop_motion_omits:
  assumes "btype block = ''stop_motion''"
    and "getFieldValue block ''STOP_TYPE'' = None \<or> getFieldValue block ''STOP_TYPE'' = Some (FStr [])"
  shows "convertCommandBlock H block w
           = (Command (fst (blockId H block w)) ''stop_motion'' (Some []), snd (blockId H block w))"
  using assms(1) js_or_empty [OF assms(2)]
  by (simp add: convertCommandBlock_def reader_stop_motion commandsWithoutParameters_def
      split: prod.splits)

lemma wait_for_move_finish_omits:
  assumes "btype block = ''wait_for_move_finish''"
    and "numberField H block ''TIMEOUT'' 0 = Num 0"
  shows "convertCommandBlock H block w
           = (Command (fst (blockId H block w)) ''wait_for_move_finish'' (Some []),
              snd (blockId H block w))"
  using assms
  by (simp add: convertCommandBlock_def reader_wait_for_move_finish
      commandsWithoutParameters_def split: prod.splits)

lemma query_omits:
  assumes "btype block = ''get_current_joint_position''
           \<or> btype block = ''get_current_cartesian_position''
           \<or> btype block = ''get_robot_status''"
    and "getFieldValue block ''STORE'' = None \<or> getFieldValue block ''STORE'' = Some (FStr [])"
  shows "convertCommandBlock H block w
           = (Command (fst (blockId H block w)) (btype block) (Some []), snd (blockId H block w))"
  using assms(1) js_or_empty [OF assms(2)]
  by (auto simp: convertCommandBlock_def reader_queries storeReader_def
      commandsWithoutParameters_def split: prod.splits)

lemma get_digital_input_omits:
  assumes "btype block = ''get_digital_input''"
    and "getFieldValue block ''STORE'' = None \<or> getFieldValue block ''STORE'' = Some (FStr [])"
  shows "convertCommandBlock H block w
           = (Command (fst (blockId H block w)) ''get_digital_input''
                (Some [(''port'', JNum (numberField H block ''PORT'' 0))]),
              snd (blockId H block w))"
  using assms(1) js_or_empty [OF assms(2)]
  by (simp add: convertCommandBlock_def reader_get_digital_input
      commandsWithoutParameters_def split: prod.splits)

lemma no_parameter_command:
  assumes "btype block \<in> set commandsWithoutParameters"
  shows "convertCommandBlock H block w
           = (Command (fst (blockId H block w)) (btype block) None, snd (blockId H block w))"
  using assms by (simp add: convertCommandBlock_def Let_def split: prod.splits)

text \<open>
  C10. Optional keys are left out of the parameter record: a stop_motion block (\<open>sb\<close>)
  whose STOP_TYPE field is absent or empty, a wait_for_move_finish block (\<open>wb\<close>) whose
  timeout is 0, and a query block (\<open>qb\<close>, \<open>ib\<close>) whose STORE field is absent or empty lower
  to a command node whose parameter record lacks the key (\<open>{}\<close>, or only \<open>port\<close> for
  get_digital_input); a block (\<open>nb\<close>) of one of the six commands without parameters
  lowers to a command node with no parameter record at all.
\<close>

theorem optional_parameters_omitted:
  "(btype sb = ''stop_motion''
      \<and> (getFieldValue sb ''STOP_TYPE'' = None \<or> getFieldValue sb ''STOP_TYPE'' = Some (FStr []))
      \<longrightarrow> convertCommandBlock H sb w
            = (Command (fst (blockId H sb w)) ''stop_motion'' (Some []), snd (blockId H sb w)))
   \<and> (btype wb = ''wait_for_move_finish'' \<and> numberField H wb ''TIMEOUT'' 0 = Num 0
      \<longrightarrow> convertCommandBlock H wb w
            = (Command (fst (blockId H wb w)) ''wait_for_move_finish'' (Some []),
               snd (blockId H wb w)))
   \<and> ((btype qb = ''get_current_joint_position''
         \<or> btype qb = ''get_current_cartesian_position''
         \<or> btype qb = ''get_robot_status'')
      \<and> (getFieldValue qb ''STORE'' = None \<or> getFieldValue qb ''STORE'' = Some (FStr []))
      \<longrightarrow> convertCommandBlock H qb w
            = (Command (fst (blockId H qb w)) (btype qb) (Some []), snd (blockId H qb w)))
   \<and> (btype ib = ''get_digital_input''
      \<and> (getFieldValue ib ''STORE'' = None \<or> getFieldValue ib ''STORE'' = Some (FStr []))
      \<longrightarrow> convertCommandBlock H ib w
            = (Command (fst (blockId H ib w)) ''get_digital_input''
                 (Some [(''port'', JNum (numberField H ib ''PORT'' 0))]),
               snd (blockId H ib w)))
   \<and> (btype nb \<in> set commandsWithoutParameters
      \<longrightarrow> convertCommandBlock H nb w
            = (Command (fst (blockId H nb w)) (btype nb) None, snd (blockId H nb w)))
   \<and> set commandsWithoutParameters = {''disconnect_robot'', ''power_on_servo'',
        ''power_off_servo'', ''grab'', ''release'', ''print_numbers''}"
  using stop_motion_omits [of sb H w] wait_for_move_finish_omits [of wb H w]
    query_omits [of qb H w] get_digital_input_omits [of ib H w] no_parameter_command [of nb H w]
  by (simp add: commandsWithoutParameters_def)

theorem optional_parameters_omitted_witness:
  "convertCommandBlock example_host
      (Block ''stop_motion'' None ''s1'' [(''STOP_TYPE'', FStr [])] [] None) example_world
     = (Command ''s1'' ''stop_motion'' (Some []), example_world)
   \<and> numberField example_host
        (Block ''wait_for_move_finish'' None ''w1'' [(''TIMEOUT'', FNum (Num 0))] [] None)
        ''TIMEOUT'' 0 = Num 0
   \<and> convertCommandBlock example_host
      (Block ''wait_for_move_finish'' None ''w1'' [(''TIMEOUT'', FNum (Num 0))] [] None)
      example_world
     = (Command ''w1'' ''wait_for_move_finish'' (Some []), example_world)
   \<and> convertCommandBlock example_host
      (Block ''get_robot_status'' None ''q1'' [(''STORE'', FStr [])] [] None) example_world
     = (Command ''q1'' ''get_robot_status'' (Some []), example_world)
   \<and> convertCommandBlock example_host
      (Block ''get_digital_input'' None ''i1'' [(''PORT'', FNum (Num 3)), (''STORE'', FStr [])] []
         None) example_world
     = (Command ''i1'' ''get_digital_input'' (Some [(''port'', JNum (Num 3))]), example_world)
   \<and> ''grab'' \<in> set commandsWithoutParameters
   \<and> convertCommandBlock example_host (Block ''grab'' None ''g1'' [] [] None) example_world
     = (Command ''g1'' ''grab'' None, example_world)"
  using optional_parameters_omitted [of
      "Block ''stop_motion'' None ''s1'' [(''STOP_TYPE'', FStr [])] [] None"
      example_host example_world
      "Block ''wait_for_move_finish'' None ''w1'' [(''TIMEOUT'', FNum (Num 0))] [] None"
      "Block ''get_robot_status'' None ''q1'' [(''STORE'', FStr [])] [] None"
      "Block ''get_digital_input'' None ''i1'' [(''PORT'', FNum (Num 3)), (''STORE'', FStr [])] []
         None"
      "Block ''grab'' None ''g1'' [] [] None"]
  by (simp add: getFieldValue_def numberField_def js_or_def blockId_def
      commandsWithoutParameters_def)

section \<open>Node ids\<close>

lemma fst_blockId:
  "fst (blockId H block w) =
     (if bdata block \<noteq> None \<and> bdata block \<noteq> Some [] then the (bdata block)
      else if bid block \<noteq> [] then bid block
      else genUid H (uid_calls w))"
  by (simp add: blockId_def)

lemma convertCommandBlock_node_id:
  "node_id (fst (convertCommandBlock H block w)) = fst (blockId H block w)"
  by (simp add: convertCommandBlock_def Let_def split: prod.splits)

lemma convertFlowStatement_node_id:
  "convertFlowStatement H block w = Inr (n, w') \<Longrightarrow> \<exists>w0. node_id n = fst (blockId H block w0)"
  by (auto simp: convertFlowStatement_def split: sum.splits prod.splits) (metis fst_conv)

lemma convertIfBlock_node_id:
  "convertIfBlock H block md w = Inr (n, md', w') \<Longrightarrow> \<exists>w0. node_id n = fst (blockId H block w0)"
  by (auto simp: convertIfBlock.simps split: sum.splits prod.splits) (metis fst_conv)

lemma convertRepeatBlock_node_id:
  "convertRepeatBlock H block md w = Inr (n, md', w') \<Longrightarrow> \<exists>w0. node_id n = fst (blockId H block w0)"
  by (auto simp: convertRepeatBlock.simps split: sum.splits prod.splits) (metis fst_conv)

lemma convertWhileBlock_node_id:
  "convertWhileBlock H block md w = Inr (n, md', w') \<Longrightarrow> \<exists>w0. node_id n = fst (blockId H block w0)"
  by (auto simp: convertWhileBlock.simps Let_def split: sum.splits prod.splits) (metis fst_conv)

lemma convertForBlock_node_id:
  "convertForBlock H block md w = Inr (n, md', w') \<Longrightarrow> \<exists>w0. node_id n = fst (blockId H block w0)"
  by (auto simp: convertForBlock.simps Let_def split: sum.splits prod.splits if_splits)
     (metis fst_conv)+

lemma convertStatementBlock_node_id:
  assumes "convertStatementBlock H block md w = Inr (ns, md', w')" and "n \<in> set ns"
  shows "\<exists>w0. node_id n = fst (blockId H block w0)"
proof -
  consider (if_block) "btype block = ''controls_if''"
    | (repeat_block) "btype block \<noteq> ''controls_if''" "btype block = ''controls_repeat_ext''"
    | (while_block) "btype block \<noteq> ''controls_if''" "btype block \<noteq> ''controls_repeat_ext''"
        "btype block = ''controls_whileUntil''"
    | (for_block) "btype block \<noteq> ''controls_if''" "btype block \<noteq> ''controls_repeat_ext''"
        "btype block \<noteq> ''controls_whileUntil''"
        "btype block = ''controls_for'' \<or> btype block = ''controls_forEach''"
    | (flow_block) "btype block \<noteq> ''controls_if''" "btype block \<noteq> ''controls_repeat_ext''"
        "btype block \<noteq> ''controls_whileUntil''"
        "\<not> (btype block = ''controls_for'' \<or> btype block = ''controls_forEach'')"
        "btype block = ''controls_flow_statements''"
    | (other) "btype block \<noteq> ''controls_if''" "btype block \<noteq> ''controls_repeat_ext''"
        "btype block \<noteq> ''controls_whileUntil''"
        "\<not> (btype block = ''controls_for'' \<or> btype block = ''controls_forEach'')"
        "btype block \<noteq> ''controls_flow_statements''"
    by blast
  then show ?thesis
  proof cases
    case if_block
    with assms show ?thesis
      by (auto simp: convertStatementBlock.simps split: sum.splits dest: convertIfBlock_node_id)
  next
    case repeat_block
    with assms show ?thesis
      by (auto simp: convertStatementBlock.simps split: sum.splits
          dest: convertRepeatBlock_node_id)
  next
    case while_block
    with assms show ?thesis
      by (auto simp: convertStatementBlock.simps split: sum.splits
          dest: convertWhileBlock_node_id)
  next
    case for_block
    with assms show ?thesis
      by (auto simp: convertStatementBlock.simps split: sum.splits
          dest: convertForBlock_node_id)
  next
    case flow_block
    with assms show ?thesis
      by (auto simp: convertStatementBlock.simps split: sum.splits
          dest: convertFlowStatement_node_id)
  next
    case other
    with assms show ?thesis
      using convertCommandBlock_node_id [of H block w]
      by (auto simp: convertStatementBlock.simps split: if_splits prod.splits)
  qed
qed

text \<open>
  C4, as the code has it. The id of the node a block lowers to is \<open>blockId\<close> of the block:
  the block's \<open>data\<close> string when that is set and not empty, otherwise the block's own id
  when that is not empty, and an id from \<open>genUid\<close> only when both are missing.
\<close>

theorem node_id_from_data_or_id:
  "convertStatementBlock H block md w = Inr (ns, md', w') \<and> n \<in> set ns \<longrightarrow>
     (bdata block = Some d \<and> d \<noteq> [] \<longrightarrow> node_id n = d)
     \<and> ((bdata block = None \<or> bdata block = Some []) \<and> bid block \<noteq> [] \<longrightarrow>
          node_id n = bid block)
     \<and> ((bdata block = None \<or> bdata block = Some []) \<and> bid block = [] \<longrightarrow>
          (\<exists>k. node_id n = genUid H k))"
proof (intro impI, elim conjE)
  assume "convertStatementBlock H block md w = Inr (ns, md', w')" and "n \<in> set ns"
  then obtain w0 where "node_id n = fst (blockId H block w0)"
    using convertStatementBlock_node_id by blast
  then show "(bdata block = Some d \<and> d \<noteq> [] \<longrightarrow> node_id n = d)
     \<and> ((bdata block = None \<or> bdata block = Some []) \<and> bid block \<noteq> [] \<longrightarrow>
          node_id n = bid block)
     \<and> ((bdata block = None \<or> bdata block = Some []) \<and> bid block = [] \<longrightarrow>
          (\<exists>k. node_id n = genUid H k))"
    by (auto simp: fst_blockId)
qed

theorem node_id_from_data_or_id_witness:
  "convertStatementBlock example_host (Block ''grab'' (Some ''tag'') ''b1'' [] [] None)
       empty_metadata example_world
     = Inr ([Command ''tag'' ''grab'' None], empty_metadata, example_world)
   \<and> convertStatementBlock example_host (Block ''grab'' None ''b1'' [] [] None)
       empty_metadata example_world
     = Inr ([Command ''b1'' ''grab'' None], empty_metadata, example_world)
   \<and> convertStatementBlock example_host (Block ''grab'' (Some []) [] [] [] None)
       empty_metadata example_world
     = Inr ([Command ''uid0'' ''grab'' None], empty_metadata, example_world\<lparr>uid_calls := 1\<rparr>)
   \<and> genUid example_host 0 = ''uid0''"
  using
    node_id_from_data_or_id [of example_host "Block ''grab'' (Some ''tag'') ''b1'' [] [] None"
      empty_metadata example_world "[Command ''tag'' ''grab'' None]" empty_metadata
      example_world "Command ''tag'' ''grab'' None" "''tag''"]
    node_id_from_data_or_id [of example_host "Block ''grab'' None ''b1'' [] [] None"
      empty_metadata example_world "[Command ''b1'' ''grab'' None]" empty_metadata
      example_world "Command ''b1'' ''grab'' None" "''tag''"]
  by (simp add: lowering_simps)

text \<open>The claim as worded fails for a block that carries a \<open>data\<close> string: the node takes
  that string, not the block's id.\<close>

theorem node_id_not_block_id:
  "convertStatementBlock example_host (Block ''grab'' (Some ''tag'') ''b1'' [] [] None)
       empty_metadata example_world
     = Inr ([Command ''tag'' ''grab'' None], empty_metadata, example_world)
   \<and> node_id (Command ''tag'' ''grab'' None) \<noteq> bid (Block ''grab'' (Some ''tag'') ''b1'' [] [] None)"
  by (simp add: lowering_simps)

section \<open>Blocks without a lowering rule\<close>

text \<open>The statement block types \<open>convertStatementBlock\<close> has a rule for, and the
  expression block types \<open>expressionFrom\<close> has a case for.\<close>

definition statementTypes :: "string list" where
  "statementTypes = [''controls_if'', ''controls_repeat_ext'', ''controls_whileUntil'',
     ''controls_for'', ''controls_forEach'', ''controls_flow_statements'']
     @ map fst parameterReaders @ commandsWithoutParameters"

definition expressionTypes :: "string list" where
  "expressionTypes = [''math_number'', ''logic_boolean'', ''logic_compare'',
     ''logic_operation'', ''logic_negate'', ''logic_null'', ''logic_ternary'',
     ''math_arithmetic'', ''math_single'', ''math_trig'', ''math_constant'', ''math_round'',
     ''math_modulo'', ''math_constrain'', ''math_random_int'', ''math_random_float'']"

definition unsupportedWarning :: "block \<Rightarrow> world \<Rightarrow> world" where
  "unsupportedWarning block w =
     w\<lparr>console := console w @ [''Ignoring unsupported statement block: '' @ btype block]\<rparr>"

lemma unsupported_statement_skipped:
  assumes "btype block \<notin> set statementTypes"
  shows "convertStatementBlock H block md w = Inr ([], md, unsupportedWarning block w)"
proof -
  from assms have "map_of parameterReaders (btype block) = None"
    by (simp add: statementTypes_def map_of_eq_None_iff)
  with assms show ?thesis
    by (simp add: convertStatementBlock.simps statementTypes_def unsupportedWarning_def)
qed

lemma unsupported_statement_continues:
  assumes "btype block \<notin> set statementTypes" and "btype block \<noteq> ''set_metadata''"
  shows "sequenceFrom H (Some block) md w
           = sequenceFrom H (getNextBlock block) md (unsupportedWarning block w)"
  using assms(2) unsupported_statement_skipped [OF assms(1), of H md w]
  by (cases "sequenceFrom H (getNextBlock block) md (unsupportedWarning block w)")
     (auto simp: sequenceFrom.simps)

lemma unsupported_expression_throws:
  assumes "btype block \<notin> set expressionTypes"
  shows "expressionFrom H (Some block)
           = Inl (UnsupportedExpression (''Unsupported expression block: '' @ btype block))"
  using assms by (simp add: expressionTypes_def)

lemma repeat_count_error_aborts:
  assumes "btype block = ''controls_repeat_ext''"
    and "expressionFrom H (getInputTargetBlock block ''TIMES'') = Inl e"
  shows "sequenceFrom H (Some block) md w = Inl e"
  using assms
  by (simp add: sequenceFrom.simps convertStatementBlock.simps convertRepeatBlock.simps
      split: prod.splits)

section \<open>The robot-control interface\<close>

text \<open>
  The members that \<open>interface IRobotActions\<close> declares, in order: each method with its
  return type and its parameters (type and name), and the one event. \<open>BaseRobot\<close>
  implements the interface with the same event and an abstract method per entry.
\<close>

record method_decl =
  decl_name :: string
  decl_returns :: string
  decl_params :: "(string \<times> string) list"

definition IRobotActions_events :: "(string \<times> string) list" where
  "IRobotActions_events = [(''OnLog'', ''Action<string>'')]"

definition IRobotActions :: "method_decl list" where
  "IRobotActions = [
     \<lparr>decl_name = ''MoveTo'', decl_returns = ''void'',
       decl_params = [(''int'', ''x''), (''int'', ''y''), (''int'', ''z'')]\<rparr>,
     \<lparr>decl_name = ''Grab'', decl_returns = ''void'', decl_params = []\<rparr>,
     \<lparr>decl_name = ''Release'', decl_returns = ''void'', decl_params = []\<rparr>,
     \<lparr>decl_name = ''PrintNumbers'', decl_returns = ''void'', decl_params = []\<rparr>,
     \<lparr>decl_name = ''ConnectRobot'', decl_returns = ''void'',
       decl_params = [(''string'', ''ipAddress''), (''int'', ''port'')]\<rparr>,
     \<lparr>decl_name = ''DisconnectRobot'', decl_returns = ''void'', decl_params = []\<rparr>,
     \<lparr>decl_name = ''PowerOnServo'', decl_returns = ''void'', decl_params = []\<rparr>,
     \<lparr>decl_name = ''PowerOffServo'', decl_returns = ''void'', decl_params = []\<rparr>,
     \<lparr>decl_name = ''SetSpeed'', decl_returns = ''void'', decl_params = [(''int'', ''percentage'')]\<rparr>,
     \<lparr>decl_name = ''SetAcceleration'', decl_returns = ''void'',
       decl_params = [(''int'', ''percentage'')]\<rparr>,
     \<lparr>decl_name = ''MoveJoint'', decl_returns = ''void'',
       decl_params = [(''double'', ''j1''), (''double'', ''j2''), (''double'', ''j3''),
                 (''double'', ''j4''), (''double'', ''j5''), (''double'', ''j6'')]\<rparr>,
     \<lparr>decl_name = ''MoveLinear'', decl_returns = ''void'',
       decl_params = [(''double'', ''x''), (''double'', ''y''), (''double'', ''z''),
                 (''double'', ''rx''), (''double'', ''ry''), (''double'', ''rz'')]\<rparr>,
     \<lparr>decl_name = ''MoveCircular'', decl_returns = ''void'',
       decl_params = [(''CartesianPoint'', ''viaPoint''), (''CartesianPoint'', ''endPoint'')]\<rparr>,
     \<lparr>decl_name = ''StopMotion'', decl_returns = ''void'', decl_params = []\<rparr>,
     \<lparr>decl_name = ''WaitForMoveFinish'', decl_returns = ''void'', decl_params = []\<rparr>,
     \<lparr>decl_name = ''GetCurrentJointPosition'', decl_returns = ''double[]'', decl_params = []\<rparr>,
     \<lparr>decl_name = ''GetCurrentCartesianPosition'', decl_returns = ''CartesianPoint'',
       decl_params = []\<rparr>,
     \<lparr>decl_name = ''GetRobotStatus'', decl_returns = ''string'', decl_params = []\<rparr>,
     \<lparr>decl_name = ''SetDigitalOutput'', decl_returns = ''void'',
       decl_params = [(''int'', ''port''), (''bool'', ''value'')]\<rparr>,
     \<lparr>decl_name = ''GetDigitalInput'', decl_returns = ''bool'', decl_params = [(''int'', ''port'')]\<rparr>,
     \<lparr>decl_name = ''SetToolCoordinate'', decl_returns = ''void'',
       decl_params = [(''double[]'', ''toolData'')]\<rparr>,
     \<lparr>decl_name = ''SetUserCoordinate'', decl_returns = ''void'',
       decl_params = [(''double[]'', ''userData'')]\<rparr>]"

definition BaseRobot_events :: "(string \<times> string) list" where
  "BaseRobot_events = [(''OnLog'', ''Action<string>'')]"

definition BaseRobot_abstract :: "method_decl list" where
  "BaseRobot_abstract = [
     \<lparr>decl_name = ''MoveTo'', decl_returns = ''void'',
       decl_params = [(''int'', ''x''), (''int'', ''y''), (''int'', ''z'')]\<rparr>,
     \<lparr>decl_name = ''Grab'', decl_returns = ''void'', decl_params = []\<rparr>,
     \<lparr>decl_name = ''Release'', decl_returns = ''void'', decl_params = []\<rparr>,
     \<lparr>decl_name = ''PrintNumbers'', decl_returns = ''void'', decl_params = []\<rparr>,
     \<lparr>decl_name = ''ConnectRobot'', decl_returns = ''void'',
       decl_params = [(''string'', ''ipAddress''), (''int'', ''port'')]\<rparr>,
     \<lparr>decl_name = ''DisconnectRobot'', decl_returns = ''void'', decl_params = []\<rparr>,
     \<lparr>decl_name = ''PowerOnServo'', decl_returns = ''void'', decl_params = []\<rparr>,
     \<lparr>decl_name = ''PowerOffServo'', decl_returns = ''void'', decl_params = []\<rparr>,
     \<lparr>decl_name = ''SetSpeed'', decl_returns = ''void'', decl_params = [(''int'', ''percentage'')]\<rparr>,
     \<lparr>decl_name = ''SetAcceleration'', decl_returns = ''void'',
       decl_params = [(''int'', ''percentage'')]\<rparr>,
     \<lparr>decl_name = ''MoveJoint'', decl_returns = ''void'',
       decl_params = [(''double'', ''j1''), (''double'', ''j2''), (''double'', ''j3''),
                 (''double'', ''j4''), (''double'', ''j5''), (''double'', ''j6'')]\<rparr>,
     \<lparr>decl_name = ''MoveLinear'', decl_returns = ''void'',
       decl_params = [(''double'', ''x''), (''double'', ''y''), (''double'', ''z''),
                 (''double'', ''rx''), (''double'', ''ry''), (''double'', ''rz'')]\<rparr>,
     \<lparr>decl_name = ''MoveCircular'', decl_returns = ''void'',
       decl_params = [(''CartesianPoint'', ''viaPoint''), (''CartesianPoint'', ''endPoint'')]\<rparr>,
     \<lparr>decl_name = ''StopMotion'', decl_returns = ''void'', decl_params = []\<rparr>,
     \<lparr>decl_name = ''WaitForMoveFinish'', decl_returns = ''void'', decl_params = []\<rparr>,
     \<lparr>decl_name = ''GetCurrentJointPosition'', decl_returns = ''double[]'', decl_params = []\<rparr>,
     \<lparr>decl_name = ''GetCurrentCartesianPosition'', decl_returns = ''CartesianPoint'',
       decl_params = []\<rparr>,
     \<lparr>decl_name = ''GetRobotStatus'', decl_returns = ''string'', decl_params = []\<rparr>,
     \<lparr>decl_name = ''SetDigitalOutput'', decl_returns = ''void'',
       decl_params = [(''int'', ''port''), (''bool'', ''value'')]\<rparr>,
     \<lparr>decl_name = ''GetDigitalInput'', decl_returns = ''bool'', decl_params = [(''int'', ''port'')]\<rparr>,
     \<lparr>decl_name = ''SetToolCoordinate'', decl_returns = ''void'',
       decl_params = [(''double[]'', ''toolData'')]\<rparr>,
     \<lparr>decl_name = ''SetUserCoordinate'', decl_returns = ''void'',
       decl_params = [(''double[]'', ''userData'')]\<rparr>]"

text \<open>The parameter names a list of declarations gives for a method, if it declares it.\<close>

definition parameter_names :: "method_decl list \<Rightarrow> string \<Rightarrow> string list option" where
  "parameter_names decls m =
     map_option (\<lambda>d. map snd (decl_params d)) (find (\<lambda>d. decl_name d = m) decls)"

text \<open>
  C7, as the code has it. The interface declares the operations of the specification's
  list, and \<open>BaseRobot\<close> the same ones, but with fewer parameters than the list names:
  \<open>MoveTo\<close>, \<open>MoveJoint\<close> and \<open>MoveLinear\<close> take no speed, \<open>StopMotion\<close> no stop type,
  \<open>WaitForMoveFinish\<close> no timeout and \<open>ConnectRobot\<close> no timeout. The log-event hook is
  the event \<open>OnLog\<close>.
\<close>

theorem interface_declarations:
  "parameter_names IRobotActions ''ConnectRobot'' = Some [''ipAddress'', ''port'']
   \<and> parameter_names IRobotActions ''DisconnectRobot'' = Some []
   \<and> parameter_names IRobotActions ''PowerOnServo'' = Some []
   \<and> parameter_names IRobotActions ''PowerOffServo'' = Some []
   \<and> parameter_names IRobotActions ''SetSpeed'' = Some [''percentage'']
   \<and> parameter_names IRobotActions ''SetAcceleration'' = Some [''percentage'']
   \<and> parameter_names IRobotActions ''MoveTo'' = Some [''x'', ''y'', ''z'']
   \<and> parameter_names IRobotActions ''MoveJoint''
       = Some [''j1'', ''j2'', ''j3'', ''j4'', ''j5'', ''j6'']
   \<and> parameter_names IRobotActions ''MoveLinear''
       = Some [''x'', ''y'', ''z'', ''rx'', ''ry'', ''rz'']
   \<and> parameter_names IRobotActions ''MoveCircular'' = Some [''viaPoint'', ''endPoint'']
   \<and> parameter_names IRobotActions ''StopMotion'' = Some []
   \<and> parameter_names IRobotActions ''WaitForMoveFinish'' = Some []
   \<and> parameter_names IRobotActions ''SetToolCoordinate'' = Some [''toolData'']
   \<and> parameter_names IRobotActions ''SetUserCoordinate'' = Some [''userData'']
   \<and> parameter_names IRobotActions ''Grab'' = Some []
   \<and> parameter_names IRobotActions ''Release'' = Some []
   \<and> parameter_names IRobotActions ''GetCurrentJointPosition'' = Some []
   \<and> parameter_names IRobotActions ''GetCurrentCartesianPosition'' = Some []
   \<and> parameter_names IRobotActions ''GetRobotStatus'' = Some []
   \<and> parameter_names IRobotActions ''SetDigitalOutput'' = Some [''port'', ''value'']
   \<and> parameter_names IRobotActions ''GetDigitalInput'' = Some [''port'']
   \<and> map_of IRobotActions_events ''OnLog'' = Some ''Action<string>''
   \<and> BaseRobot_abstract = IRobotActions
   \<and> BaseRobot_events = IRobotActions_events"
  by (simp add: parameter_names_def IRobotActions_def IRobotActions_events_def
      BaseRobot_abstract_def BaseRobot_events_def)

text \<open>The claim as worded fails: \<open>MoveTo\<close> is declared with three parameters, and none of
  them is a speed.\<close>

theorem moveTo_declares_no_speed:
  "parameter_names IRobotActions ''MoveTo'' \<noteq> Some [''x'', ''y'', ''z'', ''speed'']
   \<and> parameter_names BaseRobot_abstract ''MoveTo'' \<noteq> Some [''x'', ''y'', ''z'', ''speed'']
   \<and> parameter_names IRobotActions ''StopMotion'' \<noteq> Some [''stopType'']
   \<and> parameter_names IRobotActions ''WaitForMoveFinish'' \<noteq> Some [''timeout'']"
  by (simp add: parameter_names_def IRobotActions_def BaseRobot_abstract_def)

section \<open>The validator\<close>

text \<open>
  Modelled from the spec: the Schema Registry and the Validator (the repository's
  \<open>Compiler.ir_schema\<close> module, \<open>validate_ir_document\<close> and \<open>COMMAND_SPECS\<close>) are not
  among the sources. The definitions below follow section 4.3 of the specification rule
  by rule, over the documents that lowering produces. The registry is a parameter.
\<close>

text \<open>Modelled from the spec: the parameter contracts of the missing Schema Registry
  (\<open>CommandSpec\<close>: per parameter a type, whether it is required, and a special shape).\<close>

datatype ptype = TString | TNumber | TBoolean | TPercentage

datatype pshape = CartesianPointShape | CoordinateArrayShape

record param_spec =
  ptype_of :: ptype
  required :: bool
  shape :: "pshape option"

type_synonym command_spec = "(string \<times> param_spec) list"

type_synonym registry = "string \<Rightarrow> command_spec option"

text \<open>Modelled from the spec: the findings of the missing validator, each reported with
  the id of its node (\<open>ValidationResult\<close>).\<close>

datatype finding =
    VersionMismatch
  | DuplicateId
  | UnknownCommand string
  | MissingParameter string
  | TypeMismatch string
  | OutOfRange string
  | UndeclaredParameter string
  | StoreAsReused string

record validation_result =
  valid :: bool
  errors :: "(string \<times> finding) list"
  warnings :: "(string \<times> finding) list"

fun is_number :: "jsval \<Rightarrow> bool" where
  "is_number (JNum n) = True"
| "is_number v = False"

text \<open>Modelled from the spec: type and shape checking of the missing validator. A present
  key must match its declared type or shape; a
  cartesian point supplies exactly its six named numeric components, a coordinate array
  is a numeric sequence of exactly six elements.\<close>

fun matches_type :: "param_spec \<Rightarrow> jsval \<Rightarrow> bool" where
  "matches_type ps v =
     (case shape ps of
        Some CartesianPointShape \<Rightarrow>
          (case v of
             JObj kvs \<Rightarrow> map fst kvs = [''x'', ''y'', ''z'', ''rx'', ''ry'', ''rz'']
                         \<and> list_all is_number (map snd kvs)
           | _ \<Rightarrow> False)
      | Some CoordinateArrayShape \<Rightarrow>
          (case v of JArr vs \<Rightarrow> length vs = 6 \<and> list_all is_number vs | _ \<Rightarrow> False)
      | None \<Rightarrow>
          (case ptype_of ps of
             TString \<Rightarrow> (case v of JStr s \<Rightarrow> True | _ \<Rightarrow> False)
           | TNumber \<Rightarrow> is_number v
           | TBoolean \<Rightarrow> (case v of JBool b \<Rightarrow> True | _ \<Rightarrow> False)
           | TPercentage \<Rightarrow> is_number v))"

text \<open>Modelled from the spec: the range rule of the missing validator; a percentage lies in
  the closed interval from 0 to 100.\<close>

fun in_percentage_range :: "jsval \<Rightarrow> bool" where
  "in_percentage_range (JNum (Num r)) = (0 \<le> r \<and> r \<le> 100)"
| "in_percentage_range v = False"

text \<open>Modelled from the spec: rule 3 of the missing validator, for one present key: undeclared is a warning, a type
  mismatch an error, a percentage outside its interval an error.\<close>

definition check_parameter ::
    "command_spec \<Rightarrow> string \<Rightarrow> string \<times> jsval
       \<Rightarrow> (string \<times> finding) list \<times> (string \<times> finding) list" where
  "check_parameter spec i kv =
     (case map_of spec (fst kv) of
        None \<Rightarrow> ([], [(i, UndeclaredParameter (fst kv))])
      | Some ps \<Rightarrow>
          if \<not> matches_type ps (snd kv) then ([(i, TypeMismatch (fst kv))], [])
          else if ptype_of ps = TPercentage \<and> shape ps = None
                  \<and> \<not> in_percentage_range (snd kv)
          then ([(i, OutOfRange (fst kv))], [])
          else ([], []))"

text \<open>Modelled from the spec: rule 3 of the missing validator, for one command node: the command is resolved, then
  every required key must be present, then every present key is checked.\<close>

definition check_command ::
    "registry \<Rightarrow> string \<Rightarrow> string \<Rightarrow> (string \<times> jsval) list
       \<Rightarrow> (string \<times> finding) list \<times> (string \<times> finding) list" where
  "check_command reg i name ps =
     (case reg name of
        None \<Rightarrow> ([(i, UnknownCommand name)], [])
      | Some spec \<Rightarrow>
          (let missing = map (\<lambda>k. (i, MissingParameter k))
                 (filter (\<lambda>k. k \<notin> set (map fst ps))
                    (map fst (filter (\<lambda>p. required (snd p)) spec)));
               checked = map (check_parameter spec i) ps
           in (missing @ concat (map fst checked), concat (map snd checked))))"

text \<open>Modelled from the spec: rule 4 of the missing validator; control-flow bodies are validated with the same
  rules, so every statement of the document is checked, the nested ones too.\<close>

definition check_node ::
    "registry \<Rightarrow> node \<Rightarrow> (string \<times> finding) list \<times> (string \<times> finding) list" where
  "check_node reg n =
     (case n of
        Command i c p \<Rightarrow> check_command reg i c (case p of None \<Rightarrow> [] | Some ps \<Rightarrow> ps)
      | _ \<Rightarrow> ([], []))"

text \<open>Modelled from the spec: rule 2 of the missing validator; an id that an earlier node already carries is an
  error on the later node.\<close>

fun duplicate_ids :: "string list \<Rightarrow> string list \<Rightarrow> (string \<times> finding) list" where
  "duplicate_ids seen [] = []"
| "duplicate_ids seen (i # is) =
     (if i \<in> set seen then [(i, DuplicateId)] else []) @ duplicate_ids (i # seen) is"

text \<open>Modelled from the spec: rule 5 of the missing validator; a \<open>store_as\<close> name that an earlier command already
  uses is a warning on the later node.\<close>

fun store_as_of :: "node \<Rightarrow> (string \<times> jsval) list" where
  "store_as_of (Command i c (Some ps)) =
     (case map_of ps ''store_as'' of None \<Rightarrow> [] | Some v \<Rightarrow> [(i, v)])"
| "store_as_of n = []"

fun store_as_reused :: "jsval list \<Rightarrow> (string \<times> jsval) list \<Rightarrow> (string \<times> finding) list" where
  "store_as_reused seen [] = []"
| "store_as_reused seen ((i, v) # rest) =
     (if v \<in> set seen
      then [(i, StoreAsReused (case v of JStr s \<Rightarrow> s | _ \<Rightarrow> []))] else [])
     @ store_as_reused (v # seen) rest"

text \<open>Modelled from the spec: the missing \<open>validate\<close>, which accumulates every finding in rule order and never
  fails; the document is valid when there is no error.\<close>

definition validate :: "registry \<Rightarrow> document \<Rightarrow> validation_result" where
  "validate reg doc =
     (let nodes = concat (map all_nodes (sequence doc));
          checked = map (check_node reg) nodes;
          errs = duplicate_ids [] (map node_id nodes) @ concat (map fst checked);
          warns = (if version doc \<noteq> ''1.0'' then [([], VersionMismatch)] else [])
                  @ concat (map snd checked)
                  @ store_as_reused [] (concat (map store_as_of nodes))
      in \<lparr>valid = (errs = []), errors = errs, warnings = warns\<rparr>)"

text \<open>Modelled from the spec: the contract of \<open>set_speed\<close> in the missing registry, one
  required percentage, and the document of the specification's example.\<close>

definition set_speed_spec :: command_spec where
  "set_speed_spec = [(''percentage'', \<lparr>ptype_of = TPercentage, required = True, shape = None\<rparr>)]"

definition set_speed_document :: "string \<Rightarrow> real \<Rightarrow> document" where
  "set_speed_document i p =
     \<lparr>version = ''1.0'', doc_metadata = empty_metadata,
      sequence = [Command i ''set_speed'' (Some [(''percentage'', JNum (Num p))])]\<rparr>"

definition example_registry :: registry where
  "example_registry = map_of [(''set_speed'', set_speed_spec), (''set_acceleration'', set_speed_spec)]"

text \<open>Modelled from the spec: a document with a command nested in a loop body, for the
  rule that bodies are validated like the top level.\<close>

definition nested_document :: document where
  "nested_document =
     \<lparr>version = ''1.0'', doc_metadata = empty_metadata,
      sequence = [Command ''n1'' ''set_speed'' (Some [(''percentage'', JNum (Num 100))]),
                  Repeat ''n2'' (LiteralNumber (Num 2))
                    [Command ''n3'' ''set_acceleration''
                       (Some [(''percentage'', JNum (Num 150))])]]\<rparr>"

lemma validate_set_speed:
  assumes "reg ''set_speed'' = Some set_speed_spec"
  shows "validate reg (set_speed_document i p) =
     \<lparr>valid = (0 \<le> p \<and> p \<le> 100),
      errors = (if 0 \<le> p \<and> p \<le> 100 then [] else [(i, OutOfRange ''percentage'')]),
      warnings = []\<rparr>"
  using assms
  by (simp add: validate_def set_speed_document_def check_node_def check_command_def
      check_parameter_def set_speed_spec_def)

lemma duplicate_ids_finding: "(i, f) \<in> set (duplicate_ids seen ids) \<Longrightarrow> f = DuplicateId"
  by (induction ids arbitrary: seen) (auto split: if_splits)

lemma check_parameter_range:
  "((j, OutOfRange k) \<in> set (fst (check_parameter spec i kv))) =
     (j = i \<and> k = fst kv
      \<and> (\<exists>ps. map_of spec k = Some ps \<and> ptype_of ps = TPercentage \<and> shape ps = None
            \<and> is_number (snd kv) \<and> \<not> in_percentage_range (snd kv)))"
  by (auto simp: check_parameter_def split: option.splits ptype.splits)

lemma check_command_range:
  "((j, OutOfRange k) \<in> set (fst (check_command reg i name ps))) =
     (j = i
      \<and> (\<exists>spec pspec v. reg name = Some spec \<and> (k, v) \<in> set ps
            \<and> map_of spec k = Some pspec \<and> ptype_of pspec = TPercentage
            \<and> shape pspec = None \<and> is_number v \<and> \<not> in_percentage_range v))"
proof (cases "reg name")
  case None
  then show ?thesis by (simp add: check_command_def)
next
  case (Some spec)
  have "((j, OutOfRange k) \<in> set (fst (check_command reg i name ps))) =
          (\<exists>kv \<in> set ps. (j, OutOfRange k) \<in> set (fst (check_parameter spec i kv)))"
    using Some by (auto simp: check_command_def Let_def)
  also have "\<dots> = (j = i \<and> (\<exists>pspec v. (k, v) \<in> set ps
            \<and> map_of spec k = Some pspec \<and> ptype_of pspec = TPercentage
            \<and> shape pspec = None \<and> is_number v \<and> \<not> in_percentage_range v))"
    unfolding check_parameter_range by force
  finally show ?thesis using Some by simp
qed

lemma check_node_range:
  "((j, OutOfRange k) \<in> set (fst (check_node reg n))) =
     (\<exists>c ps spec pspec v. n = Command j c (Some ps) \<and> reg c = Some spec \<and> (k, v) \<in> set ps
        \<and> map_of spec k = Some pspec \<and> ptype_of pspec = TPercentage
        \<and> shape pspec = None \<and> is_number v \<and> \<not> in_percentage_range v)"
  by (cases n) (auto simp: check_node_def check_command_range split: option.splits)

lemma validate_range_errors:
  "((i, OutOfRange k) \<in> set (errors (validate reg doc))) =
     (\<exists>c ps spec pspec v.
        Command i c (Some ps) \<in> set (concat (map all_nodes (sequence doc)))
        \<and> reg c = Some spec \<and> (k, v) \<in> set ps
        \<and> map_of spec k = Some pspec \<and> ptype_of pspec = TPercentage
        \<and> shape pspec = None \<and> is_number v \<and> \<not> in_percentage_range v)"
proof -
  let ?nodes = "concat (map all_nodes (sequence doc))"
  have "((i, OutOfRange k) \<in> set (errors (validate reg doc))) =
          (\<exists>n \<in> set ?nodes. (i, OutOfRange k) \<in> set (fst (check_node reg n)))"
    using duplicate_ids_finding [of i "OutOfRange k" "[]" "map node_id ?nodes"]
    by (auto simp: validate_def Let_def)
  then show ?thesis by (simp add: check_node_range) blast
qed

lemma in_range_no_finding:
  assumes "map_of spec k = Some pspec" and "ptype_of pspec = TPercentage"
    and "shape pspec = None" and "0 \<le> r" and "r \<le> 100"
  shows "check_parameter spec i (k, JNum (Num r)) = ([], [])"
  using assms by (simp add: check_parameter_def)



lemma range_rule_parameter:
  assumes "map_of spec k = Some pspec" and "ptype_of pspec = TPercentage"
    and "shape pspec = None"
  shows "check_parameter spec i (k, JNum (Num r)) =
           (if 0 \<le> r \<and> r \<le> 100 then ([], []) else ([(i, OutOfRange k)], []))"
  using assms by (simp add: check_parameter_def)

lemma range_rule_node:
  assumes n: "Command j c (Some ps) \<in> set (concat (map all_nodes (sequence doc)))"
    and r: "reg c = Some spec" and kv: "(k, JNum (Num r)) \<in> set ps"
    and s: "map_of spec k = Some pspec" "ptype_of pspec = TPercentage" "shape pspec = None"
  shows "((j, OutOfRange k) \<in> set (errors (validate reg doc)) \<or> (0 \<le> r \<and> r \<le> 100))
         \<and> (valid (validate reg doc) \<longrightarrow> 0 \<le> r \<and> r \<le> 100)"
proof -
  have a: "(j, OutOfRange k) \<in> set (errors (validate reg doc))" if "\<not> (0 \<le> r \<and> r \<le> 100)"
    unfolding validate_range_errors using n r kv s that
    by (intro exI [of _ c] exI [of _ ps] exI [of _ spec] exI [of _ pspec]
        exI [of _ "JNum (Num r)"]) simp
  have v: "valid (validate reg doc) = (errors (validate reg doc) = [])"
    by (simp add: validate_def Let_def)
  show ?thesis using a v by fastforce
qed

lemma nested_document_nodes:
  "concat (map all_nodes (sequence nested_document)) =
     [Command ''n1'' ''set_speed'' (Some [(''percentage'', JNum (Num 100))]),
      Repeat ''n2'' (LiteralNumber (Num 2))
        [Command ''n3'' ''set_acceleration'' (Some [(''percentage'', JNum (Num 150))])],
      Command ''n3'' ''set_acceleration'' (Some [(''percentage'', JNum (Num 150))])]"
  by (simp add: nested_document_def)

text \<open>
  C8. Under a registry that gives \<open>set_speed\<close> its contract, a document whose only node is
  \<open>set_speed\<close> with percentage 150 has exactly one error, the range error on that node;
  with percentage 0 or 100 it has no error and is valid; and that document is free of
  errors exactly when the percentage lies between 0 and 100, bounds included.

  The rule behind it, for every registry and every document: the validator reports a
  range error for key \<open>k\<close> on node \<open>j\<close> exactly when \<open>j\<close> is a command node of the
  document, at the top level or inside a body or branch, whose command the registry
  resolves, and the node carries under \<open>k\<close> a number outside the closed interval from 0 to
  100 while the contract declares \<open>k\<close> a percentage without a special shape. So every
  numeric percentage-typed parameter of every command node with a value below 0 or above
  100 is an error that makes the document invalid, a valid document has all of them
  between 0 and 100, and the check of one such parameter reports nothing for a value
  between 0 and 100, the bounds 0 and 100 included, and the range error otherwise.
\<close>

theorem set_speed_percentage_range:
  "(reg ''set_speed'' = Some set_speed_spec \<longrightarrow>
     errors (validate reg (set_speed_document i 150)) = [(i, OutOfRange ''percentage'')]
     \<and> \<not> valid (validate reg (set_speed_document i 150))
     \<and> errors (validate reg (set_speed_document i 0)) = []
     \<and> valid (validate reg (set_speed_document i 0))
     \<and> errors (validate reg (set_speed_document i 100)) = []
     \<and> valid (validate reg (set_speed_document i 100))
     \<and> (errors (validate reg (set_speed_document i p)) = []) = (0 \<le> p \<and> p \<le> 100)
     \<and> length (errors (validate reg (set_speed_document i p))) \<le> 1)
   \<and> ((j, OutOfRange k) \<in> set (errors (validate reg doc))) =
       (\<exists>c ps spec pspec v.
          Command j c (Some ps) \<in> set (concat (map all_nodes (sequence doc)))
          \<and> reg c = Some spec \<and> (k, v) \<in> set ps
          \<and> map_of spec k = Some pspec \<and> ptype_of pspec = TPercentage
          \<and> shape pspec = None \<and> is_number v \<and> \<not> in_percentage_range v)
   \<and> (Command j c (Some ps) \<in> set (concat (map all_nodes (sequence doc)))
        \<and> reg c = Some spec \<and> (k, JNum (Num r)) \<in> set ps
        \<and> map_of spec k = Some pspec \<and> ptype_of pspec = TPercentage \<and> shape pspec = None
      \<longrightarrow> ((r < 0 \<or> 100 < r) \<longrightarrow>
             (j, OutOfRange k) \<in> set (errors (validate reg doc))
             \<and> \<not> valid (validate reg doc))
          \<and> (valid (validate reg doc) \<longrightarrow> 0 \<le> r \<and> r \<le> 100))
   \<and> (map_of spec k = Some pspec \<and> ptype_of pspec = TPercentage \<and> shape pspec = None
      \<longrightarrow> check_parameter spec i (k, JNum (Num r)) =
            (if 0 \<le> r \<and> r \<le> 100 then ([], []) else ([(i, OutOfRange k)], [])))"
proof -
  have A: "reg ''set_speed'' = Some set_speed_spec \<longrightarrow>
     errors (validate reg (set_speed_document i 150)) = [(i, OutOfRange ''percentage'')]
     \<and> \<not> valid (validate reg (set_speed_document i 150))
     \<and> errors (validate reg (set_speed_document i 0)) = []
     \<and> valid (validate reg (set_speed_document i 0))
     \<and> errors (validate reg (set_speed_document i 100)) = []
     \<and> valid (validate reg (set_speed_document i 100))
     \<and> (errors (validate reg (set_speed_document i p)) = []) = (0 \<le> p \<and> p \<le> 100)
     \<and> length (errors (validate reg (set_speed_document i p))) \<le> 1"
  proof (intro impI)
    assume r: "reg ''set_speed'' = Some set_speed_spec"
    have v: "errors (validate reg (set_speed_document i q))
               = (if 0 \<le> q \<and> q \<le> 100 then [] else [(i, OutOfRange ''percentage'')])"
      and ok: "valid (validate reg (set_speed_document i q)) = (0 \<le> q \<and> q \<le> 100)" for q
      by (simp_all add: validate_set_speed [of reg, OF r])
    show "errors (validate reg (set_speed_document i 150)) = [(i, OutOfRange ''percentage'')]
       \<and> \<not> valid (validate reg (set_speed_document i 150))
       \<and> errors (validate reg (set_speed_document i 0)) = []
       \<and> valid (validate reg (set_speed_document i 0))
       \<and> errors (validate reg (set_speed_document i 100)) = []
       \<and> valid (validate reg (set_speed_document i 100))
       \<and> (errors (validate reg (set_speed_document i p)) = []) = (0 \<le> p \<and> p \<le> 100)
       \<and> length (errors (validate reg (set_speed_document i p))) \<le> 1"
      by (simp add: v ok)
  qed
  have B: "((j, OutOfRange k) \<in> set (errors (validate reg doc))) =
       (\<exists>c ps spec pspec v.
          Command j c (Some ps) \<in> set (concat (map all_nodes (sequence doc)))
          \<and> reg c = Some spec \<and> (k, v) \<in> set ps
          \<and> map_of spec k = Some pspec \<and> ptype_of pspec = TPercentage
          \<and> shape pspec = None \<and> is_number v \<and> \<not> in_percentage_range v)"
    by (rule validate_range_errors)
  have C: "Command j c (Some ps) \<in> set (concat (map all_nodes (sequence doc)))
        \<and> reg c = Some spec \<and> (k, JNum (Num r)) \<in> set ps
        \<and> map_of spec k = Some pspec \<and> ptype_of pspec = TPercentage \<and> shape pspec = None
      \<longrightarrow> ((r < 0 \<or> 100 < r) \<longrightarrow>
             (j, OutOfRange k) \<in> set (errors (validate reg doc))
             \<and> \<not> valid (validate reg doc))
          \<and> (valid (validate reg doc) \<longrightarrow> 0 \<le> r \<and> r \<le> 100)"
    using range_rule_node [where j = j and c = c and ps = ps and doc = doc and reg = reg
        and spec = spec and k = k and r = r and pspec = pspec] by fastforce
  have D: "map_of spec k = Some pspec \<and> ptype_of pspec = TPercentage \<and> shape pspec = None
      \<longrightarrow> check_parameter spec i (k, JNum (Num r)) =
            (if 0 \<le> r \<and> r \<le> 100 then ([], []) else ([(i, OutOfRange k)], []))"
    using range_rule_parameter [where spec = spec and k = k and pspec = pspec and r = r
        and i = i] by blast
  show ?thesis using A B C D by (intro conjI)
qed

theorem set_speed_percentage_range_witness:
  "example_registry ''set_speed'' = Some set_speed_spec
   \<and> errors (validate example_registry (set_speed_document ''n1'' 150))
       = [(''n1'', OutOfRange ''percentage'')]
   \<and> errors (validate example_registry (set_speed_document ''n1'' 0)) = []
   \<and> errors (validate example_registry (set_speed_document ''n1'' 100)) = []
   \<and> errors (validate example_registry (set_speed_document ''n1'' 101))
       = [(''n1'', OutOfRange ''percentage'')]
   \<and> Command ''n3'' ''set_acceleration'' (Some [(''percentage'', JNum (Num 150))])
       \<in> set (concat (map all_nodes (sequence nested_document)))
   \<and> example_registry ''set_acceleration'' = Some set_speed_spec
   \<and> map_of set_speed_spec ''percentage''
       = Some \<lparr>ptype_of = TPercentage, required = True, shape = None\<rparr>
   \<and> (''n3'', OutOfRange ''percentage'') \<in> set (errors (validate example_registry nested_document))
   \<and> \<not> valid (validate example_registry nested_document)
   \<and> errors (validate example_registry nested_document) = [(''n3'', OutOfRange ''percentage'')]"
proof -
  have r: "example_registry ''set_speed'' = Some set_speed_spec"
    and r2: "example_registry ''set_acceleration'' = Some set_speed_spec"
    by (simp_all add: example_registry_def)
  have m: "map_of set_speed_spec ''percentage''
       = Some \<lparr>ptype_of = TPercentage, required = True, shape = None\<rparr>"
    by (simp add: set_speed_spec_def)
  have e: "errors (validate example_registry nested_document) = [(''n3'', OutOfRange ''percentage'')]"
    by (simp add: validate_def nested_document_nodes check_node_def check_command_def
        check_parameter_def r r2 set_speed_spec_def)
  have n: "Command ''n3'' ''set_acceleration'' (Some [(''percentage'', JNum (Num 150))])
       \<in> set (concat (map all_nodes (sequence nested_document)))"
    by (simp add: nested_document_nodes)
  show ?thesis
    using r r2 m n
      set_speed_percentage_range [where reg = example_registry and i = "''n1''" and p = 101
        and j = "''n3''" and k = "''percentage''" and doc = nested_document
        and c = "''set_acceleration''" and ps = "[(''percentage'', JNum (Num 150))]"
        and spec = set_speed_spec and r = 150
        and pspec = "\<lparr>ptype_of = TPercentage, required = True, shape = None\<rparr>"]
    by (simp add: validate_set_speed [of example_registry, OF r] e)
qed

section \<open>Traversal order\<close>

text \<open>
  The statement blocks of a graph in the order lowering visits them: a block, then the
  chains connected to its statement inputs (for an if block the DO inputs of its branches
  in index order, then ELSE; for a loop block its DO input), then the block below it.
\<close>

function statementBlocks :: "block option \<Rightarrow> block list"
  and nestedStatementBlocks :: "block \<Rightarrow> block list"
  and branchStatementBlocks :: "block \<Rightarrow> nat \<Rightarrow> block list"
where
  "statementBlocks None = []"
| "statementBlocks (Some b) = b # nestedStatementBlocks b @ statementBlocks (getNextBlock b)"
| "nestedStatementBlocks b =
    (if btype b = ''controls_if'' then
       branchStatementBlocks b 0 @ statementBlocks (getInputTargetBlock b ''ELSE'')
     else if btype b = ''controls_repeat_ext'' \<or> btype b = ''controls_whileUntil''
             \<or> btype b = ''controls_for'' \<or> btype b = ''controls_forEach'' then
       statementBlocks (getInputTargetBlock b ''DO'')
     else [])"
| "branchStatementBlocks b index =
    (if getInput b (''IF'' @ show_nat index) then
       statementBlocks (getInputTargetBlock b (''DO'' @ show_nat index))
         @ branchStatementBlocks b (index + 1)
     else [])"
  by pat_completeness auto
termination
proof (relation "measures [
     (\<lambda>x. case x of
        Inl ob \<Rightarrow> 3 * osize ob
      | Inr (Inl b) \<Rightarrow> 3 * size b + 2
      | Inr (Inr (b, i)) \<Rightarrow> 3 * size b + 1),
     (\<lambda>x. case x of
        Inr (Inr (b, i)) \<Rightarrow> branch_bound b - i
      | _ \<Rightarrow> 0)]", goal_cases)
  case 1
  show ?case by simp
next
  case (2 b)
  show ?case by (simp add: osize_def)
next
  case (3 b)
  show ?case using osize_getNextBlock [of b] by (simp add: osize_def)
next
  case (4 b)
  show ?case by simp
next
  case (5 b)
  show ?case using osize_getInputTargetBlock [of b "''ELSE''"] by simp
next
  case (6 b)
  show ?case using osize_getInputTargetBlock [of b "''DO''"] by simp
next
  case (7 b index)
  show ?case using osize_getInputTargetBlock [of b "''DO'' @ show_nat index"] by simp
next
  case (8 b index)
  show ?case using getInput_index_bound [OF 8] by simp
qed

declare nestedStatementBlocks.simps [simp del] branchStatementBlocks.simps [simp del]

definition visitedBlocks :: "block list \<Rightarrow> block list" where
  "visitedBlocks topBlocks = concat (map (\<lambda>b. statementBlocks (Some b)) topBlocks)"

definition metadataBlocks :: "block list \<Rightarrow> block list" where
  "metadataBlocks bs = filter (\<lambda>b. btype b = ''set_metadata'') bs"

definition applyAll :: "metadata \<Rightarrow> block list \<Rightarrow> metadata" where
  "applyAll md bs = foldl (\<lambda>m b. applyMetadata b m) md bs"

text \<open>The inputs of an expression block that \<open>expressionFrom\<close> lowers in turn, by block
  type, in the order of the calls.\<close>

definition expressionInputs :: "string \<Rightarrow> string list" where
  "expressionInputs t =
     (if t = ''logic_compare'' \<or> t = ''logic_operation'' \<or> t = ''math_arithmetic''
      then [''A'', ''B'']
      else if t = ''logic_negate'' then [''BOOL'']
      else if t = ''logic_ternary'' then [''IF'', ''THEN'', ''ELSE'']
      else if t = ''math_single'' \<or> t = ''math_trig'' \<or> t = ''math_round'' then [''NUM'']
      else if t = ''math_modulo'' then [''DIVIDEND'', ''DIVISOR'']
      else if t = ''math_constrain'' then [''VALUE'', ''LOW'', ''HIGH'']
      else if t = ''math_random_int'' then [''FROM'', ''TO'']
      else [])"

text \<open>The blocks of an expression: the block connected to an expression input and, through
  the inputs \<open>expressionFrom\<close> follows, the blocks nested in it.\<close>

function expressionBlocks :: "block option \<Rightarrow> block list" where
  "expressionBlocks None = []"
| "expressionBlocks (Some b) =
     b # concat (map (\<lambda>name. expressionBlocks (getInputTargetBlock b name))
                  (expressionInputs (btype b)))"
  by pat_completeness auto
termination
proof (relation "measure osize", goal_cases)
  case 1
  show ?case by simp
next
  case (2 b name)
  show ?case using osize_getInputTargetBlock [of b name] by (simp add: osize_def)
qed

declare expressionBlocks.simps(2) [simp del]

text \<open>The conditions of an if block, from branch \<open>index\<close> on, as \<open>convertIfBlock\<close> reads
  them.\<close>

function branchConditions :: "block \<Rightarrow> nat \<Rightarrow> block list" where
  "branchConditions b index =
     (if getInput b (''IF'' @ show_nat index) then
        expressionBlocks (getInputTargetBlock b (''IF'' @ show_nat index))
          @ branchConditions b (index + 1)
      else [])"
  by pat_completeness auto
termination
proof (relation "measure (\<lambda>(b, i). branch_bound b - i)", goal_cases)
  case 1
  show ?case by simp
next
  case (2 b index)
  show ?case using getInput_index_bound [OF 2] by simp
qed

declare branchConditions.simps [simp del]

text \<open>The expression blocks that lowering one statement block reads: the conditions of an
  if block, the count of a repeat block, the condition of a while block, the bounds and
  the step of a for block, the list of a for-each block.\<close>

definition statementExpressions :: "block \<Rightarrow> block list" where
  "statementExpressions b =
     (if btype b = ''controls_if'' then branchConditions b 0
      else if btype b = ''controls_repeat_ext'' then
        expressionBlocks (getInputTargetBlock b ''TIMES'')
      else if btype b = ''controls_whileUntil'' then
        expressionBlocks (getInputTargetBlock b ''BOOL'')
      else if btype b = ''controls_for'' then
        expressionBlocks (getInputTargetBlock b ''FROM'')
          @ expressionBlocks (getInputTargetBlock b ''TO'')
          @ expressionBlocks (getInputTargetBlock b ''BY'')
      else if btype b = ''controls_forEach'' then
        expressionBlocks (getInputTargetBlock b ''LIST'')
      else [])"

text \<open>All expression blocks under a list of statement blocks, and under a workspace.\<close>

definition expressionBlocksOf :: "block list \<Rightarrow> block list" where
  "expressionBlocksOf bs = concat (map statementExpressions bs)"

definition workspaceExpressions :: "block list \<Rightarrow> block list" where
  "workspaceExpressions topBlocks = expressionBlocksOf (visitedBlocks topBlocks)"

section \<open>What a successful lowering is made of\<close>

lemma sequenceFrom_metadata_block:
  "btype current = ''set_metadata'' \<Longrightarrow>
   sequenceFrom H (Some current) md w
     = sequenceFrom H (getNextBlock current) (applyMetadata current md) w"
  by (simp add: sequenceFrom.simps)

lemma sequenceFrom_statement_block:
  assumes "btype current \<noteq> ''set_metadata''"
    and "sequenceFrom H (Some current) md w = Inr (ns, md', w')"
  shows "\<exists>n1 md1 w1 rest. convertStatementBlock H current md w = Inr (n1, md1, w1)
           \<and> sequenceFrom H (getNextBlock current) md1 w1 = Inr (rest, md', w')
           \<and> ns = n1 @ rest"
  using assms by (auto simp: sequenceFrom.simps split: sum.splits)

lemma convertIfBlock_parts:
  assumes "convertIfBlock H block md w = Inr (n, md', w')"
  shows "\<exists>brs md1 w1 eb w2. convertIfBlock_branches H block 0 md w = Inr (brs, md1, w1)
           \<and> sequenceFrom H (getInputTargetBlock block ''ELSE'') md1 w1 = Inr (eb, md', w2)
           \<and> n = If (fst (blockId H block w2)) brs (if eb \<noteq> [] then Some eb else None)
           \<and> w' = snd (blockId H block w2)"
proof -
  obtain brs md1 w1 where b: "convertIfBlock_branches H block 0 md w = Inr (brs, md1, w1)"
    using assms
    by (cases "convertIfBlock_branches H block 0 md w") (auto simp: convertIfBlock.simps)
  obtain eb md2 w2 where
    e: "sequenceFrom H (getInputTargetBlock block ''ELSE'') md1 w1 = Inr (eb, md2, w2)"
    using assms b
    by (cases "sequenceFrom H (getInputTargetBlock block ''ELSE'') md1 w1")
       (auto simp: convertIfBlock.simps)
  from assms b e show ?thesis
    by (auto simp: convertIfBlock.simps case_prod_beta)
qed

lemma convertIfBlock_branches_end:
  "\<not> getInput block (''IF'' @ show_nat index) \<Longrightarrow>
   convertIfBlock_branches H block index md w = Inr ([], md, w)"
  by (simp add: convertIfBlock_branches.simps [of H block index])

lemma convertIfBlock_branches_parts:
  assumes "getInput block (''IF'' @ show_nat index)"
    and "convertIfBlock_branches H block index md w = Inr (brs, md', w')"
  shows "\<exists>c b md1 w1 rest.
           expressionFrom H (getInputTargetBlock block (''IF'' @ show_nat index)) = Inr c
           \<and> sequenceFrom H (getInputTargetBlock block (''DO'' @ show_nat index)) md w
               = Inr (b, md1, w1)
           \<and> convertIfBlock_branches H block (index + 1) md1 w1 = Inr (rest, md', w')
           \<and> brs = (c, b) # rest"
  using assms
  by (auto simp: convertIfBlock_branches.simps [of H block index] split: sum.splits prod.splits)

lemma convertRepeatBlock_parts:
  assumes "convertRepeatBlock H block md w = Inr (n, md', w')"
  shows "\<exists>c b. expressionFrom H (getInputTargetBlock block ''TIMES'') = Inr c
           \<and> sequenceFrom H (getInputTargetBlock block ''DO'') md (snd (blockId H block w))
               = Inr (b, md', w')
           \<and> n = Repeat (fst (blockId H block w)) c b"
  using assms by (auto simp: convertRepeatBlock.simps split: sum.splits prod.splits)

lemma convertWhileBlock_parts:
  assumes "convertWhileBlock H block md w = Inr (n, md', w')"
  shows "\<exists>c b. expressionFrom H (getInputTargetBlock block ''BOOL'') = Inr c
           \<and> sequenceFrom H (getInputTargetBlock block ''DO'') md (snd (blockId H block w))
               = Inr (b, md', w')
           \<and> n = While (fst (blockId H block w))
                   (if getFieldValue block ''MODE'' = Some (FStr ''UNTIL'')
                    then ''until'' else ''while'') c b"
  using assms by (auto simp: convertWhileBlock.simps Let_def split: sum.splits prod.splits)

lemma convertForBlock_range_parts:
  assumes "btype block = ''controls_for''"
    and "convertForBlock H block md w = Inr (n, md', w')"
  shows "\<exists>f t s b. expressionFrom H (getInputTargetBlock block ''FROM'') = Inr f
           \<and> expressionFrom H (getInputTargetBlock block ''TO'') = Inr t
           \<and> expressionFrom H (getInputTargetBlock block ''BY'') = Inr s
           \<and> sequenceFrom H (getInputTargetBlock block ''DO'') md (snd (blockId H block w))
               = Inr (b, md', w')
           \<and> n = ForRange (fst (blockId H block w))
                   (of_field (js_or (getFieldValue block ''VAR'') (FStr ''i''))) f t s b"
  using assms by (auto simp: convertForBlock.simps Let_def split: sum.splits prod.splits)

lemma convertForBlock_each_parts:
  assumes "btype block \<noteq> ''controls_for''"
    and "convertForBlock H block md w = Inr (n, md', w')"
  shows "\<exists>c b. expressionFrom H (getInputTargetBlock block ''LIST'') = Inr c
           \<and> sequenceFrom H (getInputTargetBlock block ''DO'') md (snd (blockId H block w))
               = Inr (b, md', w')
           \<and> n = ForEach (fst (blockId H block w))
                   (of_field (js_or (getFieldValue block ''VAR'') (FStr ''item''))) c b"
  using assms by (auto simp: convertForBlock.simps Let_def split: sum.splits prod.splits)

text \<open>The dispatch of \<open>convertStatementBlock\<close>, one fact per branch.\<close>

lemma convertStatementBlock_if:
  "btype block = ''controls_if'' \<Longrightarrow>
   convertStatementBlock H block md w =
     (case convertIfBlock H block md w of
        Inl e \<Rightarrow> Inl e | Inr (n, md1, w1) \<Rightarrow> Inr ([n], md1, w1))"
  by (simp add: convertStatementBlock.simps)

lemma convertStatementBlock_repeat:
  "btype block = ''controls_repeat_ext'' \<Longrightarrow>
   convertStatementBlock H block md w =
     (case convertRepeatBlock H block md w of
        Inl e \<Rightarrow> Inl e | Inr (n, md1, w1) \<Rightarrow> Inr ([n], md1, w1))"
  by (simp add: convertStatementBlock.simps)

lemma convertStatementBlock_while:
  "btype block = ''controls_whileUntil'' \<Longrightarrow>
   convertStatementBlock H block md w =
     (case convertWhileBlock H block md w of
        Inl e \<Rightarrow> Inl e | Inr (n, md1, w1) \<Rightarrow> Inr ([n], md1, w1))"
  by (simp add: convertStatementBlock.simps)

lemma convertStatementBlock_for:
  "btype block = ''controls_for'' \<or> btype block = ''controls_forEach'' \<Longrightarrow>
   convertStatementBlock H block md w =
     (case convertForBlock H block md w of
        Inl e \<Rightarrow> Inl e | Inr (n, md1, w1) \<Rightarrow> Inr ([n], md1, w1))"
  by (auto simp: convertStatementBlock.simps)

definition isControlType :: "string \<Rightarrow> bool" where
  "isControlType t = (t \<in> set [''controls_if'', ''controls_repeat_ext'',
     ''controls_whileUntil'', ''controls_for'', ''controls_forEach''])"

lemma convertStatementBlock_leaf:
  "\<not> isControlType (btype block) \<Longrightarrow>
   convertStatementBlock H block md w =
     (if btype block = ''controls_flow_statements'' then
        (case convertFlowStatement H block w of
           Inl e \<Rightarrow> Inl e | Inr (n, w1) \<Rightarrow> Inr ([n], md, w1))
      else if map_of parameterReaders (btype block) \<noteq> None
              \<or> btype block \<in> set commandsWithoutParameters then
        Inr ([fst (convertCommandBlock H block w)], md, snd (convertCommandBlock H block w))
      else Inr ([], md, unsupportedWarning block w))"
  by (simp add: convertStatementBlock.simps isControlType_def unsupportedWarning_def
      split: prod.splits)

lemma control_type_cases:
  obtains (if_block) "btype block = ''controls_if''"
    | (repeat_block) "btype block = ''controls_repeat_ext''"
    | (while_block) "btype block = ''controls_whileUntil''"
    | (for_block) "btype block \<noteq> ''controls_if''" "btype block \<noteq> ''controls_repeat_ext''"
        "btype block \<noteq> ''controls_whileUntil''"
        "btype block = ''controls_for'' \<or> btype block = ''controls_forEach''"
    | (leaf) "\<not> isControlType (btype block)"
  by (auto simp: isControlType_def)

section \<open>Metadata\<close>

lemma applyAll_simps [simp]:
  "applyAll md [] = md"
  "applyAll md (b # bs) = applyAll (applyMetadata b md) bs"
  "applyAll md (bs @ cs) = applyAll (applyAll md bs) cs"
  by (simp_all add: applyAll_def)

lemma metadataBlocks_simps [simp]:
  "metadataBlocks [] = []"
  "metadataBlocks (b # bs) = (if btype b = ''set_metadata'' then b # metadataBlocks bs
                              else metadataBlocks bs)"
  "metadataBlocks (bs @ cs) = metadataBlocks bs @ metadataBlocks cs"
  by (simp_all add: metadataBlocks_def)

lemma nestedStatementBlocks_command [simp]:
  "btype b \<noteq> ''controls_if'' \<Longrightarrow> btype b \<noteq> ''controls_repeat_ext'' \<Longrightarrow>
   btype b \<noteq> ''controls_whileUntil'' \<Longrightarrow> btype b \<noteq> ''controls_for'' \<Longrightarrow>
   btype b \<noteq> ''controls_forEach'' \<Longrightarrow> nestedStatementBlocks b = []"
  by (simp add: nestedStatementBlocks.simps)

lemma metadata_after_lowering:
  "\<forall>ns md' w'. sequenceFrom H ob md w = Inr (ns, md', w') \<longrightarrow>
      md' = applyAll md (metadataBlocks (statementBlocks ob))"
  "\<forall>ns md' w'. convertStatementBlock H block md w = Inr (ns, md', w') \<longrightarrow>
      md' = applyAll md (metadataBlocks (nestedStatementBlocks block))"
  "\<forall>n md' w'. convertIfBlock H block md w = Inr (n, md', w') \<longrightarrow>
      md' = applyAll md (metadataBlocks (branchStatementBlocks block 0
              @ statementBlocks (getInputTargetBlock block ''ELSE'')))"
  "\<forall>brs md' w'. convertIfBlock_branches H block index md w = Inr (brs, md', w') \<longrightarrow>
      md' = applyAll md (metadataBlocks (branchStatementBlocks block index))"
  "\<forall>n md' w'. convertRepeatBlock H block md w = Inr (n, md', w') \<longrightarrow>
      md' = applyAll md (metadataBlocks (statementBlocks (getInputTargetBlock block ''DO'')))"
  "\<forall>n md' w'. convertWhileBlock H block md w = Inr (n, md', w') \<longrightarrow>
      md' = applyAll md (metadataBlocks (statementBlocks (getInputTargetBlock block ''DO'')))"
  "\<forall>n md' w'. convertForBlock H block md w = Inr (n, md', w') \<longrightarrow>
      md' = applyAll md (metadataBlocks (statementBlocks (getInputTargetBlock block ''DO'')))"
proof (induction H ob md w and H block md w and H block md w and H block index md w
    and H block md w and H block md w and H block md w
    rule: sequenceFrom_convertStatementBlock_convertIfBlock_convertIfBlock_branches_convertRepeatBlock_convertWhileBlock_convertForBlock.induct)
  case (1 H md w)
  show ?case by (simp add: sequenceFrom.simps)
next
  case (2 H current md w)
  show ?case
  proof (cases "btype current = ''set_metadata''")
    case True
    with 2(1) show ?thesis by (simp add: sequenceFrom.simps)
  next
    case False
    show ?thesis
    proof (intro allI impI)
      fix ns md' w'
      assume r: "sequenceFrom H (Some current) md w = Inr (ns, md', w')"
      from r False obtain n1 md1 w1 rest where
        c: "convertStatementBlock H current md w = Inr (n1, md1, w1)"
        and s: "sequenceFrom H (getNextBlock current) md1 w1 = Inr (rest, md', w')"
        by (auto simp: sequenceFrom.simps split: sum.splits)
      from 2(2) [OF False] c
      have "md1 = applyAll md (metadataBlocks (nestedStatementBlocks current))" by blast
      moreover from 2(3) [OF False c refl refl] s
      have "md' = applyAll md1 (metadataBlocks (statementBlocks (getNextBlock current)))"
        by blast
      ultimately show "md' = applyAll md (metadataBlocks (statementBlocks (Some current)))"
        using False by simp
    qed
  qed
next
  case (3 H block md w)
  show ?case
  proof (intro allI impI)
    fix ns md' w'
    assume r: "convertStatementBlock H block md w = Inr (ns, md', w')"
    consider (if_block) "btype block = ''controls_if''"
      | (repeat_block) "btype block \<noteq> ''controls_if''" "btype block = ''controls_repeat_ext''"
      | (while_block) "btype block \<noteq> ''controls_if''" "btype block \<noteq> ''controls_repeat_ext''"
          "btype block = ''controls_whileUntil''"
      | (for_block) "btype block \<noteq> ''controls_if''" "btype block \<noteq> ''controls_repeat_ext''"
          "btype block \<noteq> ''controls_whileUntil''"
          "btype block = ''controls_for'' \<or> btype block = ''controls_forEach''"
      | (other) "btype block \<noteq> ''controls_if''" "btype block \<noteq> ''controls_repeat_ext''"
          "btype block \<noteq> ''controls_whileUntil''"
          "btype block \<noteq> ''controls_for''" "btype block \<noteq> ''controls_forEach''"
      by blast
    then show "md' = applyAll md (metadataBlocks (nestedStatementBlocks block))"
    proof cases
      case if_block
      with r 3(1) show ?thesis
        by (auto simp: convertStatementBlock.simps nestedStatementBlocks.simps
            split: sum.splits)
    next
      case repeat_block
      with r 3(2) show ?thesis
        by (auto simp: convertStatementBlock.simps nestedStatementBlocks.simps
            split: sum.splits)
    next
      case while_block
      with r 3(3) show ?thesis
        by (auto simp: convertStatementBlock.simps nestedStatementBlocks.simps
            split: sum.splits)
    next
      case for_block
      with r 3(4) [OF for_block] show ?thesis
        by (auto simp: convertStatementBlock.simps nestedStatementBlocks.simps
            split: sum.splits)
    next
      case other
      with r show ?thesis
        by (auto simp: convertStatementBlock.simps split: sum.splits prod.splits if_splits)
    qed
  qed
next
  case (4 H block md w)
  show ?case
  proof (intro allI impI)
    fix n md' w'
    assume r: "convertIfBlock H block md w = Inr (n, md', w')"
    then obtain brs md1 w1 eb w2 where
      b: "convertIfBlock_branches H block 0 md w = Inr (brs, md1, w1)"
      and e: "sequenceFrom H (getInputTargetBlock block ''ELSE'') md1 w1 = Inr (eb, md', w2)"
      by (auto simp: convertIfBlock.simps split: sum.splits prod.splits)
    from 4(1) b have "md1 = applyAll md (metadataBlocks (branchStatementBlocks block 0))"
      by blast
    moreover from 4(2) [OF b refl refl] e
    have "md' = applyAll md1
            (metadataBlocks (statementBlocks (getInputTargetBlock block ''ELSE'')))"
      by blast
    ultimately show "md' = applyAll md (metadataBlocks (branchStatementBlocks block 0
              @ statementBlocks (getInputTargetBlock block ''ELSE'')))"
      by simp
  qed
next
  case (5 H block index md w)
  show ?case
  proof (cases "getInput block (''IF'' @ show_nat index)")
    case False
    then show ?thesis
      by (simp add: convertIfBlock_branches.simps [of H block index]
          branchStatementBlocks.simps [of block index])
  next
    case True
    show ?thesis
    proof (intro allI impI)
      fix brs md' w'
      assume r: "convertIfBlock_branches H block index md w = Inr (brs, md', w')"
      with True obtain c b md1 w1 rest where
        x: "expressionFrom H (getInputTargetBlock block (''IF'' @ show_nat index)) = Inr c"
        and s: "sequenceFrom H (getInputTargetBlock block (''DO'' @ show_nat index)) md w
                  = Inr (b, md1, w1)"
        and t: "convertIfBlock_branches H block (index + 1) md1 w1 = Inr (rest, md', w')"
        by (auto simp: convertIfBlock_branches.simps [of H block index]
            split: sum.splits prod.splits)
      from 5(1) [OF True x] s
      have "md1 = applyAll md (metadataBlocks
              (statementBlocks (getInputTargetBlock block (''DO'' @ show_nat index))))"
        by blast
      moreover from 5(2) [OF True x s refl refl] t
      have "md' = applyAll md1 (metadataBlocks (branchStatementBlocks block (index + 1)))"
        by blast
      ultimately show "md' = applyAll md (metadataBlocks (branchStatementBlocks block index))"
        using True by (simp add: branchStatementBlocks.simps [of block index])
    qed
  qed
next
  case (6 H block md w)
  show ?case
  proof (intro allI impI)
    fix n md' w'
    assume r: "convertRepeatBlock H block md w = Inr (n, md', w')"
    then obtain c b where
      x: "expressionFrom H (getInputTargetBlock block ''TIMES'') = Inr c"
      and s: "sequenceFrom H (getInputTargetBlock block ''DO'') md (snd (blockId H block w))
                = Inr (b, md', w')"
      by (auto simp: convertRepeatBlock.simps split: sum.splits prod.splits)
    from 6 [OF refl prod.collapse x] s
    show "md' = applyAll md (metadataBlocks (statementBlocks (getInputTargetBlock block ''DO'')))"
      by blast
  qed
next
  case (7 H block md w)
  show ?case
  proof (intro allI impI)
    fix n md' w'
    assume r: "convertWhileBlock H block md w = Inr (n, md', w')"
    then obtain c b where
      x: "expressionFrom H (getInputTargetBlock block ''BOOL'') = Inr c"
      and s: "sequenceFrom H (getInputTargetBlock block ''DO'') md (snd (blockId H block w))
                = Inr (b, md', w')"
      by (auto simp: convertWhileBlock.simps Let_def split: sum.splits prod.splits)
    from 7 [OF refl refl prod.collapse x] s
    show "md' = applyAll md (metadataBlocks (statementBlocks (getInputTargetBlock block ''DO'')))"
      by blast
  qed
next
  case (8 H block md w)
  show ?case
  proof (intro allI impI)
    fix n md' w'
    assume r: "convertForBlock H block md w = Inr (n, md', w')"
    show "md' = applyAll md (metadataBlocks (statementBlocks (getInputTargetBlock block ''DO'')))"
    proof (cases "btype block = ''controls_for''")
      case True
      with r obtain f t st b where
        x: "expressionFrom H (getInputTargetBlock block ''FROM'') = Inr f"
           "expressionFrom H (getInputTargetBlock block ''TO'') = Inr t"
           "expressionFrom H (getInputTargetBlock block ''BY'') = Inr st"
        and s: "sequenceFrom H (getInputTargetBlock block ''DO'') md (snd (blockId H block w))
                  = Inr (b, md', w')"
        by (auto simp: convertForBlock.simps Let_def split: sum.splits prod.splits)
      from 8(1) [OF True refl prod.collapse refl x] s
      show ?thesis by blast
    next
      case False
      with r obtain c b where
        x: "expressionFrom H (getInputTargetBlock block ''LIST'') = Inr c"
        and s: "sequenceFrom H (getInputTargetBlock block ''DO'') md (snd (blockId H block w))
                  = Inr (b, md', w')"
        by (auto simp: convertForBlock.simps Let_def split: sum.splits prod.splits)
      from 8(2) [OF False refl prod.collapse refl x] s
      show ?thesis by blast
    qed
  qed
qed

definition isMetadataNode :: "node \<Rightarrow> bool" where
  "isMetadataNode n = (case n of Command i c p \<Rightarrow> c = ''set_metadata'' | _ \<Rightarrow> False)"

text \<open>No node of the list, nested ones included, is a command node named after the
  metadata block.\<close>

definition noMetadataNode :: "node list \<Rightarrow> bool" where
  "noMetadataNode ns = list_all (\<lambda>n. \<not> isMetadataNode n) (concat (map all_nodes ns))"

lemma noMetadataNode_simps [simp]:
  "noMetadataNode []"
  "noMetadataNode (ns @ ms) = (noMetadataNode ns \<and> noMetadataNode ms)"
  by (auto simp: noMetadataNode_def)

lemma noMetadataNode_nodes:
  "noMetadataNode [Command i cmd p] = (cmd \<noteq> ''set_metadata'')"
  "noMetadataNode [If i brs el] =
     (list_all (\<lambda>br. noMetadataNode (snd br)) brs
      \<and> (case el of None \<Rightarrow> True | Some b \<Rightarrow> noMetadataNode b))"
  "noMetadataNode [Repeat i c b] = noMetadataNode b"
  "noMetadataNode [While i m c b] = noMetadataNode b"
  "noMetadataNode [ForRange i v f t s b] = noMetadataNode b"
  "noMetadataNode [ForEach i v c b] = noMetadataNode b"
  "noMetadataNode [Flow i fl]"
  by (auto simp: noMetadataNode_def isMetadataNode_def list_all_iff split: option.splits)

lemma noMetadataNode_list: "noMetadataNode ns = list_all (\<lambda>n. noMetadataNode [n]) ns"
  by (induction ns) (simp_all add: noMetadataNode_def)

lemma set_metadata_is_no_command:
  "map_of parameterReaders ''set_metadata'' = None"
  "''set_metadata'' \<notin> set commandsWithoutParameters"
  by (simp_all add: parameterReaders_def commandsWithoutParameters_def)

lemma convertStatementBlock_leaf_nodes:
  assumes "\<not> isControlType (btype block)"
    and "convertStatementBlock H block md w = Inr (ns, md', w')"
  shows "list_all (\<lambda>n. (\<exists>i fl. n = Flow i fl) \<or> (\<exists>i p. n = Command i (btype block) p)) ns"
proof -
  have c: "\<exists>i p. fst (convertCommandBlock H block w) = Command i (btype block) p"
    by (simp add: convertCommandBlock_def Let_def split: prod.splits)
  have f: "\<exists>i fl. n = Flow i fl" if "convertFlowStatement H block w = Inr (n, w1)" for n w1
    using that by (auto simp: convertFlowStatement_def split: sum.splits prod.splits)
  show ?thesis
  proof (cases "btype block = ''controls_flow_statements''")
    case True
    with assms f show ?thesis
      by (auto simp: convertStatementBlock_leaf split: sum.splits)
  next
    case False
    with assms c show ?thesis
      by (auto simp: convertStatementBlock_leaf split: if_splits)
  qed
qed

lemma no_metadata_node_lowered:
  "\<forall>ns md' w'. sequenceFrom H ob md w = Inr (ns, md', w') \<longrightarrow> noMetadataNode ns"
  "\<forall>ns md' w'. convertStatementBlock H block md w = Inr (ns, md', w') \<longrightarrow> noMetadataNode ns"
  "\<forall>n md' w'. convertIfBlock H block md w = Inr (n, md', w') \<longrightarrow> noMetadataNode [n]"
  "\<forall>brs md' w'. convertIfBlock_branches H block index md w = Inr (brs, md', w') \<longrightarrow>
      list_all (\<lambda>br. noMetadataNode (snd br)) brs"
  "\<forall>n md' w'. convertRepeatBlock H block md w = Inr (n, md', w') \<longrightarrow> noMetadataNode [n]"
  "\<forall>n md' w'. convertWhileBlock H block md w = Inr (n, md', w') \<longrightarrow> noMetadataNode [n]"
  "\<forall>n md' w'. convertForBlock H block md w = Inr (n, md', w') \<longrightarrow> noMetadataNode [n]"
proof (induction H ob md w and H block md w and H block md w and H block index md w
    and H block md w and H block md w and H block md w
    rule: sequenceFrom_convertStatementBlock_convertIfBlock_convertIfBlock_branches_convertRepeatBlock_convertWhileBlock_convertForBlock.induct)
  case (1 H md w)
  show ?case by (simp add: sequenceFrom.simps)
next
  case (2 H current md w)
  show ?case
  proof (cases "btype current = ''set_metadata''")
    case True
    with 2(1) show ?thesis by (simp add: sequenceFrom_metadata_block)
  next
    case False
    show ?thesis
    proof (intro allI impI)
      fix ns md' w'
      assume "sequenceFrom H (Some current) md w = Inr (ns, md', w')"
      from sequenceFrom_statement_block [OF False this] obtain n1 md1 w1 rest where
        c: "convertStatementBlock H current md w = Inr (n1, md1, w1)"
        and s: "sequenceFrom H (getNextBlock current) md1 w1 = Inr (rest, md', w')"
        and ns: "ns = n1 @ rest"
        by blast
      from 2(2) [OF False] c have "noMetadataNode n1" by blast
      moreover from 2(3) [OF False c refl refl] s have "noMetadataNode rest" by blast
      ultimately show "noMetadataNode ns" using ns by simp
    qed
  qed
next
  case (3 H block md w)
  show ?case
  proof (intro allI impI)
    fix ns md' w'
    assume r: "convertStatementBlock H block md w = Inr (ns, md', w')"
    show "noMetadataNode ns"
    proof (cases rule: control_type_cases [of block])
      case if_block
      with r 3(1) show ?thesis
        by (auto simp: convertStatementBlock_if split: sum.splits)
    next
      case repeat_block
      with r 3(2) show ?thesis
        by (auto simp: convertStatementBlock_repeat split: sum.splits)
    next
      case while_block
      with r 3(3) show ?thesis
        by (auto simp: convertStatementBlock_while split: sum.splits)
    next
      case for_block
      with r 3(4) [OF for_block] show ?thesis
        by (auto simp: convertStatementBlock_for split: sum.splits)
    next
      case leaf
      show ?thesis
      proof (cases "btype block = ''set_metadata''")
        case True
        with r leaf have "ns = []"
          using set_metadata_is_no_command by (simp add: convertStatementBlock_leaf)
        then show ?thesis by simp
      next
        case False
        from convertStatementBlock_leaf_nodes [OF leaf r]
        have "list_all (\<lambda>n. (\<exists>i fl. n = Flow i fl) \<or> (\<exists>i p. n = Command i (btype block) p)) ns" .
        with False show ?thesis
          by (auto simp: noMetadataNode_list [of ns] list_all_iff noMetadataNode_nodes)
      qed
    qed
  qed
next
  case (4 H block md w)
  show ?case
  proof (intro allI impI)
    fix n md' w'
    assume "convertIfBlock H block md w = Inr (n, md', w')"
    from convertIfBlock_parts [OF this] obtain brs md1 w1 eb w2 where
      b: "convertIfBlock_branches H block 0 md w = Inr (brs, md1, w1)"
      and e: "sequenceFrom H (getInputTargetBlock block ''ELSE'') md1 w1 = Inr (eb, md', w2)"
      and n: "n = If (fst (blockId H block w2)) brs (if eb \<noteq> [] then Some eb else None)"
      by blast
    from 4(1) b have "list_all (\<lambda>br. noMetadataNode (snd br)) brs" by blast
    moreover from 4(2) [OF b refl refl] e have "noMetadataNode eb" by blast
    ultimately show "noMetadataNode [n]" using n by (simp add: noMetadataNode_nodes)
  qed
next
  case (5 H block index md w)
  show ?case
  proof (cases "getInput block (''IF'' @ show_nat index)")
    case False
    then show ?thesis by (simp add: convertIfBlock_branches_end)
  next
    case True
    show ?thesis
    proof (intro allI impI)
      fix brs md' w'
      assume "convertIfBlock_branches H block index md w = Inr (brs, md', w')"
      from convertIfBlock_branches_parts [OF True this] obtain c b md1 w1 rest where
        x: "expressionFrom H (getInputTargetBlock block (''IF'' @ show_nat index)) = Inr c"
        and s: "sequenceFrom H (getInputTargetBlock block (''DO'' @ show_nat index)) md w
                  = Inr (b, md1, w1)"
        and t: "convertIfBlock_branches H block (index + 1) md1 w1 = Inr (rest, md', w')"
        and brs: "brs = (c, b) # rest"
        by blast
      from 5(1) [OF True x] s have "noMetadataNode b" by blast
      moreover from 5(2) [OF True x s refl refl] t
      have "list_all (\<lambda>br. noMetadataNode (snd br)) rest" by blast
      ultimately show "list_all (\<lambda>br. noMetadataNode (snd br)) brs" using brs by simp
    qed
  qed
next
  case (6 H block md w)
  show ?case
  proof (intro allI impI)
    fix n md' w'
    assume "convertRepeatBlock H block md w = Inr (n, md', w')"
    from convertRepeatBlock_parts [OF this] obtain c b where
      x: "expressionFrom H (getInputTargetBlock block ''TIMES'') = Inr c"
      and s: "sequenceFrom H (getInputTargetBlock block ''DO'') md (snd (blockId H block w))
                = Inr (b, md', w')"
      and n: "n = Repeat (fst (blockId H block w)) c b"
      by blast
    from 6 [OF refl prod.collapse x] s have "noMetadataNode b" by blast
    with n show "noMetadataNode [n]" by (simp add: noMetadataNode_nodes)
  qed
next
  case (7 H block md w)
  show ?case
  proof (intro allI impI)
    fix n md' w'
    assume "convertWhileBlock H block md w = Inr (n, md', w')"
    from convertWhileBlock_parts [OF this] obtain c b where
      x: "expressionFrom H (getInputTargetBlock block ''BOOL'') = Inr c"
      and s: "sequenceFrom H (getInputTargetBlock block ''DO'') md (snd (blockId H block w))
                = Inr (b, md', w')"
      and n: "n = While (fst (blockId H block w))
                   (if getFieldValue block ''MODE'' = Some (FStr ''UNTIL'')
                    then ''until'' else ''while'') c b"
      by blast
    from 7 [OF refl refl prod.collapse x] s have "noMetadataNode b" by blast
    with n show "noMetadataNode [n]" by (simp add: noMetadataNode_nodes)
  qed
next
  case (8 H block md w)
  show ?case
  proof (intro allI impI)
    fix n md' w'
    assume r: "convertForBlock H block md w = Inr (n, md', w')"
    show "noMetadataNode [n]"
    proof (cases "btype block = ''controls_for''")
      case True
      from convertForBlock_range_parts [OF True r] obtain f t st b where
        x: "expressionFrom H (getInputTargetBlock block ''FROM'') = Inr f"
           "expressionFrom H (getInputTargetBlock block ''TO'') = Inr t"
           "expressionFrom H (getInputTargetBlock block ''BY'') = Inr st"
        and s: "sequenceFrom H (getInputTargetBlock block ''DO'') md (snd (blockId H block w))
                  = Inr (b, md', w')"
        and n: "n = ForRange (fst (blockId H block w))
                   (of_field (js_or (getFieldValue block ''VAR'') (FStr ''i''))) f t st b"
        by blast
      from 8(1) [OF True refl prod.collapse refl x] s have "noMetadataNode b" by blast
      with n show ?thesis by (simp add: noMetadataNode_nodes)
    next
      case False
      from convertForBlock_each_parts [OF False r] obtain c b where
        x: "expressionFrom H (getInputTargetBlock block ''LIST'') = Inr c"
        and s: "sequenceFrom H (getInputTargetBlock block ''DO'') md (snd (blockId H block w))
                  = Inr (b, md', w')"
        and n: "n = ForEach (fst (blockId H block w))
                   (of_field (js_or (getFieldValue block ''VAR'') (FStr ''item''))) c b"
        by blast
      from 8(2) [OF False refl prod.collapse refl x] s have "noMetadataNode b" by blast
      with n show ?thesis by (simp add: noMetadataNode_nodes)
    qed
  qed
qed

lemma applyMetadata_overwrites: "applyMetadata b (m :: metadata) = applyMetadata b m'"
  by (cases m; cases m') (simp add: applyMetadata_def)

lemma applyAll_last:
  "applyAll md bs = (if bs = [] then md else applyMetadata (last bs) empty_metadata)"
proof (induction bs rule: rev_induct)
  case Nil
  show ?case by simp
next
  case (snoc b bs)
  show ?case using applyMetadata_overwrites [of b "applyAll md bs" empty_metadata] by simp
qed

lemma topBlocks_forEach_metadata:
  "topBlocks_forEach H bs md w = Inr (ns, md', w') \<Longrightarrow>
     noMetadataNode ns \<and> md' = applyAll md (metadataBlocks (visitedBlocks bs))"
proof (induction bs arbitrary: md w ns md' w')
  case Nil
  then show ?case by (simp add: visitedBlocks_def)
next
  case (Cons b bs)
  from Cons.prems obtain n1 md1 w1 rest where
    s: "sequenceFrom H (Some b) md w = Inr (n1, md1, w1)"
    and t: "topBlocks_forEach H bs md1 w1 = Inr (rest, md', w')"
    and ns: "ns = n1 @ rest"
    by (auto split: sum.splits)
  from s have "noMetadataNode n1"
    and "md1 = applyAll md (metadataBlocks (statementBlocks (Some b)))"
    using no_metadata_node_lowered(1) [of H "Some b" md w]
      metadata_after_lowering(1) [of H "Some b" md w]
    by blast+
  with Cons.IH [OF t] ns show ?case
    by (simp add: visitedBlocks_def)
qed

lemma applyMetadata_fields:
  "applyMetadata b empty_metadata =
     \<lparr>robot_brand = Some (of_field (js_or (getFieldValue b ''ROBOT_BRAND'') (FStr ''default''))),
      namespace = Some (of_field (js_or (getFieldValue b ''NAMESPACE'')
        (FStr ''GeneratedWorkflows''))),
      class_name = Some (of_field (js_or (getFieldValue b ''CLASS_NAME'') (FStr ''RobotProgram''))),
      method_name = Some (of_field (js_or (getFieldValue b ''METHOD_NAME'') (FStr ''Run''))),
      attach_console_logger = Some (getFieldValue b ''ATTACH_LOGGER'' = Some (FStr ''TRUE''))\<rparr>"
  by (simp add: applyMetadata_def empty_metadata_def)

text \<open>
  C2. A metadata block in a statement chain produces no node: lowering goes on below it
  with the metadata object overwritten from its fields. So, for every chain and every
  workspace that lowers, no node of the sequence, at any depth, is a command node of the
  metadata block, and the metadata holds the field values of the last metadata block in
  traversal order (top-level chains and the bodies nested in control-flow blocks): its
  ROBOT_BRAND, NAMESPACE, CLASS_NAME and METHOD_NAME fields, each replaced by its default
  when absent or empty, and whether its ATTACH_LOGGER field is \<open>TRUE\<close>. With no metadata
  block the metadata is left as it was (\<open>{}\<close> for a document).
\<close>

theorem metadata_diverted_last_wins:
  "(btype current = ''set_metadata'' \<longrightarrow>
      sequenceFrom H (Some current) md w
        = sequenceFrom H (getNextBlock current) (applyMetadata current md) w)
   \<and> (sequenceFrom H ob md w = Inr (ns, md', w') \<longrightarrow>
      noMetadataNode ns
      \<and> md' = (if metadataBlocks (statementBlocks ob) = [] then md
               else (let m = last (metadataBlocks (statementBlocks ob)) in
                 \<lparr>robot_brand =
                    Some (of_field (js_or (getFieldValue m ''ROBOT_BRAND'') (FStr ''default''))),
                  namespace =
                    Some (of_field (js_or (getFieldValue m ''NAMESPACE'') (FStr ''GeneratedWorkflows''))),
                  class_name =
                    Some (of_field (js_or (getFieldValue m ''CLASS_NAME'') (FStr ''RobotProgram''))),
                  method_name =
                    Some (of_field (js_or (getFieldValue m ''METHOD_NAME'') (FStr ''Run''))),
                  attach_console_logger =
                    Some (getFieldValue m ''ATTACH_LOGGER'' = Some (FStr ''TRUE''))\<rparr>)))
   \<and> (workspaceToDocument H topBlocks w = Inr (doc, dw) \<longrightarrow>
      noMetadataNode (sequence doc)
      \<and> doc_metadata doc =
          (if metadataBlocks (visitedBlocks topBlocks) = [] then empty_metadata
           else (let m = last (metadataBlocks (visitedBlocks topBlocks)) in
             \<lparr>robot_brand =
                Some (of_field (js_or (getFieldValue m ''ROBOT_BRAND'') (FStr ''default''))),
              namespace =
                Some (of_field (js_or (getFieldValue m ''NAMESPACE'') (FStr ''GeneratedWorkflows''))),
              class_name =
                Some (of_field (js_or (getFieldValue m ''CLASS_NAME'') (FStr ''RobotProgram''))),
              method_name =
                Some (of_field (js_or (getFieldValue m ''METHOD_NAME'') (FStr ''Run''))),
              attach_console_logger =
                Some (getFieldValue m ''ATTACH_LOGGER'' = Some (FStr ''TRUE''))\<rparr>)))"
proof (intro conjI impI)
  assume "btype current = ''set_metadata''"
  then show "sequenceFrom H (Some current) md w
        = sequenceFrom H (getNextBlock current) (applyMetadata current md) w"
    by (rule sequenceFrom_metadata_block)
next
  assume s: "sequenceFrom H ob md w = Inr (ns, md', w')"
  then show "noMetadataNode ns"
    using no_metadata_node_lowered(1) [of H ob md w] by blast
  from s have "md' = applyAll md (metadataBlocks (statementBlocks ob))"
    using metadata_after_lowering(1) [of H ob md w] by blast
  then show "md' = (if metadataBlocks (statementBlocks ob) = [] then md
               else (let m = last (metadataBlocks (statementBlocks ob)) in
                 \<lparr>robot_brand =
                    Some (of_field (js_or (getFieldValue m ''ROBOT_BRAND'') (FStr ''default''))),
                  namespace =
                    Some (of_field (js_or (getFieldValue m ''NAMESPACE'') (FStr ''GeneratedWorkflows''))),
                  class_name =
                    Some (of_field (js_or (getFieldValue m ''CLASS_NAME'') (FStr ''RobotProgram''))),
                  method_name =
                    Some (of_field (js_or (getFieldValue m ''METHOD_NAME'') (FStr ''Run''))),
                  attach_console_logger =
                    Some (getFieldValue m ''ATTACH_LOGGER'' = Some (FStr ''TRUE''))\<rparr>))"
    by (simp only: applyAll_last applyMetadata_fields Let_def)
next
  assume d: "workspaceToDocument H topBlocks w = Inr (doc, dw)"
  then obtain s md1 where
    t: "topBlocks_forEach H topBlocks empty_metadata w = Inr (s, md1, dw)"
    and doc: "doc = \<lparr>version = ''1.0'', doc_metadata = md1, sequence = s\<rparr>"
    by (auto simp: workspaceToDocument_def split: sum.splits)
  from topBlocks_forEach_metadata [OF t] doc
  show "noMetadataNode (sequence doc)" by simp
  from topBlocks_forEach_metadata [OF t] doc
  have "doc_metadata doc = applyAll empty_metadata (metadataBlocks (visitedBlocks topBlocks))"
    by simp
  then show "doc_metadata doc =
          (if metadataBlocks (visitedBlocks topBlocks) = [] then empty_metadata
           else (let m = last (metadataBlocks (visitedBlocks topBlocks)) in
             \<lparr>robot_brand =
                Some (of_field (js_or (getFieldValue m ''ROBOT_BRAND'') (FStr ''default''))),
              namespace =
                Some (of_field (js_or (getFieldValue m ''NAMESPACE'') (FStr ''GeneratedWorkflows''))),
              class_name =
                Some (of_field (js_or (getFieldValue m ''CLASS_NAME'') (FStr ''RobotProgram''))),
              method_name =
                Some (of_field (js_or (getFieldValue m ''METHOD_NAME'') (FStr ''Run''))),
              attach_console_logger =
                Some (getFieldValue m ''ATTACH_LOGGER'' = Some (FStr ''TRUE''))\<rparr>))"
    by (simp only: applyAll_last applyMetadata_fields Let_def)
qed

definition example_metadata_workspace :: "block list" where
  "example_metadata_workspace =
     [Block ''set_metadata'' None ''m1'' [(''ROBOT_BRAND'', FStr ''fanuc'')] [] None,
      Block ''controls_repeat_ext'' None ''r1'' []
        [(''TIMES'', None),
         (''DO'', Some (Block ''set_metadata'' None ''m2''
                    [(''ROBOT_BRAND'', FStr ''kuka''), (''ATTACH_LOGGER'', FStr ''TRUE'')] []
                    (Some (Block ''grab'' None ''g1'' [] [] None))))]
        None]"

theorem metadata_diverted_last_wins_witness:
  "btype (Block ''set_metadata'' None ''m1'' [(''ROBOT_BRAND'', FStr ''fanuc'')] [] None)
     = ''set_metadata''
   \<and> workspaceToDocument example_host example_metadata_workspace example_world
     = Inr (\<lparr>version = ''1.0'',
             doc_metadata = \<lparr>robot_brand = Some (JStr ''kuka''),
               namespace = Some (JStr ''GeneratedWorkflows''),
               class_name = Some (JStr ''RobotProgram''),
               method_name = Some (JStr ''Run''),
               attach_console_logger = Some True\<rparr>,
             sequence = [Repeat ''r1'' (LiteralNumber (Num 0)) [Command ''g1'' ''grab'' None]]\<rparr>,
            example_world)
   \<and> noMetadataNode [Repeat ''r1'' (LiteralNumber (Num 0)) [Command ''g1'' ''grab'' None]]
   \<and> metadataBlocks (visitedBlocks example_metadata_workspace)
     = [Block ''set_metadata'' None ''m1'' [(''ROBOT_BRAND'', FStr ''fanuc'')] [] None,
        Block ''set_metadata'' None ''m2''
          [(''ROBOT_BRAND'', FStr ''kuka''), (''ATTACH_LOGGER'', FStr ''TRUE'')] []
          (Some (Block ''grab'' None ''g1'' [] [] None))]"
  using metadata_diverted_last_wins [of
      "Block ''set_metadata'' None ''m1'' [(''ROBOT_BRAND'', FStr ''fanuc'')] [] None"
      example_host empty_metadata example_world None "[]" empty_metadata example_world
      example_metadata_workspace
      "\<lparr>version = ''1.0'',
             doc_metadata = \<lparr>robot_brand = Some (JStr ''kuka''),
               namespace = Some (JStr ''GeneratedWorkflows''),
               class_name = Some (JStr ''RobotProgram''),
               method_name = Some (JStr ''Run''),
               attach_console_logger = Some True\<rparr>,
             sequence = [Repeat ''r1'' (LiteralNumber (Num 0)) [Command ''g1'' ''grab'' None]]\<rparr>"
      example_world]
  by (simp add: lowering_simps example_metadata_workspace_def visitedBlocks_def
      nestedStatementBlocks.simps branchStatementBlocks.simps noMetadataNode_nodes)

section \<open>Expression blocks without a lowering rule\<close>

text \<open>A result is accounted for by a set of expression blocks: a success needs every one
  of them to have a supported type, and an unsupported-expression error names one of them
  that has none.\<close>

definition accounted :: "error + 'a \<Rightarrow> block set \<Rightarrow> bool" where
  "accounted r S =
     (case r of
        Inr x \<Rightarrow> (\<forall>b \<in> S. btype b \<in> set expressionTypes)
      | Inl e \<Rightarrow> (\<forall>m. e = UnsupportedExpression m \<longrightarrow>
                   (\<exists>b \<in> S. btype b \<notin> set expressionTypes
                      \<and> m = ''Unsupported expression block: '' @ btype b)))"

lemma accounted_seq:
  assumes "accounted r1 A" and "\<And>x. r1 = Inr x \<Longrightarrow> accounted (f x) B" and "C = A \<union> B"
  shows "accounted (case r1 of Inl e \<Rightarrow> Inl e | Inr x \<Rightarrow> f x) C"
  using assms by (cases r1) (auto simp: accounted_def split: sum.splits)

lemma accounted_bind:
  assumes "accounted r1 A" and "\<And>x. r1 = Inr x \<Longrightarrow> accounted (f x) B" and "C = A \<union> B"
  shows "accounted (bindE r1 f) C"
  using accounted_seq [OF assms] by (simp add: bindE_def)

lemma accounted_return: "accounted (Inr x) {}"
  by (simp add: accounted_def)

lemma accounted_map:
  "accounted r A \<Longrightarrow> accounted (case r of Inl e \<Rightarrow> Inl e | Inr x \<Rightarrow> Inr (g x)) A"
  by (cases r) (auto simp: accounted_def)

lemma accounted_lowerOr: "accounted (lowerOr v d) {}"
  by (auto simp: accounted_def lowerOr_def split: fieldval.splits sum.splits)

lemma accounted_supported:
  "accounted r A \<Longrightarrow> btype b \<in> set expressionTypes \<Longrightarrow> accounted r (insert b A)"
  by (cases r) (auto simp: accounted_def)

lemma accounted_unary:
  assumes "accounted r1 A"
  shows "accounted (bindE r1 (\<lambda>a. Inr (g a))) A"
  using assms by (cases r1) (auto simp: accounted_def bindE_def)

lemma accounted_binary:
  assumes "accounted r1 A" and "accounted r2 B"
  shows "accounted (bindE r1 (\<lambda>a. bindE r2 (\<lambda>b. Inr (g a b)))) (A \<union> B)"
  using assms by (cases r1; cases r2) (auto simp: accounted_def bindE_def)

lemma accounted_ternary:
  assumes "accounted r1 A" and "accounted r2 B" and "accounted r3 C"
  shows "accounted (bindE r1 (\<lambda>a. bindE r2 (\<lambda>b. bindE r3 (\<lambda>c. Inr (g a b c))))) (A \<union> B \<union> C)"
  using assms by (cases r1; cases r2; cases r3) (auto simp: accounted_def bindE_def)

lemma accounted_op:
  assumes "accounted r A"
  shows "accounted (bindE (lowerOr v d) (\<lambda>op. r)) A"
  using assms
  by (cases r) (auto simp: accounted_def bindE_def lowerOr_def split: fieldval.splits sum.splits)

lemma accounted_op_f:
  assumes "\<And>op. accounted (f op) A"
  shows "accounted (bindE (lowerOr v d) f) A"
  using accounted_bind [OF accounted_lowerOr, of v d f A A] assms by simp

lemma expressionFrom_accounted:
  "accounted (expressionFrom H ob) (set (expressionBlocks ob))"
proof (induction ob rule: measure_induct_rule [of osize])
  case (less ob)
  show ?case
  proof (cases ob)
    case None
    then show ?thesis by (simp add: accounted_def)
  next
    case (Some block)
    have ih: "accounted (expressionFrom H (getInputTargetBlock block k))
                (set (expressionBlocks (getInputTargetBlock block k)))" for k
      using less [of "getInputTargetBlock block k"] osize_getInputTargetBlock [of block k] Some
      by (simp add: osize_def)
    let ?E = "\<lambda>k. set (expressionBlocks (getInputTargetBlock block k))"
    consider (unsupported) "btype block \<notin> set expressionTypes"
      | (leaf) "btype block \<in> {''math_number'', ''logic_boolean'', ''logic_null'',
                  ''math_random_float'', ''math_constant''}"
      | (ab) "btype block \<in> {''logic_compare'', ''logic_operation'', ''math_arithmetic''}"
      | (num) "btype block \<in> {''math_single'', ''math_trig'', ''math_round''}"
      | (negate) "btype block = ''logic_negate''"
      | (ternary) "btype block = ''logic_ternary''"
      | (modulo) "btype block = ''math_modulo''"
      | (constrain) "btype block = ''math_constrain''"
      | (random_int) "btype block = ''math_random_int''"
      by (auto simp: expressionTypes_def)
    then show ?thesis
    proof cases
      case unsupported
      then have "expressionInputs (btype block) = []"
        by (auto simp: expressionInputs_def expressionTypes_def)
      with unsupported Some show ?thesis
        by (simp add: expressionBlocks.simps(2) unsupported_expression_throws accounted_def
            del: expressionFrom.simps)
    next
      case leaf
      then have i: "expressionInputs (btype block) = []"
        and s: "btype block \<in> set expressionTypes"
        by (auto simp: expressionInputs_def expressionTypes_def)
      have "accounted (expressionFrom H (Some block)) {}"
        using leaf accounted_op_f [of "\<lambda>c. Inr (MathConstant c)" "{}"]
        by (auto simp: accounted_return)
      from accounted_supported [OF this s] Some i show ?thesis
        by (simp add: expressionBlocks.simps(2))
    next
      case ab
      then have i: "expressionInputs (btype block) = [''A'', ''B'']"
        and s: "btype block \<in> set expressionTypes"
        by (auto simp: expressionInputs_def expressionTypes_def)
      have "accounted (expressionFrom H (Some block)) (?E ''A'' \<union> ?E ''B'')"
        using ab accounted_binary [OF ih [of "''A''"] ih [of "''B''"]]
        by (auto intro!: accounted_op_f)
      from accounted_supported [OF this s] Some i show ?thesis
        by (simp add: expressionBlocks.simps(2))
    next
      case num
      then have i: "expressionInputs (btype block) = [''NUM'']"
        and s: "btype block \<in> set expressionTypes"
        by (auto simp: expressionInputs_def expressionTypes_def)
      have "accounted (expressionFrom H (Some block)) (?E ''NUM'')"
        using num accounted_unary [OF ih [of "''NUM''"]]
        by (auto intro!: accounted_op_f)
      from accounted_supported [OF this s] Some i show ?thesis
        by (simp add: expressionBlocks.simps(2))
    next
      case negate
      then have i: "expressionInputs (btype block) = [''BOOL'']"
        and s: "btype block \<in> set expressionTypes"
        by (auto simp: expressionInputs_def expressionTypes_def)
      have "accounted (expressionFrom H (Some block)) (?E ''BOOL'')"
        using negate accounted_unary [OF ih [of "''BOOL''"]] by simp
      from accounted_supported [OF this s] Some i show ?thesis
        by (simp add: expressionBlocks.simps(2))
    next
      case ternary
      then have i: "expressionInputs (btype block) = [''IF'', ''THEN'', ''ELSE'']"
        and s: "btype block \<in> set expressionTypes"
        by (auto simp: expressionInputs_def expressionTypes_def)
      have "accounted (expressionFrom H (Some block)) (?E ''IF'' \<union> ?E ''THEN'' \<union> ?E ''ELSE'')"
        using ternary accounted_ternary [OF ih [of "''IF''"] ih [of "''THEN''"] ih [of "''ELSE''"]]
        by simp
      from accounted_supported [OF this s] Some i show ?thesis
        by (simp add: expressionBlocks.simps(2) Un_assoc)
    next
      case modulo
      then have i: "expressionInputs (btype block) = [''DIVIDEND'', ''DIVISOR'']"
        and s: "btype block \<in> set expressionTypes"
        by (auto simp: expressionInputs_def expressionTypes_def)
      have "accounted (expressionFrom H (Some block)) (?E ''DIVIDEND'' \<union> ?E ''DIVISOR'')"
        using modulo accounted_binary [OF ih [of "''DIVIDEND''"] ih [of "''DIVISOR''"]] by simp
      from accounted_supported [OF this s] Some i show ?thesis
        by (simp add: expressionBlocks.simps(2))
    next
      case constrain
      then have i: "expressionInputs (btype block) = [''VALUE'', ''LOW'', ''HIGH'']"
        and s: "btype block \<in> set expressionTypes"
        by (auto simp: expressionInputs_def expressionTypes_def)
      have "accounted (expressionFrom H (Some block)) (?E ''VALUE'' \<union> ?E ''LOW'' \<union> ?E ''HIGH'')"
        using constrain
          accounted_ternary [OF ih [of "''VALUE''"] ih [of "''LOW''"] ih [of "''HIGH''"]]
        by simp
      from accounted_supported [OF this s] Some i show ?thesis
        by (simp add: expressionBlocks.simps(2) Un_assoc)
    next
      case random_int
      then have i: "expressionInputs (btype block) = [''FROM'', ''TO'']"
        and s: "btype block \<in> set expressionTypes"
        by (auto simp: expressionInputs_def expressionTypes_def)
      have "accounted (expressionFrom H (Some block)) (?E ''FROM'' \<union> ?E ''TO'')"
        using random_int accounted_binary [OF ih [of "''FROM''"] ih [of "''TO''"]] by simp
      from accounted_supported [OF this s] Some i show ?thesis
        by (simp add: expressionBlocks.simps(2))
    qed
  qed
qed


lemma accounted_seq3:
  assumes "accounted r1 A"
    and "\<And>a md1 w1. r1 = Inr (a, md1, w1) \<Longrightarrow> accounted (f a md1 w1) B"
    and "C = A \<union> B"
  shows "accounted (case r1 of Inl e \<Rightarrow> Inl e | Inr (a, md1, w1) \<Rightarrow> f a md1 w1) C"
  using assms by (cases r1) (auto simp: accounted_def split: sum.splits)

lemma accounted_map3:
  "accounted r A \<Longrightarrow>
   accounted (case r of Inl e \<Rightarrow> Inl e | Inr (a, md1, w1) \<Rightarrow> Inr (g a md1 w1)) A"
  by (cases r) (auto simp: accounted_def)

lemma accounted_flow: "accounted (convertFlowStatement H b w) {}"
  by (auto simp: accounted_def convertFlowStatement_def lowerOr_def
      split: sum.splits prod.splits fieldval.splits)

lemma expressionBlocksOf_simps [simp]:
  "expressionBlocksOf [] = []"
  "expressionBlocksOf (b # bs) = statementExpressions b @ expressionBlocksOf bs"
  "expressionBlocksOf (bs @ cs) = expressionBlocksOf bs @ expressionBlocksOf cs"
  by (simp_all add: expressionBlocksOf_def)

lemma statementExpressions_leaf:
  "\<not> isControlType (btype b) \<Longrightarrow> statementExpressions b = []"
  by (simp add: statementExpressions_def isControlType_def)

lemma nestedStatementBlocks_leaf:
  "\<not> isControlType (btype b) \<Longrightarrow> nestedStatementBlocks b = []"
  by (simp add: nestedStatementBlocks.simps isControlType_def)

lemma lowering_accounted:
  "accounted (sequenceFrom H ob md w) (set (expressionBlocksOf (statementBlocks ob)))"
  "accounted (convertStatementBlock H block md w)
     (set (statementExpressions block) \<union> set (expressionBlocksOf (nestedStatementBlocks block)))"
  "accounted (convertIfBlock H block md w)
     (set (branchConditions block 0) \<union> set (expressionBlocksOf (branchStatementBlocks block 0))
      \<union> set (expressionBlocksOf (statementBlocks (getInputTargetBlock block ''ELSE''))))"
  "accounted (convertIfBlock_branches H block index md w)
     (set (branchConditions block index)
      \<union> set (expressionBlocksOf (branchStatementBlocks block index)))"
  "accounted (convertRepeatBlock H block md w)
     (set (expressionBlocks (getInputTargetBlock block ''TIMES''))
      \<union> set (expressionBlocksOf (statementBlocks (getInputTargetBlock block ''DO''))))"
  "accounted (convertWhileBlock H block md w)
     (set (expressionBlocks (getInputTargetBlock block ''BOOL''))
      \<union> set (expressionBlocksOf (statementBlocks (getInputTargetBlock block ''DO''))))"
  "accounted (convertForBlock H block md w)
     ((if btype block = ''controls_for'' then
         set (expressionBlocks (getInputTargetBlock block ''FROM''))
         \<union> set (expressionBlocks (getInputTargetBlock block ''TO''))
         \<union> set (expressionBlocks (getInputTargetBlock block ''BY''))
       else set (expressionBlocks (getInputTargetBlock block ''LIST'')))
      \<union> set (expressionBlocksOf (statementBlocks (getInputTargetBlock block ''DO''))))"
proof (induction H ob md w and H block md w and H block md w and H block index md w
    and H block md w and H block md w and H block md w
    rule: sequenceFrom_convertStatementBlock_convertIfBlock_convertIfBlock_branches_convertRepeatBlock_convertWhileBlock_convertForBlock.induct)
  case (1 H md w)
  show ?case by (simp add: sequenceFrom.simps accounted_def)
next
  case (2 H current md w)
  show ?case
  proof (cases "btype current = ''set_metadata''")
    case True
    then have "statementExpressions current = []" "nestedStatementBlocks current = []"
      by (simp_all add: statementExpressions_def)
    with 2(1) [OF True] True show ?thesis by (simp add: sequenceFrom.simps)
  next
    case False
    have "accounted
       (case convertStatementBlock H current md w of
          Inl e \<Rightarrow> Inl e
        | Inr (ns, md1, w1) \<Rightarrow>
            (case sequenceFrom H (getNextBlock current) md1 w1 of
               Inl e \<Rightarrow> Inl e
             | Inr (rest, md2, w2) \<Rightarrow> Inr (ns @ rest, md2, w2)))
       (set (expressionBlocksOf (statementBlocks (Some current))))"
      apply (rule accounted_seq3 [OF 2(2) [OF False]])
       apply (rule accounted_map3)
       apply (rule 2(3) [OF False _ refl refl])
       apply assumption
      apply (simp add: Un_assoc)
      done
    with False show ?thesis by (simp add: sequenceFrom.simps)
  qed
next
  case (3 H block md w)
  show ?case
  proof (cases block rule: control_type_cases)
    case if_block
    have "nestedStatementBlocks block = branchStatementBlocks block 0
            @ statementBlocks (getInputTargetBlock block ''ELSE'')"
      using if_block by (simp add: nestedStatementBlocks.simps)
    moreover have "statementExpressions block = branchConditions block 0"
      using if_block by (simp add: statementExpressions_def)
    ultimately show ?thesis
      using accounted_map3 [OF 3(1) [OF if_block], of "\<lambda>n md1 w1. ([n], md1, w1)"]
      by (simp add: convertStatementBlock_if [OF if_block] Un_assoc)
  next
    case repeat_block
    have "nestedStatementBlocks block = statementBlocks (getInputTargetBlock block ''DO'')"
      using repeat_block by (simp add: nestedStatementBlocks.simps)
    moreover have "statementExpressions block
                     = expressionBlocks (getInputTargetBlock block ''TIMES'')"
      using repeat_block by (simp add: statementExpressions_def)
    moreover have "btype block \<noteq> ''controls_if''" using repeat_block by simp
    ultimately show ?thesis
      using accounted_map3 [OF 3(2) [OF _ repeat_block], of "\<lambda>n md1 w1. ([n], md1, w1)"]
      by (simp add: convertStatementBlock_repeat [OF repeat_block])
  next
    case while_block
    have "nestedStatementBlocks block = statementBlocks (getInputTargetBlock block ''DO'')"
      using while_block by (simp add: nestedStatementBlocks.simps)
    moreover have "statementExpressions block
                     = expressionBlocks (getInputTargetBlock block ''BOOL'')"
      using while_block by (simp add: statementExpressions_def)
    moreover have "btype block \<noteq> ''controls_if''" "btype block \<noteq> ''controls_repeat_ext''"
      using while_block by simp_all
    ultimately show ?thesis
      using accounted_map3 [OF 3(3) [OF _ _ while_block], of "\<lambda>n md1 w1. ([n], md1, w1)"]
      by (simp add: convertStatementBlock_while [OF while_block])
  next
    case for_block
    have "nestedStatementBlocks block = statementBlocks (getInputTargetBlock block ''DO'')"
      using for_block by (auto simp: nestedStatementBlocks.simps)
    moreover have "set (statementExpressions block)
        = (if btype block = ''controls_for'' then
             set (expressionBlocks (getInputTargetBlock block ''FROM''))
             \<union> set (expressionBlocks (getInputTargetBlock block ''TO''))
             \<union> set (expressionBlocks (getInputTargetBlock block ''BY''))
           else set (expressionBlocks (getInputTargetBlock block ''LIST'')))"
      using for_block by (auto simp: statementExpressions_def)
    ultimately show ?thesis
      using accounted_map3 [OF 3(4) [OF for_block], of "\<lambda>n md1 w1. ([n], md1, w1)"]
      by (simp add: convertStatementBlock_for [OF for_block(4)])
  next
    case leaf
    have "accounted (convertStatementBlock H block md w) {}"
      using accounted_flow [of H block w]
      by (cases "convertFlowStatement H block w")
         (auto simp: convertStatementBlock_leaf [OF leaf] accounted_def)
    then show ?thesis
      by (simp add: statementExpressions_leaf [OF leaf] nestedStatementBlocks_leaf [OF leaf])
  qed
next
  case (4 H block md w)
  have "accounted
     (case convertIfBlock_branches H block 0 md w of
        Inl e \<Rightarrow> Inl e
      | Inr (brs, md1, w1) \<Rightarrow>
          (case sequenceFrom H (getInputTargetBlock block ''ELSE'') md1 w1 of
             Inl e \<Rightarrow> Inl e
           | Inr (elseBody, md2, w2) \<Rightarrow>
               Inr (If (fst (blockId H block w2)) brs
                      (if elseBody \<noteq> [] then Some elseBody else None),
                    md2, snd (blockId H block w2))))
     (set (branchConditions block 0) \<union> set (expressionBlocksOf (branchStatementBlocks block 0))
      \<union> set (expressionBlocksOf (statementBlocks (getInputTargetBlock block ''ELSE''))))"
    apply (rule accounted_seq3 [OF 4(1)])
     apply (rule accounted_map3)
     apply (rule 4(2) [OF _ refl refl])
     apply assumption
    apply simp
    done
  then show ?case by (simp add: convertIfBlock.simps case_prod_beta cong: sum.case_cong)
next
  case (5 H block index md w)
  show ?case
  proof (cases "getInput block (''IF'' @ show_nat index)")
    case False
    then show ?thesis
      by (simp add: convertIfBlock_branches.simps [of H block index]
          branchStatementBlocks.simps [of block index] branchConditions.simps [of block index]
          accounted_def)
  next
    case True
    have "accounted
       (case expressionFrom H (getInputTargetBlock block (''IF'' @ show_nat index)) of
          Inl e \<Rightarrow> Inl e
        | Inr c \<Rightarrow>
            (case sequenceFrom H (getInputTargetBlock block (''DO'' @ show_nat index)) md w of
               Inl e \<Rightarrow> Inl e
             | Inr (b, md1, w1) \<Rightarrow>
                 (case convertIfBlock_branches H block (index + 1) md1 w1 of
                    Inl e \<Rightarrow> Inl e
                  | Inr (brs, md2, w2) \<Rightarrow> Inr ((c, b) # brs, md2, w2))))
       (set (branchConditions block index)
        \<union> set (expressionBlocksOf (branchStatementBlocks block index)))"
      apply (rule accounted_seq [OF expressionFrom_accounted])
       apply (rule accounted_seq3 [OF 5(1) [OF True]])
         apply assumption
        apply (rule accounted_map3)
        apply (rule 5(2) [OF True _ _ refl refl])
         apply assumption
        apply assumption
       apply (rule refl)
      using True
      apply (simp add: branchStatementBlocks.simps [of block index]
          branchConditions.simps [of block index])
      apply blast
      done
    with True show ?thesis by (simp add: convertIfBlock_branches.simps [of H block index])
  qed
next
  case (6 H block md w)
  have "accounted
     (case expressionFrom H (getInputTargetBlock block ''TIMES'') of
        Inl e \<Rightarrow> Inl e
      | Inr c \<Rightarrow>
          (case sequenceFrom H (getInputTargetBlock block ''DO'') md (snd (blockId H block w)) of
             Inl e \<Rightarrow> Inl e
           | Inr (b, md1, w2) \<Rightarrow> Inr (Repeat (fst (blockId H block w)) c b, md1, w2)))
     (set (expressionBlocks (getInputTargetBlock block ''TIMES''))
      \<union> set (expressionBlocksOf (statementBlocks (getInputTargetBlock block ''DO''))))"
    apply (rule accounted_seq [OF expressionFrom_accounted])
     apply (rule accounted_map3)
     apply (rule 6 [OF refl prod.collapse])
     apply assumption
    apply (rule refl)
    done
  then show ?case by (simp add: convertRepeatBlock.simps case_prod_beta)
next
  case (7 H block md w)
  have "accounted
     (case expressionFrom H (getInputTargetBlock block ''BOOL'') of
        Inl e \<Rightarrow> Inl e
      | Inr c \<Rightarrow>
          (case sequenceFrom H (getInputTargetBlock block ''DO'') md (snd (blockId H block w)) of
             Inl e \<Rightarrow> Inl e
           | Inr (b, md1, w2) \<Rightarrow>
               Inr (While (fst (blockId H block w))
                      (if getFieldValue block ''MODE'' = Some (FStr ''UNTIL'')
                       then ''until'' else ''while'') c b, md1, w2)))
     (set (expressionBlocks (getInputTargetBlock block ''BOOL''))
      \<union> set (expressionBlocksOf (statementBlocks (getInputTargetBlock block ''DO''))))"
    apply (rule accounted_seq [OF expressionFrom_accounted])
     apply (rule accounted_map3)
     apply (rule 7 [OF refl refl prod.collapse])
     apply assumption
    apply (rule refl)
    done
  then show ?case by (simp add: convertWhileBlock.simps case_prod_beta Let_def)
next
  case (8 H block md w)
  show ?case
  proof (cases "btype block = ''controls_for''")
    case True
    have "accounted
       (case expressionFrom H (getInputTargetBlock block ''FROM'') of
          Inl e \<Rightarrow> Inl e
        | Inr f \<Rightarrow>
        (case expressionFrom H (getInputTargetBlock block ''TO'') of
          Inl e \<Rightarrow> Inl e
        | Inr t \<Rightarrow>
        (case expressionFrom H (getInputTargetBlock block ''BY'') of
          Inl e \<Rightarrow> Inl e
        | Inr s \<Rightarrow>
        (case sequenceFrom H (getInputTargetBlock block ''DO'') md (snd (blockId H block w)) of
          Inl e \<Rightarrow> Inl e
        | Inr (b, md1, w2) \<Rightarrow>
            Inr (ForRange (fst (blockId H block w))
                   (of_field (js_or (getFieldValue block ''VAR'') (FStr ''i''))) f t s b,
                 md1, w2)))))
       (set (expressionBlocks (getInputTargetBlock block ''FROM''))
         \<union> set (expressionBlocks (getInputTargetBlock block ''TO''))
         \<union> set (expressionBlocks (getInputTargetBlock block ''BY''))
         \<union> set (expressionBlocksOf (statementBlocks (getInputTargetBlock block ''DO''))))"
      apply (rule accounted_seq [OF expressionFrom_accounted])
       apply (rule accounted_seq [OF expressionFrom_accounted])
        apply (rule accounted_seq [OF expressionFrom_accounted])
         apply (rule accounted_map3)
         apply (rule 8(1) [OF True refl prod.collapse refl])
           apply assumption
          apply assumption
         apply assumption
        apply (rule refl)
       apply (rule refl)
      apply (simp add: Un_assoc)
      done
    with True show ?thesis by (simp add: convertForBlock.simps case_prod_beta Let_def)
  next
    case False
    have "accounted
       (case expressionFrom H (getInputTargetBlock block ''LIST'') of
          Inl e \<Rightarrow> Inl e
        | Inr c \<Rightarrow>
        (case sequenceFrom H (getInputTargetBlock block ''DO'') md (snd (blockId H block w)) of
          Inl e \<Rightarrow> Inl e
        | Inr (b, md1, w2) \<Rightarrow>
            Inr (ForEach (fst (blockId H block w))
                   (of_field (js_or (getFieldValue block ''VAR'') (FStr ''item''))) c b,
                 md1, w2)))
       (set (expressionBlocks (getInputTargetBlock block ''LIST''))
         \<union> set (expressionBlocksOf (statementBlocks (getInputTargetBlock block ''DO''))))"
      apply (rule accounted_seq [OF expressionFrom_accounted])
       apply (rule accounted_map3)
       apply (rule 8(2) [OF False refl prod.collapse refl])
       apply assumption
      apply (rule refl)
      done
    with False show ?thesis by (simp add: convertForBlock.simps case_prod_beta Let_def)
  qed
qed


lemma topBlocks_forEach_accounted:
  "accounted (topBlocks_forEach H bs md w) (set (workspaceExpressions bs))"
proof (induction bs arbitrary: md w)
  case Nil
  show ?case by (simp add: accounted_def workspaceExpressions_def visitedBlocks_def)
next
  case (Cons b bs)
  have "accounted
     (case sequenceFrom H (Some b) md w of
        Inl e \<Rightarrow> Inl e
      | Inr (ns, md1, w1) \<Rightarrow>
          (case topBlocks_forEach H bs md1 w1 of
             Inl e \<Rightarrow> Inl e
           | Inr (rest, md2, w2) \<Rightarrow> Inr (ns @ rest, md2, w2)))
     (set (workspaceExpressions (b # bs)))"
    apply (rule accounted_seq3 [OF lowering_accounted(1)])
     apply (rule accounted_map3)
     apply (rule Cons.IH)
    apply (simp add: workspaceExpressions_def visitedBlocks_def Un_assoc)
    done
  then show ?case by simp
qed

lemma workspaceToDocument_accounted:
  "accounted (workspaceToDocument H topBlocks w) (set (workspaceExpressions topBlocks))"
  unfolding workspaceToDocument_def
  by (rule accounted_map3 [OF topBlocks_forEach_accounted])

lemma accounted_aborts:
  "accounted r S \<Longrightarrow> b \<in> S \<Longrightarrow> btype b \<notin> set expressionTypes \<Longrightarrow> \<exists>e. r = Inl e"
  by (cases r) (auto simp: accounted_def)

lemma accounted_names:
  "accounted r S \<Longrightarrow> r = Inl (UnsupportedExpression m) \<Longrightarrow>
   \<exists>b \<in> S. btype b \<notin> set expressionTypes \<and> m = ''Unsupported expression block: '' @ btype b"
  by (auto simp: accounted_def)

text \<open>A workspace with an unsupported block inside the negated condition of a while
  block, which sits in a branch of an if block below a command block.\<close>

definition unsupported_in_condition :: "block list" where
  "unsupported_in_condition =
     [Block ''grab'' None ''g0'' [] []
        (Some (Block ''controls_if'' None ''i1'' []
           [(''IF0'', Some (Block ''logic_boolean'' None ''c1'' [(''BOOL'', FStr ''TRUE'')] [] None)),
            (''DO0'', Some (Block ''controls_whileUntil'' None ''w1'' []
               [(''BOOL'', Some (Block ''logic_negate'' None ''n1'' []
                   [(''BOOL'', Some (Block ''variables_get'' None ''v1'' [] [] None))] None))]
               None))]
           None))]"

lemma unsupported_in_condition_expressions:
  "workspaceExpressions unsupported_in_condition =
     [Block ''logic_boolean'' None ''c1'' [(''BOOL'', FStr ''TRUE'')] [] None,
      Block ''logic_negate'' None ''n1'' []
        [(''BOOL'', Some (Block ''variables_get'' None ''v1'' [] [] None))] None,
      Block ''variables_get'' None ''v1'' [] [] None]"
  by (simp add: workspaceExpressions_def visitedBlocks_def unsupported_in_condition_def
      nestedStatementBlocks.simps branchStatementBlocks.simps branchConditions.simps
      statementExpressions_def expressionBlocks.simps(2) expressionInputs_def
      getInputTargetBlock_def getInput_def getNextBlock_def show_nat.simps digit_char_def)

lemma unsupported_in_condition_lowered:
  "workspaceToDocument example_host unsupported_in_condition example_world
     = Inl (UnsupportedExpression ''Unsupported expression block: variables_get'')"
  by (simp add: lowering_simps unsupported_in_condition_def)

text \<open>
  C3, as the code has it. A statement block \<open>sb\<close> whose type has no lowering rule
  produces no node, writes one warning to the console, and the rest of its chain is lowered
  as if the block were absent. An expression block \<open>eb\<close> whose type has no case makes
  \<open>expressionFrom\<close> throw, and the error ends the lowering of the statement that holds
  it, as for the count of a repeat block \<open>rb\<close>. In general an expression block \<open>b\<close> of
  an unsupported type ends the call with an error wherever lowering meets it: nested at
  any depth in an expression \<open>xo\<close>; under a condition, count, bound, step or list of any
  statement block of a chain \<open>ob\<close>, the blocks of its bodies and branches included;
  and under any statement block of a workspace, in which case \<open>workspaceToDocument\<close>
  returns no document, whatever the other blocks are. And an unsupported-expression
  error of \<open>workspaceToDocument\<close> always names an expression block of the workspace
  whose type has no case.
\<close>

theorem unsupported_blocks:
  "(btype sb \<notin> set statementTypes \<longrightarrow>
      convertStatementBlock H sb md w = Inr ([], md, unsupportedWarning sb w))
   \<and> (btype sb \<notin> set statementTypes \<and> btype sb \<noteq> ''set_metadata'' \<longrightarrow>
      sequenceFrom H (Some sb) md w
        = sequenceFrom H (getNextBlock sb) md (unsupportedWarning sb w))
   \<and> (btype eb \<notin> set expressionTypes \<longrightarrow>
      expressionFrom H (Some eb)
        = Inl (UnsupportedExpression (''Unsupported expression block: '' @ btype eb)))
   \<and> (btype rb = ''controls_repeat_ext''
       \<and> expressionFrom H (getInputTargetBlock rb ''TIMES'') = Inl e \<longrightarrow>
      sequenceFrom H (Some rb) md w = Inl e)
   \<and> (b \<in> set (expressionBlocks xo) \<and> btype b \<notin> set expressionTypes \<longrightarrow>
      (\<exists>err. expressionFrom H xo = Inl err))
   \<and> (b \<in> set (expressionBlocksOf (statementBlocks ob)) \<and> btype b \<notin> set expressionTypes \<longrightarrow>
      (\<exists>err. sequenceFrom H ob md w = Inl err))
   \<and> (b \<in> set (workspaceExpressions topBlocks) \<and> btype b \<notin> set expressionTypes \<longrightarrow>
      (\<exists>err. workspaceToDocument H topBlocks w = Inl err))
   \<and> (workspaceToDocument H topBlocks w = Inl (UnsupportedExpression m) \<longrightarrow>
      (\<exists>u \<in> set (workspaceExpressions topBlocks). btype u \<notin> set expressionTypes
         \<and> m = ''Unsupported expression block: '' @ btype u))"
proof -
  have a: "btype sb \<notin> set statementTypes \<longrightarrow>
      convertStatementBlock H sb md w = Inr ([], md, unsupportedWarning sb w)"
    using unsupported_statement_skipped [of sb H md w] by simp
  have b: "btype sb \<notin> set statementTypes \<and> btype sb \<noteq> ''set_metadata'' \<longrightarrow>
      sequenceFrom H (Some sb) md w
        = sequenceFrom H (getNextBlock sb) md (unsupportedWarning sb w)"
    using unsupported_statement_continues [of sb H md w] by simp
  have c: "btype eb \<notin> set expressionTypes \<longrightarrow>
      expressionFrom H (Some eb)
        = Inl (UnsupportedExpression (''Unsupported expression block: '' @ btype eb))"
    using unsupported_expression_throws [of eb H] by simp
  have d: "btype rb = ''controls_repeat_ext''
       \<and> expressionFrom H (getInputTargetBlock rb ''TIMES'') = Inl e \<longrightarrow>
      sequenceFrom H (Some rb) md w = Inl e"
    using repeat_count_error_aborts [of rb H e md w] by simp
  have f: "b \<in> set (expressionBlocks xo) \<and> btype b \<notin> set expressionTypes \<longrightarrow>
      (\<exists>err. expressionFrom H xo = Inl err)"
    using accounted_aborts [OF expressionFrom_accounted, of b xo H] by blast
  have g: "b \<in> set (expressionBlocksOf (statementBlocks ob)) \<and> btype b \<notin> set expressionTypes \<longrightarrow>
      (\<exists>err. sequenceFrom H ob md w = Inl err)"
    using accounted_aborts [OF lowering_accounted(1), of b ob H md w] by blast
  have h: "b \<in> set (workspaceExpressions topBlocks) \<and> btype b \<notin> set expressionTypes \<longrightarrow>
      (\<exists>err. workspaceToDocument H topBlocks w = Inl err)"
    using accounted_aborts [OF workspaceToDocument_accounted, of b topBlocks H w] by blast
  have i: "workspaceToDocument H topBlocks w = Inl (UnsupportedExpression m) \<longrightarrow>
      (\<exists>u \<in> set (workspaceExpressions topBlocks). btype u \<notin> set expressionTypes
         \<and> m = ''Unsupported expression block: '' @ btype u)"
    using accounted_names [OF workspaceToDocument_accounted, of H topBlocks w m] by blast
  show ?thesis using a b c d f g h i by (intro conjI)
qed

theorem unsupported_blocks_witness:
  "''text_print'' \<notin> set statementTypes
   \<and> sequenceFrom example_host
       (Some (Block ''text_print'' None ''t1'' [] [] (Some (Block ''grab'' None ''g1'' [] [] None))))
       empty_metadata example_world
     = Inr ([Command ''g1'' ''grab'' None], empty_metadata,
            example_world\<lparr>console := [''Ignoring unsupported statement block: text_print'']\<rparr>)
   \<and> ''variables_get'' \<notin> set expressionTypes
   \<and> expressionFrom example_host (Some (Block ''variables_get'' None ''v1'' [] [] None))
     = Inl (UnsupportedExpression ''Unsupported expression block: variables_get'')
   \<and> sequenceFrom example_host
       (Some (Block ''controls_repeat_ext'' None ''r1'' []
          [(''TIMES'', Some (Block ''variables_get'' None ''v1'' [] [] None))] None))
       empty_metadata example_world
     = Inl (UnsupportedExpression ''Unsupported expression block: variables_get'')
   \<and> Block ''variables_get'' None ''v1'' [] [] None
       \<in> set (expressionBlocks (Some (Block ''logic_negate'' None ''n1'' []
                [(''BOOL'', Some (Block ''variables_get'' None ''v1'' [] [] None))] None)))
   \<and> expressionFrom example_host (Some (Block ''logic_negate'' None ''n1'' []
          [(''BOOL'', Some (Block ''variables_get'' None ''v1'' [] [] None))] None))
     = Inl (UnsupportedExpression ''Unsupported expression block: variables_get'')
   \<and> Block ''variables_get'' None ''v1'' [] [] None
       \<in> set (expressionBlocksOf (statementBlocks
            (Some (Block ''controls_whileUntil'' None ''w1'' []
               [(''BOOL'', Some (Block ''logic_negate'' None ''n1'' []
                   [(''BOOL'', Some (Block ''variables_get'' None ''v1'' [] [] None))] None))]
               None))))
   \<and> sequenceFrom example_host
       (Some (Block ''controls_whileUntil'' None ''w1'' []
          [(''BOOL'', Some (Block ''logic_negate'' None ''n1'' []
              [(''BOOL'', Some (Block ''variables_get'' None ''v1'' [] [] None))] None))] None))
       empty_metadata example_world
     = Inl (UnsupportedExpression ''Unsupported expression block: variables_get'')
   \<and> Block ''variables_get'' None ''v1'' [] [] None
       \<in> set (workspaceExpressions unsupported_in_condition)
   \<and> workspaceToDocument example_host unsupported_in_condition example_world
     = Inl (UnsupportedExpression ''Unsupported expression block: variables_get'')"
proof -
  have skipped: "''text_print'' \<notin> set statementTypes
   \<and> sequenceFrom example_host
       (Some (Block ''text_print'' None ''t1'' [] [] (Some (Block ''grab'' None ''g1'' [] [] None))))
       empty_metadata example_world
     = Inr ([Command ''g1'' ''grab'' None], empty_metadata,
            example_world\<lparr>console := [''Ignoring unsupported statement block: text_print'']\<rparr>)
   \<and> ''variables_get'' \<notin> set expressionTypes
   \<and> expressionFrom example_host (Some (Block ''variables_get'' None ''v1'' [] [] None))
     = Inl (UnsupportedExpression ''Unsupported expression block: variables_get'')
   \<and> sequenceFrom example_host
       (Some (Block ''controls_repeat_ext'' None ''r1'' []
          [(''TIMES'', Some (Block ''variables_get'' None ''v1'' [] [] None))] None))
       empty_metadata example_world
     = Inl (UnsupportedExpression ''Unsupported expression block: variables_get'')"
    by (simp add: lowering_simps statementTypes_def expressionTypes_def)
  have nested: "Block ''variables_get'' None ''v1'' [] [] None
       \<in> set (workspaceExpressions unsupported_in_condition)"
    by (simp add: unsupported_in_condition_expressions)
  have in_expression: "Block ''variables_get'' None ''v1'' [] [] None
       \<in> set (expressionBlocks (Some (Block ''logic_negate'' None ''n1'' []
                [(''BOOL'', Some (Block ''variables_get'' None ''v1'' [] [] None))] None)))"
    by (simp add: expressionBlocks.simps(2) expressionInputs_def getInputTargetBlock_def)
  have expression_fails: "expressionFrom example_host (Some (Block ''logic_negate'' None ''n1'' []
          [(''BOOL'', Some (Block ''variables_get'' None ''v1'' [] [] None))] None))
     = Inl (UnsupportedExpression ''Unsupported expression block: variables_get'')"
    by (simp add: getInputTargetBlock_def bindE_def)
  have in_chain: "Block ''variables_get'' None ''v1'' [] [] None
       \<in> set (expressionBlocksOf (statementBlocks
            (Some (Block ''controls_whileUntil'' None ''w1'' []
               [(''BOOL'', Some (Block ''logic_negate'' None ''n1'' []
                   [(''BOOL'', Some (Block ''variables_get'' None ''v1'' [] [] None))] None))]
               None))))"
    by (simp add: nestedStatementBlocks.simps statementExpressions_def expressionBlocks.simps(2)
        expressionInputs_def getInputTargetBlock_def getNextBlock_def)
  have chain_fails: "sequenceFrom example_host
       (Some (Block ''controls_whileUntil'' None ''w1'' []
          [(''BOOL'', Some (Block ''logic_negate'' None ''n1'' []
              [(''BOOL'', Some (Block ''variables_get'' None ''v1'' [] [] None))] None))] None))
       empty_metadata example_world
     = Inl (UnsupportedExpression ''Unsupported expression block: variables_get'')"
    by (simp add: lowering_simps)
  show ?thesis
    using unsupported_blocks [where
      sb = "Block ''text_print'' None ''t1'' [] [] (Some (Block ''grab'' None ''g1'' [] [] None))"
      and H = example_host and md = empty_metadata and w = example_world
      and eb = "Block ''variables_get'' None ''v1'' [] [] None"
      and rb = "Block ''controls_repeat_ext'' None ''r1'' []
          [(''TIMES'', Some (Block ''variables_get'' None ''v1'' [] [] None))] None"
      and e = "UnsupportedExpression ''Unsupported expression block: variables_get''"
      and b = "Block ''variables_get'' None ''v1'' [] [] None"
      and xo = "Some (Block ''logic_negate'' None ''n1'' []
          [(''BOOL'', Some (Block ''variables_get'' None ''v1'' [] [] None))] None)"
      and ob = "Some (Block ''controls_whileUntil'' None ''w1'' []
          [(''BOOL'', Some (Block ''logic_negate'' None ''n1'' []
              [(''BOOL'', Some (Block ''variables_get'' None ''v1'' [] [] None))] None))] None)"
      and topBlocks = unsupported_in_condition
      and m = "''Unsupported expression block: variables_get''"]
      skipped nested in_expression expression_fails in_chain chain_fails
      unsupported_in_condition_lowered
    by blast
qed

text \<open>The claim as worded fails for expression blocks: a workspace whose repeat block
  takes its count from a block of an unsupported type is not lowered at all.\<close>

theorem unsupported_expression_hard_failure:
  "workspaceToDocument example_host
     [Block ''controls_repeat_ext'' None ''r1'' []
        [(''TIMES'', Some (Block ''variables_get'' None ''v1'' [] [] None))]
        (Some (Block ''grab'' None ''g1'' [] [] None))]
     example_world
   = Inl (UnsupportedExpression ''Unsupported expression block: variables_get'')"
  by (simp add: lowering_simps)

section \<open>Determinism\<close>

text \<open>A block carries an id of its own when its \<open>data\<close> or its \<open>id\<close> is a non-empty
  string; \<open>blockId\<close> then never calls \<open>genUid\<close>.\<close>

definition hasOwnId :: "block \<Rightarrow> bool" where
  "hasOwnId b = (if bdata b = None \<or> bdata b = Some [] then bid b \<noteq> [] else True)"

definition ownId :: "block \<Rightarrow> string" where
  "ownId b = (if bdata b = None \<or> bdata b = Some [] then bid b else the (bdata b))"

text \<open>Every block of the list that lowers to a node carries an id of its own.\<close>

definition idsPresent :: "block list \<Rightarrow> bool" where
  "idsPresent bs = list_all hasOwnId (filter (\<lambda>b. btype b \<in> set statementTypes) bs)"

text \<open>The outcome of a lowering step without the world it leaves behind.\<close>

definition outcome :: "error + ('a \<times> metadata \<times> world) \<Rightarrow> error + ('a \<times> metadata)" where
  "outcome r = (case r of Inl e \<Rightarrow> Inl e | Inr (x, md, w) \<Rightarrow> Inr (x, md))"

lemma blockId_own: "hasOwnId b \<Longrightarrow> blockId H b w = (ownId b, w)"
  by (auto simp: blockId_def hasOwnId_def ownId_def split: if_splits)

lemma Number_js_genUid [simp]: "Number_js (H\<lparr>genUid := g\<rparr>) v = Number_js H v"
  by (cases v) simp_all

lemma numberField_genUid [simp]: "numberField (H\<lparr>genUid := g\<rparr>) b k d = numberField H b k d"
  by (simp add: numberField_def)

lemma expressionFrom_genUid [simp]:
  "expressionFrom (H\<lparr>genUid := g\<rparr>) ob = expressionFrom H ob"
proof (induction ob rule: measure_induct_rule [of osize])
  case (less ob)
  show ?case
  proof (cases ob)
    case None
    then show ?thesis by simp
  next
    case (Some block)
    have "expressionFrom (H\<lparr>genUid := g\<rparr>) (getInputTargetBlock block k)
            = expressionFrom H (getInputTargetBlock block k)" for k
      using less [of "getInputTargetBlock block k"] osize_getInputTargetBlock [of block k] Some
      by (simp add: osize_def)
    with Some show ?thesis by simp
  qed
qed




lemma outcome_simps [simp]:
  "outcome (Inl e) = Inl e"
  "outcome (Inr (x, md, w)) = Inr (x, md)"
  by (simp_all add: outcome_def)


lemma idsPresent_simps [simp]:
  "idsPresent []"
  "idsPresent (b # bs) = ((btype b \<in> set statementTypes \<longrightarrow> hasOwnId b) \<and> idsPresent bs)"
  "idsPresent (bs @ cs) = (idsPresent bs \<and> idsPresent cs)"
  by (auto simp: idsPresent_def)

lemma control_types_are_statement_types:
  "isControlType t \<Longrightarrow> t \<in> set statementTypes"
  by (auto simp: isControlType_def statementTypes_def)

lemma leaf_statement_type:
  "\<not> isControlType t \<Longrightarrow>
   (t \<in> set statementTypes) =
     (t = ''controls_flow_statements'' \<or> map_of parameterReaders t \<noteq> None
      \<or> t \<in> set commandsWithoutParameters)"
  by (auto simp: isControlType_def statementTypes_def map_of_eq_None_iff)















text \<open>
  The ids matter: a block with neither \<open>data\<close> nor \<open>id\<close>, which Blockly never builds, would
  be given a fresh id by \<open>genUid\<close> in each invocation.
\<close>

lemma fresh_ids_without_own_id:
  "workspaceToDocument example_host [Block ''grab'' None [] [] [] None] example_world
     = Inr (\<lparr>version = ''1.0'', doc_metadata = empty_metadata,
             sequence = [Command ''uid0'' ''grab'' None]\<rparr>,
            example_world\<lparr>uid_calls := 1\<rparr>)
   \<and> workspaceToDocument example_host [Block ''grab'' None [] [] [] None]
       (example_world\<lparr>uid_calls := 1\<rparr>)
     = Inr (\<lparr>version = ''1.0'', doc_metadata = empty_metadata,
             sequence = [Command ''uid1'' ''grab'' None]\<rparr>,
            example_world\<lparr>uid_calls := 2\<rparr>)"
  by (simp add: lowering_simps)

section \<open>Sequence order\<close>

text \<open>The blocks of a statement chain, from its first block along the next-statement
  links, and those of them that lower to a node.\<close>

function chain :: "block option \<Rightarrow> block list" where
  "chain None = []"
| "chain (Some b) = b # chain (getNextBlock b)"
  by pat_completeness auto
termination
proof (relation "measure osize", goal_cases)
  case 1
  show ?case by simp
next
  case (2 b)
  show ?case using osize_getNextBlock [of b] by (simp add: osize_def)
qed

definition producers :: "block option \<Rightarrow> block list" where
  "producers ob = filter (\<lambda>b. btype b \<in> set statementTypes) (chain ob)"

lemma set_metadata_no_statement_type: "''set_metadata'' \<notin> set statementTypes"
  by (simp add: statementTypes_def parameterReaders_def commandsWithoutParameters_def)

lemma convertStatementBlock_count:
  assumes "convertStatementBlock H b md w = Inr (r, md', w')"
  shows "if btype b \<in> set statementTypes then \<exists>n. r = [n] else r = []"
proof (cases rule: control_type_cases [of b])
  case if_block
  with assms show ?thesis
    by (auto simp: convertStatementBlock_if statementTypes_def split: sum.splits)
next
  case repeat_block
  with assms show ?thesis
    by (auto simp: convertStatementBlock_repeat statementTypes_def split: sum.splits)
next
  case while_block
  with assms show ?thesis
    by (auto simp: convertStatementBlock_while statementTypes_def split: sum.splits)
next
  case for_block
  with assms show ?thesis
    by (auto simp: convertStatementBlock_for statementTypes_def split: sum.splits)
next
  case leaf
  with assms show ?thesis
    by (auto simp: convertStatementBlock_leaf leaf_statement_type
        split: sum.splits if_splits)
qed

lemma sequenceFrom_chain_order:
  "sequenceFrom H ob md w = Inr (ns, md', w') \<Longrightarrow>
   list_all2 (\<lambda>b n. \<exists>md0 w0 md1 w1. convertStatementBlock H b md0 w0 = Inr ([n], md1, w1))
     (producers ob) ns"
proof (induction ob arbitrary: md w ns md' w' rule: chain.induct)
  case 1
  then show ?case by (simp add: sequenceFrom.simps producers_def)
next
  case (2 b)
  show ?case
  proof (cases "btype b = ''set_metadata''")
    case True
    with "2.prems" have "sequenceFrom H (getNextBlock b) (applyMetadata b md) w = Inr (ns, md', w')"
      by (simp add: sequenceFrom_metadata_block)
    from "2.IH" [OF this] True show ?thesis
      by (simp add: producers_def set_metadata_no_statement_type)
  next
    case False
    from sequenceFrom_statement_block [OF False "2.prems"] obtain n1 md1 w1 rest where
      c: "convertStatementBlock H b md w = Inr (n1, md1, w1)"
      and s: "sequenceFrom H (getNextBlock b) md1 w1 = Inr (rest, md', w')"
      and ns: "ns = n1 @ rest"
      by blast
    from "2.IH" [OF s] have r: "list_all2
        (\<lambda>b n. \<exists>md0 w0 md1 w1. convertStatementBlock H b md0 w0 = Inr ([n], md1, w1))
        (producers (getNextBlock b)) rest" .
    show ?thesis
    proof (cases "btype b \<in> set statementTypes")
      case True
      with convertStatementBlock_count [OF c] obtain n where n: "n1 = [n]" by auto
      with c have "\<exists>md0 w0 md1 w1. convertStatementBlock H b md0 w0 = Inr ([n], md1, w1)"
        by blast
      with r True n ns show ?thesis by (simp add: producers_def)
    next
      case False
      with convertStatementBlock_count [OF c] have "n1 = []" by simp
      with r False ns show ?thesis by (simp add: producers_def)
    qed
  qed
qed

lemma convertIfBlock_branches_order:
  "convertIfBlock_branches H block index md w = Inr (brs, md', w') \<Longrightarrow>
   (\<forall>k < length brs.
      getInput block (''IF'' @ show_nat (index + k))
      \<and> expressionFrom H (getInputTargetBlock block (''IF'' @ show_nat (index + k)))
          = Inr (fst (brs ! k))
      \<and> (\<exists>md0 w0 md1 w1.
            sequenceFrom H (getInputTargetBlock block (''DO'' @ show_nat (index + k))) md0 w0
              = Inr (snd (brs ! k), md1, w1)))
   \<and> \<not> getInput block (''IF'' @ show_nat (index + length brs))"
proof (induction brs arbitrary: index md w)
  case Nil
  have "\<not> getInput block (''IF'' @ show_nat index)"
  proof
    assume "getInput block (''IF'' @ show_nat index)"
    from convertIfBlock_branches_parts [OF this Nil] show False by blast
  qed
  then show ?case by simp
next
  case (Cons br brs)
  have g: "getInput block (''IF'' @ show_nat index)"
  proof (rule ccontr)
    assume "\<not> getInput block (''IF'' @ show_nat index)"
    with Cons.prems show False by (simp add: convertIfBlock_branches_end)
  qed
  from convertIfBlock_branches_parts [OF g Cons.prems] obtain c b md1 w1 where
    x: "expressionFrom H (getInputTargetBlock block (''IF'' @ show_nat index)) = Inr c"
    and s: "sequenceFrom H (getInputTargetBlock block (''DO'' @ show_nat index)) md w
              = Inr (b, md1, w1)"
    and t: "convertIfBlock_branches H block (index + 1) md1 w1 = Inr (brs, md', w')"
    and br: "br = (c, b)"
    by auto
  from Cons.IH [OF t] have rest:
    "\<forall>k < length brs.
      getInput block (''IF'' @ show_nat (index + 1 + k))
      \<and> expressionFrom H (getInputTargetBlock block (''IF'' @ show_nat (index + 1 + k)))
          = Inr (fst (brs ! k))
      \<and> (\<exists>md0 w0 md1 w1.
            sequenceFrom H (getInputTargetBlock block (''DO'' @ show_nat (index + 1 + k))) md0 w0
              = Inr (snd (brs ! k), md1, w1))"
    and stop: "\<not> getInput block (''IF'' @ show_nat (index + 1 + length brs))"
    by blast+
  show ?case
  proof (intro conjI allI impI)
    fix k
    assume k: "k < length (br # brs)"
    show "getInput block (''IF'' @ show_nat (index + k))"
      using g rest k by (cases k) auto
    show "expressionFrom H (getInputTargetBlock block (''IF'' @ show_nat (index + k)))
            = Inr (fst ((br # brs) ! k))"
      using x br rest k by (cases k) auto
    show "\<exists>md0 w0 md1 w1.
            sequenceFrom H (getInputTargetBlock block (''DO'' @ show_nat (index + k))) md0 w0
              = Inr (snd ((br # brs) ! k), md1, w1)"
    proof (cases k)
      case 0
      with s br show ?thesis by auto
    next
      case (Suc j)
      with rest k show ?thesis by simp
    qed
  next
    from stop show "\<not> getInput block (''IF'' @ show_nat (index + length (br # brs)))"
      by simp
  qed
qed

lemma topBlocks_forEach_order:
  "topBlocks_forEach H bs md w = Inr (ns, md', w') \<Longrightarrow>
   \<exists>nss. ns = concat nss
     \<and> list_all2 (\<lambda>b r. \<exists>md0 w0 md1 w1. sequenceFrom H (Some b) md0 w0 = Inr (r, md1, w1))
          bs nss"
proof (induction bs arbitrary: md w ns md' w')
  case Nil
  then show ?case by simp
next
  case (Cons b bs)
  from Cons.prems obtain n1 md1 w1 rest where
    s: "sequenceFrom H (Some b) md w = Inr (n1, md1, w1)"
    and t: "topBlocks_forEach H bs md1 w1 = Inr (rest, md', w')"
    and ns: "ns = n1 @ rest"
    by (auto split: sum.splits)
  from Cons.IH [OF t] obtain nss where
    "rest = concat nss"
    "list_all2 (\<lambda>b r. \<exists>md0 w0 md1 w1. sequenceFrom H (Some b) md0 w0 = Inr (r, md1, w1))
       bs nss"
    by blast
  with s ns have "ns = concat (n1 # nss)
     \<and> list_all2 (\<lambda>b r. \<exists>md0 w0 md1 w1. sequenceFrom H (Some b) md0 w0 = Inr (r, md1, w1))
          (b # bs) (n1 # nss)"
    by auto
  then show ?case by blast
qed

lemma chain_order_ids:
  assumes "sequenceFrom H ob md w = Inr (ns, md', w')"
    and "list_all hasOwnId (producers ob)"
  shows "map node_id ns = map ownId (producers ob)"
proof -
  have "map node_id ys = map ownId xs"
    if "list_all2 (\<lambda>b n. \<exists>md0 w0 md1 w1. convertStatementBlock H b md0 w0 = Inr ([n], md1, w1))
          xs ys"
      and "list_all hasOwnId xs" for xs ys
    using that
  proof (induction xs ys rule: list_all2_induct)
    case Nil
    show ?case by simp
  next
    case (Cons b xs n ys)
    from Cons.hyps(1) obtain md0 w0 md1 w1 where
      "convertStatementBlock H b md0 w0 = Inr ([n], md1, w1)" by blast
    from convertStatementBlock_node_id [OF this, of n] obtain w2 where
      "node_id n = fst (blockId H b w2)" by auto
    with Cons.prems have "node_id n = ownId b" by (simp add: blockId_own)
    with Cons show ?case by simp
  qed
  from this [OF sequenceFrom_chain_order [OF assms(1)] assms(2)] show ?thesis .
qed

text \<open>
  C1. The nodes of a lowered chain are, one for one and in the same order, the lowerings
  of the blocks of the chain that have a lowering rule, taken along the next-statement
  links (so with own ids the sequence of node ids is the sequence of block ids). The body
  of a repeat, while or for node is the lowering of the chain connected to DO, the
  \<open>k\<close>-th branch of an if node holds the lowering of the condition at IF\<open>k\<close> and of the
  chain at DO\<open>k\<close>, for every consecutive index from 0, its else branch is the lowering
  of the chain at ELSE (or absent when that is empty), and the document's sequence is the
  concatenation of the lowered top-level chains in the order of the top blocks.
\<close>

theorem sequence_order_is_chain_order:
  "(sequenceFrom H ob md w = Inr (ns, md', w') \<longrightarrow>
      list_all2 (\<lambda>b n. \<exists>md0 w0 md1 w1. convertStatementBlock H b md0 w0 = Inr ([n], md1, w1))
        (producers ob) ns
      \<and> (list_all hasOwnId (producers ob) \<longrightarrow> map node_id ns = map ownId (producers ob)))
   \<and> (convertRepeatBlock H rb md w = Inr (rn, rmd, rw) \<longrightarrow>
      (\<exists>i c b. rn = Repeat i c b
         \<and> sequenceFrom H (getInputTargetBlock rb ''DO'') md (snd (blockId H rb w))
             = Inr (b, rmd, rw)))
   \<and> (convertWhileBlock H wb md w = Inr (wn, wmd, ww) \<longrightarrow>
      (\<exists>i m c b. wn = While i m c b
         \<and> sequenceFrom H (getInputTargetBlock wb ''DO'') md (snd (blockId H wb w))
             = Inr (b, wmd, ww)))
   \<and> (convertForBlock H fb md w = Inr (fn, fmd, fw) \<longrightarrow>
      (\<exists>i v c1 c2 c3 b. (fn = ForRange i v c1 c2 c3 b \<or> fn = ForEach i v c1 b)
         \<and> sequenceFrom H (getInputTargetBlock fb ''DO'') md (snd (blockId H fb w))
             = Inr (b, fmd, fw)))
   \<and> (convertIfBlock_branches H ib index md w = Inr (brs, imd, iw) \<longrightarrow>
      (\<forall>k < length brs.
         getInput ib (''IF'' @ show_nat (index + k))
         \<and> expressionFrom H (getInputTargetBlock ib (''IF'' @ show_nat (index + k)))
             = Inr (fst (brs ! k))
         \<and> (\<exists>md0 w0 md1 w1.
               sequenceFrom H (getInputTargetBlock ib (''DO'' @ show_nat (index + k))) md0 w0
                 = Inr (snd (brs ! k), md1, w1)))
      \<and> \<not> getInput ib (''IF'' @ show_nat (index + length brs)))
   \<and> (convertIfBlock H cb md w = Inr (cn, cmd, cw) \<longrightarrow>
      (\<exists>i bs md1 w1 eb w2. cn = If i bs (if eb \<noteq> [] then Some eb else None)
         \<and> convertIfBlock_branches H cb 0 md w = Inr (bs, md1, w1)
         \<and> sequenceFrom H (getInputTargetBlock cb ''ELSE'') md1 w1 = Inr (eb, cmd, w2)))
   \<and> (workspaceToDocument H topBlocks w = Inr (doc, dw) \<longrightarrow>
      (\<exists>nss. sequence doc = concat nss
         \<and> list_all2 (\<lambda>b r. \<exists>md0 w0 md1 w1. sequenceFrom H (Some b) md0 w0 = Inr (r, md1, w1))
              topBlocks nss))"
proof (intro conjI impI)
  assume s: "sequenceFrom H ob md w = Inr (ns, md', w')"
  from sequenceFrom_chain_order [OF s]
  show "list_all2 (\<lambda>b n. \<exists>md0 w0 md1 w1. convertStatementBlock H b md0 w0 = Inr ([n], md1, w1))
        (producers ob) ns" .
  assume "list_all hasOwnId (producers ob)"
  with s show "map node_id ns = map ownId (producers ob)" by (rule chain_order_ids)
next
  assume "convertRepeatBlock H rb md w = Inr (rn, rmd, rw)"
  from convertRepeatBlock_parts [OF this]
  show "\<exists>i c b. rn = Repeat i c b
         \<and> sequenceFrom H (getInputTargetBlock rb ''DO'') md (snd (blockId H rb w))
             = Inr (b, rmd, rw)"
    by blast
next
  assume "convertWhileBlock H wb md w = Inr (wn, wmd, ww)"
  from convertWhileBlock_parts [OF this]
  show "\<exists>i m c b. wn = While i m c b
         \<and> sequenceFrom H (getInputTargetBlock wb ''DO'') md (snd (blockId H wb w))
             = Inr (b, wmd, ww)"
    by blast
next
  assume f: "convertForBlock H fb md w = Inr (fn, fmd, fw)"
  show "\<exists>i v c1 c2 c3 b. (fn = ForRange i v c1 c2 c3 b \<or> fn = ForEach i v c1 b)
         \<and> sequenceFrom H (getInputTargetBlock fb ''DO'') md (snd (blockId H fb w))
             = Inr (b, fmd, fw)"
  proof (cases "btype fb = ''controls_for''")
    case True
    from convertForBlock_range_parts [OF True f] show ?thesis by blast
  next
    case False
    from convertForBlock_each_parts [OF False f] show ?thesis by blast
  qed
next
  assume "convertIfBlock_branches H ib index md w = Inr (brs, imd, iw)"
  note r = convertIfBlock_branches_order [OF this]
  from r show "\<forall>k < length brs.
         getInput ib (''IF'' @ show_nat (index + k))
         \<and> expressionFrom H (getInputTargetBlock ib (''IF'' @ show_nat (index + k)))
             = Inr (fst (brs ! k))
         \<and> (\<exists>md0 w0 md1 w1.
               sequenceFrom H (getInputTargetBlock ib (''DO'' @ show_nat (index + k))) md0 w0
                 = Inr (snd (brs ! k), md1, w1))"
    by (rule conjunct1)
  from r show "\<not> getInput ib (''IF'' @ show_nat (index + length brs))"
    by (rule conjunct2)
next
  assume "convertIfBlock H cb md w = Inr (cn, cmd, cw)"
  from convertIfBlock_parts [OF this]
  show "\<exists>i bs md1 w1 eb w2. cn = If i bs (if eb \<noteq> [] then Some eb else None)
         \<and> convertIfBlock_branches H cb 0 md w = Inr (bs, md1, w1)
         \<and> sequenceFrom H (getInputTargetBlock cb ''ELSE'') md1 w1 = Inr (eb, cmd, w2)"
    by blast
next
  assume "workspaceToDocument H topBlocks w = Inr (doc, dw)"
  then obtain s md1 where
    t: "topBlocks_forEach H topBlocks empty_metadata w = Inr (s, md1, dw)"
    and doc: "sequence doc = s"
    by (auto simp: workspaceToDocument_def split: sum.splits)
  from topBlocks_forEach_order [OF t] doc
  show "\<exists>nss. sequence doc = concat nss
         \<and> list_all2 (\<lambda>b r. \<exists>md0 w0 md1 w1. sequenceFrom H (Some b) md0 w0 = Inr (r, md1, w1))
              topBlocks nss"
    by simp
qed

definition example_chain :: block where
  "example_chain =
     Block ''connect_robot'' None ''a'' [(''PORT'', FNum (Num 60008))] []
        (Some (Block ''controls_if'' None ''b'' []
           [(''IF0'', Some (Block ''logic_boolean'' None ''c'' [(''BOOL'', FStr ''TRUE'')] [] None)),
            (''DO0'', Some (Block ''grab'' None ''d'' [] []
                (Some (Block ''release'' None ''e'' [] [] None)))),
            (''ELSE'', Some (Block ''stop_motion'' None ''f'' [] [] None))]
           (Some (Block ''text_print'' None ''g'' [] []
              (Some (Block ''controls_repeat_ext'' None ''h'' []
                 [(''TIMES'', Some (Block ''math_number'' None ''i'' [(''NUM'', FNum (Num 3))] [] None)),
                  (''DO'', Some (Block ''power_on_servo'' None ''j'' [] []
                      (Some (Block ''power_off_servo'' None ''k'' [] [] None))))]
                 None))))))"

definition example_program :: "block list" where
  "example_program = [example_chain, Block ''disconnect_robot'' None ''l'' [] [] None]"

theorem sequence_order_is_chain_order_witness:
  "workspaceToDocument example_host example_program example_world
     = Inr (\<lparr>version = ''1.0'', doc_metadata = empty_metadata,
             sequence =
               [Command ''a'' ''connect_robot''
                  (Some [(''ip_address'', JStr ''192.168.0.10''), (''port'', JNum (Num 60008)),
                         (''timeout_ms'', JNum (Num 0))]),
                If ''b''
                  [(LiteralBoolean True,
                    [Command ''d'' ''grab'' None, Command ''e'' ''release'' None])]
                  (Some [Command ''f'' ''stop_motion'' (Some [])]),
                Repeat ''h'' (LiteralNumber (Num 3))
                  [Command ''j'' ''power_on_servo'' None, Command ''k'' ''power_off_servo'' None],
                Command ''l'' ''disconnect_robot'' None]\<rparr>,
            example_world\<lparr>console := [''Ignoring unsupported statement block: text_print'']\<rparr>)
   \<and> map ownId (producers (Some example_chain)) = [''a'', ''b'', ''h'']
   \<and> list_all hasOwnId (producers (Some example_chain))
   \<and> map node_id
        [Command ''a'' ''connect_robot''
           (Some [(''ip_address'', JStr ''192.168.0.10''), (''port'', JNum (Num 60008)),
                  (''timeout_ms'', JNum (Num 0))]),
         If ''b''
           [(LiteralBoolean True,
             [Command ''d'' ''grab'' None, Command ''e'' ''release'' None])]
           (Some [Command ''f'' ''stop_motion'' (Some [])]),
         Repeat ''h'' (LiteralNumber (Num 3))
           [Command ''j'' ''power_on_servo'' None, Command ''k'' ''power_off_servo'' None]]
      = map ownId (producers (Some example_chain))"
proof -
  have s: "sequenceFrom example_host (Some example_chain) empty_metadata example_world
     = Inr ([Command ''a'' ''connect_robot''
               (Some [(''ip_address'', JStr ''192.168.0.10''), (''port'', JNum (Num 60008)),
                      (''timeout_ms'', JNum (Num 0))]),
             If ''b''
               [(LiteralBoolean True,
                 [Command ''d'' ''grab'' None, Command ''e'' ''release'' None])]
               (Some [Command ''f'' ''stop_motion'' (Some [])]),
             Repeat ''h'' (LiteralNumber (Num 3))
               [Command ''j'' ''power_on_servo'' None, Command ''k'' ''power_off_servo'' None]],
            empty_metadata,
            example_world\<lparr>console := [''Ignoring unsupported statement block: text_print'']\<rparr>)"
    by (simp add: lowering_simps example_chain_def)
  have p: "map ownId (producers (Some example_chain)) = [''a'', ''b'', ''h'']"
    "list_all hasOwnId (producers (Some example_chain))"
    by (simp_all add: example_chain_def producers_def getNextBlock_def ownId_def hasOwnId_def
        statementTypes_def parameterReaders_def commandsWithoutParameters_def)
  have l: "sequenceFrom example_host (Some (Block ''disconnect_robot'' None ''l'' [] [] None))
        empty_metadata
        (example_world\<lparr>console := [''Ignoring unsupported statement block: text_print'']\<rparr>)
     = Inr ([Command ''l'' ''disconnect_robot'' None], empty_metadata,
            example_world\<lparr>console := [''Ignoring unsupported statement block: text_print'']\<rparr>)"
    by (simp add: sequenceFrom.simps convertStatementBlock.simps convertCommandBlock_def
        blockId_def getNextBlock_def commandsWithoutParameters_def)
  have d: "workspaceToDocument example_host example_program example_world
     = Inr (\<lparr>version = ''1.0'', doc_metadata = empty_metadata,
             sequence =
               [Command ''a'' ''connect_robot''
                  (Some [(''ip_address'', JStr ''192.168.0.10''), (''port'', JNum (Num 60008)),
                         (''timeout_ms'', JNum (Num 0))]),
                If ''b''
                  [(LiteralBoolean True,
                    [Command ''d'' ''grab'' None, Command ''e'' ''release'' None])]
                  (Some [Command ''f'' ''stop_motion'' (Some [])]),
                Repeat ''h'' (LiteralNumber (Num 3))
                  [Command ''j'' ''power_on_servo'' None, Command ''k'' ''power_off_servo'' None],
                Command ''l'' ''disconnect_robot'' None]\<rparr>,
            example_world\<lparr>console := [''Ignoring unsupported statement block: text_print'']\<rparr>)"
    by (simp add: s l workspaceToDocument_def example_program_def)
  from sequence_order_is_chain_order [where H = example_host
      and ob = "Some example_chain" and md = empty_metadata and w = example_world,
      THEN conjunct1, THEN mp, OF s, THEN conjunct2, THEN mp, OF p(2)]
  have "map node_id
        [Command ''a'' ''connect_robot''
           (Some [(''ip_address'', JStr ''192.168.0.10''), (''port'', JNum (Num 60008)),
                  (''timeout_ms'', JNum (Num 0))]),
         If ''b''
           [(LiteralBoolean True,
             [Command ''d'' ''grab'' None, Command ''e'' ''release'' None])]
           (Some [Command ''f'' ''stop_motion'' (Some [])]),
         Repeat ''h'' (LiteralNumber (Num 3))
           [Command ''j'' ''power_on_servo'' None, Command ''k'' ''power_off_servo'' None]]
      = map ownId (producers (Some example_chain))" .
  with d p show ?thesis by simp
qed

end
